theory Spec2Isabelle
  imports Complex_Main "HOL-Library.Word"
begin

section \<open>Physical plan builder of the cost-based optimizer (plan/physical\_plan\_builder.go)\<close>

subsection \<open>Machine numbers\<close>

text \<open>
  Go's \<open>int64\<close> and \<open>uint64\<close> are 64-bit words; \<open>sint\<close> reads the signed value,
  \<open>uint\<close>/\<open>unat\<close> the unsigned one, and \<open>uint64(x)\<close> of an \<open>int64\<close> keeps the bits.

  A finite \<open>float64\<close> is modelled by the real number it holds. \<open>rnd\<close> is the rounding
  of IEEE 754 binary64, to the nearest value with a 53-bit significand, ties to the even
  significand, with gradual underflow below \<open>2^-1022\<close>: \<open>ilog2 x\<close> is the binary exponent
  of \<open>x > 0\<close>, and the last place of the result has the weight \<open>2^(e - 52)\<close>. Overflow
  to an infinity is \<open>float64x_of_real\<close> below. The sign of a zero is not modelled: nothing
  in the code divides by a zero other than \<open>float64(0)\<close>.

  Every row count that the code computes through a \<open>float64\<close> is computed here with that
  rounding (\<open>getRowCountByIndexRanges\<close>, \<open>scaleCount\<close>). Costs, which are only added,
  multiplied by constants and compared, are kept as exact reals.
\<close>

type_synonym int64 = "64 word"
type_synonym uint64 = "64 word"
type_synonym float64 = real

function floorlog2 :: "int \<Rightarrow> int" where
  "floorlog2 n = (if n < 2 then 0 else 1 + floorlog2 (n div 2))"
  by auto
termination by (relation "measure nat") auto

declare floorlog2.simps [simp del]

definition ilog2 :: "real \<Rightarrow> int" where
  "ilog2 x = (if 1 \<le> x then floorlog2 \<lfloor>x\<rfloor> else - 1 - floorlog2 (\<lceil>1 / x\<rceil> - 1))"

text \<open>The nearest integer, a tie going to the even one.\<close>

definition rne :: "real \<Rightarrow> int" where
  "rne y = (let f = \<lfloor>y\<rfloor>; d = y - of_int f
            in if d < 1 / 2 then f else if 1 / 2 < d then f + 1
               else if even f then f else f + 1)"

definition ulpexp :: "real \<Rightarrow> int" where
  "ulpexp x = max (ilog2 \<bar>x\<bar>) (- 1022) - 52"

definition rnd :: "real \<Rightarrow> float64" where
  "rnd x = (if x = 0 then 0 else of_int (rne (x / 2 powi ulpexp x)) * 2 powi ulpexp x)"

text \<open>The integer part of a real, towards zero: what \<open>uint64(f)\<close> keeps of \<open>f\<close>.\<close>

definition trunc :: "real \<Rightarrow> int" where
  "trunc v = (if v < 0 then \<lceil>v\<rceil> else \<lfloor>v\<rfloor>)"

text \<open>\<open>float64(x)\<close> of an \<open>int64\<close> rounds: above \<open>2^53\<close> not every integer is a \<open>float64\<close>.\<close>

definition float64_of_int64 :: "int64 \<Rightarrow> float64" where
  "float64_of_int64 x = rnd (real_of_int (sint x))"

text \<open>The value of a \<open>uint64\<close> as a real, for the cost formulas.\<close>

definition float64_of_uint64 :: "uint64 \<Rightarrow> float64" where
  "float64_of_uint64 x = real_of_int (uint x)"

text \<open>
  \<open>uint64(float64(n) * factor)\<close> with one of the constant factors of the cost model, all
  between 0 and 1: the conversion of \<open>n\<close>, the constant and the product are each rounded
  to a \<open>float64\<close>. The product is not negative and below \<open>2^64\<close>, so that the truncation
  of \<open>uint64(...)\<close> is defined.
\<close>

definition scaleCount :: "uint64 \<Rightarrow> real \<Rightarrow> uint64" where
  "scaleCount n factor = word_of_int (trunc (rnd (rnd (float64_of_uint64 n) * rnd factor)))"

subsection \<open>Cost model constants\<close>

definition netWorkFactor :: float64 where "netWorkFactor = 15 / 10"
definition memoryFactor :: float64 where "memoryFactor = 5"
definition selectionFactor :: float64 where "selectionFactor = 8 / 10"
definition distinctFactor :: float64 where "distinctFactor = 7 / 10"
definition cpuFactor :: float64 where "cpuFactor = 9 / 10"
definition aggFactor :: float64 where "aggFactor = 1 / 10"
definition joinFactor :: float64 where "joinFactor = 3 / 10"

text \<open>\<open>math.MaxFloat64\<close>, the cost of a plan that cannot satisfy the required property.\<close>

definition MaxFloat64 :: float64 where
  "MaxFloat64 = (2 ^ 53 - 1) * 2 ^ 971"

definition JoinConcurrency :: int where "JoinConcurrency = 5"

subsection \<open>Infinities and NaN\<close>

text \<open>
  \<open>getRowCountByIndexRanges\<close> can produce a NaN (the quotient \<open>0/0\<close> for an empty table)
  and, in a sum, an infinity. There a \<open>float64\<close> is a finite value, an infinity or NaN, and
  an operation rounds its exact result and overflows beyond \<open>math.MaxFloat64\<close>.
\<close>

datatype float64x = Finite float64 | PosInf | NegInf | NaN

definition float64x_of_real :: "real \<Rightarrow> float64x" where
  "float64x_of_real x =
     (let r = rnd x
      in if MaxFloat64 < r then PosInf else if r < - MaxFloat64 then NegInf else Finite r)"

definition infinity :: "bool \<Rightarrow> float64x" where
  "infinity neg = (if neg then NegInf else PosInf)"

fun negative :: "float64x \<Rightarrow> bool" where
  "negative (Finite x) = (x < 0)"
| "negative NegInf = True"
| "negative PosInf = False"
| "negative NaN = False"

definition fadd :: "float64x \<Rightarrow> float64x \<Rightarrow> float64x" where
  "fadd a b =
     (if a = NaN \<or> b = NaN then NaN
      else case (a, b) of
             (Finite x, Finite y) \<Rightarrow> float64x_of_real (x + y)
           | (Finite x, _) \<Rightarrow> b
           | (_, Finite y) \<Rightarrow> a
           | _ \<Rightarrow> if a = b then a else NaN)"

definition fmul :: "float64x \<Rightarrow> float64x \<Rightarrow> float64x" where
  "fmul a b =
     (if a = NaN \<or> b = NaN then NaN
      else case (a, b) of
             (Finite x, Finite y) \<Rightarrow> float64x_of_real (x * y)
           | _ \<Rightarrow> if a = Finite 0 \<or> b = Finite 0 then NaN
                  else infinity (negative a \<noteq> negative b))"

definition fdiv :: "float64x \<Rightarrow> float64x \<Rightarrow> float64x" where
  "fdiv a b =
     (if a = NaN \<or> b = NaN then NaN
      else case (a, b) of
             (Finite x, Finite y) \<Rightarrow>
               if y = 0 then (if x = 0 then NaN else infinity (x < 0))
               else float64x_of_real (x / y)
           | (Finite x, _) \<Rightarrow> Finite 0
           | (_, Finite y) \<Rightarrow> infinity (negative a \<noteq> (y < 0))
           | _ \<Rightarrow> NaN)"

text \<open>\<open>a > b\<close>; a comparison with a NaN is false.\<close>

definition fgt :: "float64x \<Rightarrow> float64x \<Rightarrow> bool" where
  "fgt a b =
     (case (a, b) of
        (NaN, _) \<Rightarrow> False
      | (_, NaN) \<Rightarrow> False
      | (Finite x, Finite y) \<Rightarrow> y < x
      | (Finite x, _) \<Rightarrow> b = NegInf
      | (_, Finite y) \<Rightarrow> a = PosInf
      | _ \<Rightarrow> a = PosInf \<and> b = NegInf)"

text \<open>
  \<open>uint64(f)\<close> truncates towards zero. When the truncated value does not fit
  (negative, too large, an infinity or NaN), Go leaves the result to the implementation:
  \<open>cvt\<close> stands for that choice.
\<close>

definition uint64_of_float64 :: "(float64x \<Rightarrow> uint64) \<Rightarrow> float64x \<Rightarrow> uint64" where
  "uint64_of_float64 cvt x =
     (case x of
        Finite v \<Rightarrow> if - 1 < v \<and> v < 2 ^ 64 then word_of_int (trunc v) else cvt x
      | _ \<Rightarrow> cvt x)"

subsection \<open>Results of Go functions\<close>

text \<open>
  A Go function either returns its values or panics (index out of range, nil
  dereference). The conversions return a pair: a plan info pointer, possibly nil, and an
  error, possibly nil.
\<close>

datatype error = Error string

datatype 'a outcome = Panic | Return 'a

subsection \<open>sortCost\<close>

definition sortCost :: "uint64 \<Rightarrow> float64" where
  "sortCost cnt =
     (if cnt = 0 then 0
      else float64_of_uint64 cnt * log 2 (float64_of_uint64 cnt) * cpuFactor
           + memoryFactor * float64_of_uint64 cnt)"

subsection \<open>Statistics and getRowCountByIndexRanges\<close>

text \<open>
  A datum is read only through its kind: the three kinds the function tests, and integers
  and strings for the values of the other kinds.
\<close>

datatype Datum = KindNull | KindMinNotNull | KindMaxValue | KindInt64 int64 | KindString string

text \<open>
  The histogram of a column (package statistics, not part of the sources at hand) is taken
  as given: four estimators, each returning a row count and an error.
\<close>

record Column_stats =
  EqualRowCount :: "Datum \<Rightarrow> int64 \<times> error option"
  LessRowCount :: "Datum \<Rightarrow> int64 \<times> error option"
  GreaterRowCount :: "Datum \<Rightarrow> int64 \<times> error option"
  BetweenRowCount :: "Datum \<Rightarrow> Datum \<Rightarrow> int64 \<times> error option"

record Table =
  Count :: int64
  Columns :: "Column_stats list"

record IndexRange =
  LowVal :: "Datum list"
  HighVal :: "Datum list"

record IndexColumn =
  Offset :: int

record IndexInfo =
  IndexColumns :: "IndexColumn list"

text \<open>Indexing a slice panics out of range.\<close>

definition index :: "'a list \<Rightarrow> int \<Rightarrow> 'a option" where
  "index xs i = (if 0 \<le> i \<and> i < int (length xs) then Some (xs ! nat i) else None)"

text \<open>
  Lines 50 to 82: the row count of one range. \<open>Inl\<close> is an exit from the whole function
  (the short-circuit, an error, a panic), \<open>Inr\<close> the \<open>rowCount\<close> that line 83 uses.
  \<open>cmp\<close> is \<open>Datum.CompareDatum\<close>. \<open>table.Columns[offset]\<close> is read, and panics out of
  range, where an estimator is called: in the last branch after the comparison and its
  error.
\<close>

definition indexRangeRowCount ::
  "(Datum \<Rightarrow> Datum \<Rightarrow> int \<times> error option) \<Rightarrow> Table \<Rightarrow> IndexInfo \<Rightarrow> IndexRange
     \<Rightarrow> (uint64 \<times> error option) outcome + int64" where
  "indexRangeRowCount cmp table indexInfo indexRange =
     (let i = int (length (LowVal indexRange)) - 1 in
      case index (LowVal indexRange) i of None \<Rightarrow> Inl Panic | Some l \<Rightarrow>
      case index (HighVal indexRange) i of None \<Rightarrow> Inl Panic | Some r \<Rightarrow>
      case index (IndexColumns indexInfo) i of None \<Rightarrow> Inl Panic | Some ic \<Rightarrow>
      let offset = Offset ic in
      if l = KindNull \<and> r = KindMaxValue then Inl (Return (Count table, None))
      else if l = KindMinNotNull then
        (case index (Columns table) offset of None \<Rightarrow> Inl Panic | Some column \<Rightarrow>
         case EqualRowCount column KindNull of (rowCount, err) \<Rightarrow>
           if r = KindMaxValue then
             (case err of Some e \<Rightarrow> Inl (Return (0, Some e))
                        | None \<Rightarrow> Inr (Count table - rowCount))
           else if err = None then
             (case LessRowCount column r of (lessCount, err1) \<Rightarrow>
                (case err1 of Some e \<Rightarrow> Inl (Return (0, Some e))
                            | None \<Rightarrow> Inr (lessCount - rowCount)))
           else Inl (Return (0, err)))
      else if r = KindMaxValue then
        (case index (Columns table) offset of None \<Rightarrow> Inl Panic | Some column \<Rightarrow>
         case GreaterRowCount column l of (rowCount, err) \<Rightarrow>
           (case err of Some e \<Rightarrow> Inl (Return (0, Some e)) | None \<Rightarrow> Inr rowCount))
      else
        (case cmp l r of (compare, err1) \<Rightarrow>
           (case err1 of Some e \<Rightarrow> Inl (Return (0, Some e)) | None \<Rightarrow>
              (case index (Columns table) offset of None \<Rightarrow> Inl Panic | Some column \<Rightarrow>
               case (if compare = 0 then EqualRowCount column l
                     else BetweenRowCount column l r) of (rowCount, err) \<Rightarrow>
                 (case err of Some e \<Rightarrow> Inl (Return (0, Some e))
                            | None \<Rightarrow> Inr rowCount)))))"

text \<open>Lines 86 to 88: one division by 100 for every leading dimension.\<close>

fun divide100 :: "nat \<Rightarrow> float64x \<Rightarrow> float64x" where
  "divide100 0 count = count"
| "divide100 (Suc j) count = divide100 j (fdiv count (Finite 100))"

text \<open>
  Lines 49, 83 to 88: the contribution of one range. \<open>count\<close> starts as
  \<open>float64(table.Count)\<close> and is divided by \<open>float64(table.Count)\<close>: for an empty table
  that is \<open>0/0\<close>, a NaN, which every later operation keeps.
\<close>

definition indexRangeCount :: "Table \<Rightarrow> IndexRange \<Rightarrow> int64 \<Rightarrow> float64x" where
  "indexRangeCount table indexRange rowCount =
     (let count = Finite (float64_of_int64 (Count table));
          count1 = fmul (fdiv count (Finite (float64_of_int64 (Count table))))
                        (Finite (float64_of_int64 rowCount))
      in divide100 (length (LowVal indexRange) - 1) count1)"

text \<open>The loop of lines 48 to 90, \<open>totalCount\<close> threaded through.\<close>

fun sumIndexRanges ::
  "(Datum \<Rightarrow> Datum \<Rightarrow> int \<times> error option) \<Rightarrow> Table \<Rightarrow> IndexInfo \<Rightarrow> IndexRange list
     \<Rightarrow> float64x \<Rightarrow> (uint64 \<times> error option) outcome + float64x" where
  "sumIndexRanges cmp table indexInfo [] totalCount = Inr totalCount"
| "sumIndexRanges cmp table indexInfo (indexRange # rest) totalCount =
     (case indexRangeRowCount cmp table indexInfo indexRange of
        Inl exit \<Rightarrow> Inl exit
      | Inr rowCount \<Rightarrow>
          sumIndexRanges cmp table indexInfo rest
            (fadd totalCount (indexRangeCount table indexRange rowCount)))"

text \<open>Lines 91 to 99.\<close>

definition clampTotalCount :: "(float64x \<Rightarrow> uint64) \<Rightarrow> Table \<Rightarrow> float64x \<Rightarrow> uint64" where
  "clampTotalCount cvt table totalCount =
     (let totalCount1 = (if uint64_of_float64 cvt totalCount < 1000 then Finite 1000
                         else totalCount);
          totalCount2 = (if fgt totalCount1 (Finite (float64_of_int64 (Count table)))
                         then fdiv (Finite (float64_of_int64 (Count table))) (Finite 3)
                         else totalCount1)
      in uint64_of_float64 cvt totalCount2)"

definition getRowCountByIndexRanges ::
  "(float64x \<Rightarrow> uint64) \<Rightarrow> (Datum \<Rightarrow> Datum \<Rightarrow> int \<times> error option) \<Rightarrow> Table
     \<Rightarrow> IndexRange list \<Rightarrow> IndexInfo \<Rightarrow> (uint64 \<times> error option) outcome" where
  "getRowCountByIndexRanges cvt cmp table indexRanges indexInfo =
     (case sumIndexRanges cmp table indexInfo indexRanges (Finite 0) of
        Inl exit \<Rightarrow> exit
      | Inr totalCount \<Rightarrow> Return (clampTotalCount cvt table totalCount, None))"

subsection \<open>Expressions, schemas and required properties\<close>

text \<open>
  Modelled from the spec: a column of package expression, which is not part of the sources
  at hand. A schema is an ordered list of unique columns, and \<open>GetIndex\<close> is the position
  of a column in it, \<open>-1\<close> when the column is absent.
\<close>

record Column =
  FromID :: string
  Position :: int

datatype Expression =
    ColumnExpr Column
  | Constant Datum
  | ScalarFunction string "Expression list"
  | CorrelatedColumn Column

type_synonym Schema = "Column list"

fun GetIndex :: "Schema \<Rightarrow> Column \<Rightarrow> int" where
  "GetIndex [] c = - 1"
| "GetIndex (x # xs) c =
     (if x = c then 0 else (let i = GetIndex xs c in if i = - 1 then - 1 else i + 1))"

record columnProp =
  col :: Column
  desc :: bool

record Limit =
  LimitOffset :: uint64
  LimitCount :: uint64

record requiredProperty =
  props :: "columnProp list"
  sortKeyLen :: int
  limit :: "Limit option"

text \<open>\<open>&requiredProperty{}\<close>, the property that asks for nothing.\<close>

definition emptyProperty :: requiredProperty where
  "emptyProperty = \<lparr>props = [], sortKeyLen = 0, limit = None\<rparr>"

subsection \<open>Physical plans and plan infos\<close>

datatype AggregationType = StreamedAgg | FinalAgg | CompleteAgg

datatype JoinType = InnerJoin | LeftOuterJoin | RightOuterJoin | SemiJoin | SemiJoinWithAux

datatype AggFunctionMode = CompleteMode | FinalMode

record AggregationFunction =
  GetMode :: AggFunctionMode
  IsDistinct :: bool

record ByItems =
  Expr :: Expression
  Desc :: bool

record JoinConditions =
  EqualConditions :: "Expression list"
  LeftConditions :: "Expression list"
  RightConditions :: "Expression list"
  OtherConditions :: "Expression list"

text \<open>
  The operator of a physical plan node with its parameters. The plans that are logical and
  physical at once (Sort, Limit, Projection, Selection, Distinct, Union) appear as the copy
  that \<open>addPlanToResponse\<close> makes of them. The type name, the id and the allocator of
  a node are labels that no decision reads; they are left out.
\<close>

datatype PhysicalOp =
    PhysicalDummyScan
  | PhysicalTableScan
  | PhysicalIndexScan
  | PhysicalHashJoin JoinType int int JoinConditions "Datum list"
  | PhysicalHashSemiJoin bool bool JoinConditions
  | PhysicalAggregation AggregationType bool "AggregationFunction list" "Expression list"
  | PhysicalApply "Column list"
  | Cache
  | OpSort "ByItems list" "Limit option"
  | OpLimit Limit
  | OpProjection "Expression list"
  | OpSelection "Expression list" bool
  | OpDistinct
  | OpUnion

text \<open>A child may be nil: \<open>SetChildren(info.p)\<close> is called with whatever the info holds.\<close>

datatype PhysicalPlan =
  PhysicalPlan (op: PhysicalOp) (IsCorrelated: bool) (GetSchema: Schema)
    (GetChildren: "PhysicalPlan option list")

record physicalPlanInfo =
  plan :: "PhysicalPlan option"
  cost :: float64
  count :: uint64

text \<open>\<open>&physicalPlanInfo{cost: math.MaxFloat64}\<close>: the property cannot be satisfied.\<close>

definition unsatisfiable :: physicalPlanInfo where
  "unsatisfiable = \<lparr>plan = None, cost = MaxFloat64, count = 0\<rparr>"

text \<open>
  What a conversion returns: the pair of Go results, or a panic. A conversion runs on a
  state (the memo tables below the node) and returns the state it leaves.
\<close>

type_synonym ret = "(physicalPlanInfo option \<times> error option) outcome"

type_synonym 's conv = "requiredProperty \<Rightarrow> 's \<Rightarrow> ret \<times> 's"

subsection \<open>The memo of a logical node\<close>

text \<open>
  Modelled from the spec: \<open>getPlanInfo\<close> and \<open>storePlanInfo\<close> of the logical base
  plan, which are not part of the sources at hand. The memo of a node maps a required
  property to a plan info; two properties are the same key exactly when they are
  structurally equal (columns, directions, sortKeyLen, limit); entries are never removed.
  The spec names no failure of either operation, so the error they return is nil; the
  callers' error branches are kept as the source has them.
\<close>

type_synonym memo = "requiredProperty \<rightharpoonup> physicalPlanInfo"

text \<open>The memo of a node that has not been converted yet.\<close>

definition emptyMemo :: memo where
  "emptyMemo = Map.empty"

definition getPlanInfo :: "memo \<Rightarrow> requiredProperty \<Rightarrow> physicalPlanInfo option \<times> error option" where
  "getPlanInfo m prop = (m prop, None)"

definition storePlanInfo :: "memo \<Rightarrow> requiredProperty \<Rightarrow> physicalPlanInfo \<Rightarrow> memo \<times> error option" where
  "storePlanInfo m prop info = (m(prop \<mapsto> info), None)"

subsection \<open>Helpers on plan infos and properties\<close>

definition setChildren :: "PhysicalPlan \<Rightarrow> PhysicalPlan option list \<Rightarrow> PhysicalPlan" where
  "setChildren np cs = PhysicalPlan (op np) (IsCorrelated np) (GetSchema np) cs"

definition addPlanToResponse :: "PhysicalPlan \<Rightarrow> physicalPlanInfo \<Rightarrow> physicalPlanInfo" where
  "addPlanToResponse parent info =
     \<lparr>plan = Some (setChildren parent [plan info]), cost = cost info, count = count info\<rparr>"

definition enforceProperty :: "requiredProperty \<Rightarrow> physicalPlanInfo \<Rightarrow> physicalPlanInfo" where
  "enforceProperty prop info =
     (case plan info of
        None \<Rightarrow> info
      | Some pl \<Rightarrow>
          (let info1 =
             (if props prop \<noteq> [] then
                (let items = map (\<lambda>c. \<lparr>Expr = ColumnExpr (col c), Desc = desc c\<rparr>) (props prop);
                     sort = PhysicalPlan (OpSort items (limit prop)) (IsCorrelated pl) (GetSchema pl) [];
                     info2 = addPlanToResponse sort info;
                     cnt = (case limit prop of
                              None \<Rightarrow> count info2
                            | Some l \<Rightarrow> LimitOffset l + LimitCount l)
                 in info2\<lparr>cost := cost info2 + sortCost cnt\<rparr>)
              else
                (case limit prop of
                   None \<Rightarrow> info
                 | Some l \<Rightarrow>
                     addPlanToResponse
                       (PhysicalPlan (OpLimit l) (IsCorrelated pl) (GetSchema pl) []) info))
           in case limit prop of
                None \<Rightarrow> info1
              | Some l \<Rightarrow> if LimitCount l < count info1 then info1\<lparr>count := LimitCount l\<rparr> else info1))"

definition removeLimit :: "requiredProperty \<Rightarrow> requiredProperty" where
  "removeLimit prop = \<lparr>props = props prop, sortKeyLen = sortKeyLen prop, limit = None\<rparr>"

definition convertLimitOffsetToCount :: "requiredProperty \<Rightarrow> requiredProperty" where
  "convertLimitOffsetToCount prop =
     \<lparr>props = props prop, sortKeyLen = sortKeyLen prop,
      limit = (case limit prop of
                 None \<Rightarrow> None
               | Some l \<Rightarrow> Some \<lparr>LimitOffset = 0, LimitCount = LimitOffset l + LimitCount l\<rparr>)\<rparr>"

definition limitProperty :: "Limit option \<Rightarrow> requiredProperty" where
  "limitProperty l = \<lparr>props = [], sortKeyLen = 0, limit = l\<rparr>"

text \<open>
  The common base of the logical nodes: the output schema and the correlation flag.
  Children are arguments of the conversions below, as the conversions they offer.
\<close>

record baseLogicalPlan =
  schema :: Schema
  correlated :: bool

subsection \<open>Limit and Distinct\<close>

text \<open>
  Every conversion below has the shape of its source: the memo of the node is asked first;
  on a miss the children are converted, in the order of the source, each call followed by
  the source's error check; a nil plan info that is dereferenced is a panic. The state of
  a node is its own memo paired with the state of everything below it.
\<close>

definition Limit_convert2PhysicalPlan :: "Limit \<Rightarrow> 's conv \<Rightarrow> (memo \<times> 's) conv" where
  "Limit_convert2PhysicalPlan p child prop st =
     (case st of (m, s) \<Rightarrow>
      case getPlanInfo m prop of
        (_, Some e) \<Rightarrow> (Return (None, Some e), st)
      | (Some info, None) \<Rightarrow> (Return (Some info, None), st)
      | (None, None) \<Rightarrow>
          (case child (limitProperty
                        (Some \<lparr>LimitOffset = LimitOffset p, LimitCount = LimitCount p\<rparr>)) s of
             (Panic, s1) \<Rightarrow> (Panic, (m, s1))
           | (Return (_, Some e), s1) \<Rightarrow> (Return (None, Some e), (m, s1))
           | (Return (None, None), s1) \<Rightarrow> (Panic, (m, s1))
           | (Return (Some info, None), s1) \<Rightarrow>
               (let info1 = enforceProperty prop info
                in (Return (Some info1, None), (fst (storePlanInfo m prop info1), s1)))))"

definition Distinct_convert2PhysicalPlan :: "baseLogicalPlan \<Rightarrow> 's conv \<Rightarrow> (memo \<times> 's) conv" where
  "Distinct_convert2PhysicalPlan p child prop st =
     (case st of (m, s) \<Rightarrow>
      case getPlanInfo m prop of
        (_, Some e) \<Rightarrow> (Return (None, Some e), st)
      | (Some info, None) \<Rightarrow> (Return (Some info, None), st)
      | (None, None) \<Rightarrow>
          (case child (removeLimit prop) s of
             (Panic, s1) \<Rightarrow> (Panic, (m, s1))
           | (Return (_, Some e), s1) \<Rightarrow> (Return (None, Some e), (m, s1))
           | (Return (None, None), s1) \<Rightarrow> (Panic, (m, s1))
           | (Return (Some info, None), s1) \<Rightarrow>
               (let info1 = addPlanToResponse
                              (PhysicalPlan OpDistinct (correlated p) (schema p) []) info;
                    info2 = info1\<lparr>count :=
                              scaleCount (count info1) distinctFactor\<rparr>;
                    info3 = enforceProperty (limitProperty (limit prop)) info2
                in (Return (Some info3, None), (fst (storePlanInfo m prop info3), s1)))))"

subsection \<open>Projection\<close>

record Projection = baseLogicalPlan +
  Exprs :: "Expression list"

text \<open>
  The loop of lines 979 to 995 over the requested columns. \<open>Return None\<close> is the
  \<open>break\<close> with \<open>canPassSort = false\<close>; \<open>Return (Some newProp)\<close> is the end of
  the loop. \<open>p.Exprs[idx]\<close> and \<open>usedCols[childIdx]\<close> panic out of range, which is what
  an index of \<open>-1\<close> from \<open>GetIndex\<close> does.
\<close>

fun projectionProps ::
  "Schema \<Rightarrow> Expression list \<Rightarrow> Schema \<Rightarrow> columnProp list \<Rightarrow> bool list \<Rightarrow> requiredProperty
     \<Rightarrow> requiredProperty option outcome" where
  "projectionProps sch exprs childSchema [] usedCols newProp = Return (Some newProp)"
| "projectionProps sch exprs childSchema (c # cs) usedCols newProp =
     (case index exprs (GetIndex sch (col c)) of
        None \<Rightarrow> Panic
      | Some (ColumnExpr v) \<Rightarrow>
          (let childIdx = GetIndex childSchema v in
           case index usedCols childIdx of
             None \<Rightarrow> Panic
           | Some used \<Rightarrow>
               if \<not> used then
                 projectionProps sch exprs childSchema cs (usedCols[nat childIdx := True])
                   (newProp\<lparr>props := props newProp @ [\<lparr>col = v, desc = desc c\<rparr>]\<rparr>)
               else projectionProps sch exprs childSchema cs usedCols newProp)
      | Some (ScalarFunction f args) \<Rightarrow> Return None
      | Some _ \<Rightarrow>
          projectionProps sch exprs childSchema cs usedCols
            (newProp\<lparr>sortKeyLen := sortKeyLen newProp - 1\<rparr>))"

definition Projection_convert2PhysicalPlan ::
  "Projection \<Rightarrow> Schema \<Rightarrow> 's conv \<Rightarrow> (memo \<times> 's) conv" where
  "Projection_convert2PhysicalPlan p childSchema child prop st =
     (case st of (m, s) \<Rightarrow>
      case getPlanInfo m prop of
        (_, Some e) \<Rightarrow> (Return (None, Some e), st)
      | (Some info, None) \<Rightarrow> (Return (Some info, None), st)
      | (None, None) \<Rightarrow>
          (case projectionProps (schema p) (Exprs p) childSchema (props prop)
                  (replicate (length childSchema) False)
                  \<lparr>props = [], sortKeyLen = sortKeyLen prop, limit = limit prop\<rparr> of
             Panic \<Rightarrow> (Panic, st)
           | Return None \<Rightarrow> (Return (Some unsatisfiable, None), st)
           | Return (Some newProp) \<Rightarrow>
               (case child newProp s of
                  (Panic, s1) \<Rightarrow> (Panic, (m, s1))
                | (Return (_, Some e), s1) \<Rightarrow> (Return (None, Some e), (m, s1))
                | (Return (None, None), s1) \<Rightarrow> (Panic, (m, s1))
                | (Return (Some info, None), s1) \<Rightarrow>
                    (let info1 = addPlanToResponse
                                   (PhysicalPlan (OpProjection (Exprs p)) (correlated p) (schema p) [])
                                   info
                     in (Return (Some info1, None), (fst (storePlanInfo m prop info1), s1))))))"

subsection \<open>Sort and matchProp\<close>

record Sort = baseLogicalPlan +
  ByItems :: "ByItems list"

text \<open>Lines 1044 to 1051: the sort keys as a property, nil as soon as one is not a column.\<close>

fun sortSelfProps :: "ByItems list \<Rightarrow> columnProp list \<Rightarrow> columnProp list" where
  "sortSelfProps [] acc = acc"
| "sortSelfProps (by # rest) acc =
     (case Expr by of
        ColumnExpr c \<Rightarrow> sortSelfProps rest (acc @ [\<lparr>col = c, desc = Desc by\<rparr>])
      | _ \<Rightarrow> [])"

text \<open>
  \<open>matchProp\<close>, lines 1008 to 1030. The first loop compares the sort prefix position by
  position; the second looks for every remaining column of the target anywhere in the
  candidate. The first indexes \<open>target.props\<close> and panics out of range. The second
  starts at \<open>sortKeyLen\<close>: when that is negative, \<open>target.props[i]\<close> is read, and
  panics, inside the loop over the candidate's columns, so that an empty candidate gives
  false. Modelled from the spec:
  \<open>columnProp.equal\<close> and \<open>Column.Equal\<close>, which are not part of the sources at
  hand, hold of the same column, and for \<open>columnProp.equal\<close> the same direction.
\<close>

fun matchSortKey :: "columnProp list \<Rightarrow> columnProp list \<Rightarrow> nat \<Rightarrow> nat \<Rightarrow> bool outcome" where
  "matchSortKey target new i 0 = Return True"
| "matchSortKey target new i (Suc k) =
     (case index target (int i) of
        None \<Rightarrow> Panic
      | Some a \<Rightarrow>
          (case index new (int i) of
             None \<Rightarrow> Panic
           | Some b \<Rightarrow> if a \<noteq> b then Return False else matchSortKey target new (Suc i) k))"

definition matchProp :: "requiredProperty \<Rightarrow> requiredProperty \<Rightarrow> bool outcome" where
  "matchProp target new =
     (if sortKeyLen target > int (length (props new)) then Return False
      else
        (case matchSortKey (props target) (props new) 0 (nat (sortKeyLen target)) of
           Panic \<Rightarrow> Panic
         | Return False \<Rightarrow> Return False
         | Return True \<Rightarrow>
             if sortKeyLen target < 0 then (if props new = [] then Return False else Panic)
             else Return (list_all (\<lambda>t. list_ex (\<lambda>pro. col pro = col t) (props new))
                            (drop (nat (sortKeyLen target)) (props target)))))"

definition Sort_convert2PhysicalPlan :: "Sort \<Rightarrow> 's conv \<Rightarrow> (memo \<times> 's) conv" where
  "Sort_convert2PhysicalPlan p child prop st =
     (case st of (m, s) \<Rightarrow>
      case getPlanInfo m prop of
        (_, Some e) \<Rightarrow> (Return (None, Some e), st)
      | (Some info, None) \<Rightarrow> (Return (Some info, None), st)
      | (None, None) \<Rightarrow>
          (let ps = sortSelfProps (ByItems p) [];
               selfProp = \<lparr>props = ps, sortKeyLen = int (length ps),
                           limit = (if ps \<noteq> [] \<and> props prop = [] \<and> limit prop \<noteq> None
                                    then limit prop else None)\<rparr>
           in case child selfProp s of
                (Panic, s1) \<Rightarrow> (Panic, (m, s1))
              | (Return (_, Some e), s1) \<Rightarrow> (Return (None, Some e), (m, s1))
              | (Return (sortedPlanInfo, None), s1) \<Rightarrow>
                  (case child emptyProperty s1 of
                     (Panic, s2) \<Rightarrow> (Panic, (m, s2))
                   | (Return (_, Some e), s2) \<Rightarrow> (Return (None, Some e), (m, s2))
                   | (Return (None, None), s2) \<Rightarrow> (Panic, (m, s2))
                   | (Return (Some unSortedPlanInfo, None), s2) \<Rightarrow>
                       (case sortedPlanInfo of
                          None \<Rightarrow> (Panic, (m, s2))
                        | Some sortedInfo \<Rightarrow>
                            (let cst = sortCost (count unSortedPlanInfo);
                                 np = (\<lambda>l. PhysicalPlan (OpSort (ByItems p) l)
                                              (correlated p) (schema p) []);
                                 info1 =
                                   (if ps = [] then addPlanToResponse (np (limit prop)) sortedInfo
                                    else if cst + cost unSortedPlanInfo < cost sortedInfo
                                    then addPlanToResponse (np (limit selfProp)) unSortedPlanInfo
                                    else sortedInfo)
                             in case matchProp prop selfProp of
                                  Panic \<Rightarrow> (Panic, (m, s2))
                                | Return ok \<Rightarrow>
                                    (let info2 = (if ok then info1
                                                  else info1\<lparr>cost := MaxFloat64\<rparr>)
                                     in (Return (Some info2, None),
                                         (fst (storePlanInfo m prop info2), s2))))))))"

subsection \<open>DataSource\<close>

text \<open>
  What a data source sees of its first parent: whether it is a Selection, and then its
  conditions. \<open>GetParentByIndex(0)\<close> is nil for a node without parents, while
  \<open>p.parents[0]\<close> panics.
\<close>

datatype ParentPlan = SelectionParent "Expression list" | OtherParent

record 'i DataSource = baseLogicalPlan +
  parents :: "ParentPlan list"
  includeTableScan :: bool
  indices :: "'i list"

text \<open>
  \<open>availableIndices\<close> is carried by the node as \<open>indices\<close> and \<open>includeTableScan\<close>.
  \<open>convert2TableScan\<close> and \<open>convert2IndexScan\<close> build their candidates from the storage
  client, the transaction, the range builders and \<open>matchProperty\<close> of the scans, none of
  which is in the sources at hand; they do not touch the memo. The conversion takes them as
  the two functions \<open>tableScan\<close> and \<open>indexScan\<close>, and \<open>expression.EvalBool\<close> on a
  constant as \<open>evalBool\<close>.
\<close>

fun dummyScanConds :: "(Datum \<Rightarrow> bool \<times> error option) \<Rightarrow> Expression list \<Rightarrow> error + bool" where
  "dummyScanConds evalBool [] = Inr False"
| "dummyScanConds evalBool (cond # rest) =
     (case cond of
        Constant con \<Rightarrow>
          (case evalBool con of
             (_, Some e) \<Rightarrow> Inl e
           | (result, None) \<Rightarrow>
               if \<not> result then Inr True else dummyScanConds evalBool rest)
      | _ \<Rightarrow> dummyScanConds evalBool rest)"

definition dummyInfo :: "Schema \<Rightarrow> physicalPlanInfo" where
  "dummyInfo sch = \<lparr>plan = Some (PhysicalPlan PhysicalDummyScan False sch []), cost = 0, count = 0\<rparr>"

definition tryToConvert2DummyScan ::
  "(Datum \<Rightarrow> bool \<times> error option) \<Rightarrow> ('i, 'z) DataSource_scheme \<Rightarrow> requiredProperty \<Rightarrow> memo
     \<Rightarrow> (physicalPlanInfo option \<times> error option) \<times> memo" where
  "tryToConvert2DummyScan evalBool p prop m =
     (case parents p of
        SelectionParent conds # _ \<Rightarrow>
          (case dummyScanConds evalBool conds of
             Inl e \<Rightarrow> ((None, Some e), m)
           | Inr True \<Rightarrow>
               (let info = dummyInfo (schema p)
                in ((Some info, None), fst (storePlanInfo m prop info)))
           | Inr False \<Rightarrow> ((None, None), m))
      | _ \<Rightarrow> ((None, None), m))"

definition need2ConsiderIndex :: "('i, 'z) DataSource_scheme \<Rightarrow> requiredProperty \<Rightarrow> bool outcome" where
  "need2ConsiderIndex p prop =
     (case parents p of
        [] \<Rightarrow> Panic
      | SelectionParent conds # _ \<Rightarrow> Return True
      | OtherParent # _ \<Rightarrow> Return (props prop \<noteq> []))"

text \<open>Lines 326 to 334: the cheapest index scan replaces the candidate found so far.\<close>

fun indexScanLoop ::
  "(requiredProperty \<Rightarrow> 'i \<Rightarrow> ret) \<Rightarrow> requiredProperty \<Rightarrow> 'i list \<Rightarrow> physicalPlanInfo option \<Rightarrow> ret" where
  "indexScanLoop indexScan prop [] info = Return (info, None)"
| "indexScanLoop indexScan prop (idx # rest) info =
     (case indexScan prop idx of
        Panic \<Rightarrow> Panic
      | Return (_, Some e) \<Rightarrow> Return (None, Some e)
      | Return (indexInfo, None) \<Rightarrow>
          (case info of
             None \<Rightarrow> indexScanLoop indexScan prop rest indexInfo
           | Some i \<Rightarrow>
               (case indexInfo of
                  None \<Rightarrow> Panic
                | Some ii \<Rightarrow>
                    indexScanLoop indexScan prop rest (if cost ii < cost i then Some ii else Some i))))"

text \<open>
  A nil info that reaches \<open>storePlanInfo\<close> (a data source with neither a table scan nor an
  index) has no place in the spec's memo, which holds plan infos; the model counts it as a
  panic.
\<close>

definition DataSource_convert2PhysicalPlan ::
  "(Datum \<Rightarrow> bool \<times> error option) \<Rightarrow> (requiredProperty \<Rightarrow> ret) \<Rightarrow> (requiredProperty \<Rightarrow> 'i \<Rightarrow> ret)
     \<Rightarrow> ('i, 'z) DataSource_scheme \<Rightarrow> memo conv" where
  "DataSource_convert2PhysicalPlan evalBool tableScan indexScan p prop m =
     (case getPlanInfo m prop of
        (_, Some e) \<Rightarrow> (Return (None, Some e), m)
      | (Some info, None) \<Rightarrow> (Return (Some info, None), m)
      | (None, None) \<Rightarrow>
          (case tryToConvert2DummyScan evalBool p prop m of
             ((info, err), m1) \<Rightarrow>
               if info \<noteq> None \<or> err \<noteq> None then (Return (info, err), m1)
               else
                 (case (if includeTableScan p then tableScan prop else Return (None, None)) of
                    Panic \<Rightarrow> (Panic, m1)
                  | Return (_, Some e) \<Rightarrow> (Return (None, Some e), m1)
                  | Return (info1, None) \<Rightarrow>
                      (case (if \<not> includeTableScan p then Return True
                             else need2ConsiderIndex p prop) of
                         Panic \<Rightarrow> (Panic, m1)
                       | Return consider \<Rightarrow>
                           (case (if consider then indexScanLoop indexScan prop (indices p) info1
                                  else Return (info1, None)) of
                              Panic \<Rightarrow> (Panic, m1)
                            | Return (_, Some e) \<Rightarrow> (Return (None, Some e), m1)
                            | Return (None, None) \<Rightarrow> (Panic, m1)
                            | Return (Some info2, None) \<Rightarrow>
                                (case storePlanInfo m1 prop info2 of
                                   (m2, err2) \<Rightarrow> (Return (Some info2, err2), m2)))))))"

subsection \<open>Selection\<close>

text \<open>
  The interface \<open>physicalDistSQLPlan\<close> of the scans that the storage layer runs is not in
  the sources at hand. Its methods are taken as given; the ones that change the receiver in
  place return the changed plan, and the change is made to the info at hand.
\<close>

record distSQL =
  isDistSQLPlan :: "PhysicalPlan \<Rightarrow> bool"
  addLimit :: "Limit \<Rightarrow> PhysicalPlan \<Rightarrow> PhysicalPlan"
  calculateCost :: "PhysicalPlan \<Rightarrow> uint64 \<Rightarrow> float64"
  addTopN :: "requiredProperty \<Rightarrow> PhysicalPlan \<Rightarrow> PhysicalPlan"
  addAggregation :: "PhysicalPlan \<Rightarrow> PhysicalPlan \<Rightarrow> Schema \<times> PhysicalPlan"

record Selection = baseLogicalPlan +
  Conditions :: "Expression list"

definition Selection_convert2PhysicalPlanPushOrder ::
  "distSQL \<Rightarrow> 's conv \<Rightarrow> 's conv" where
  "Selection_convert2PhysicalPlanPushOrder d child prop s =
     (case child (removeLimit prop) s of
        (Panic, s1) \<Rightarrow> (Panic, s1)
      | (Return (_, Some e), s1) \<Rightarrow> (Return (None, Some e), s1)
      | (Return (info, None), s1) \<Rightarrow>
          (case limit prop of
             None \<Rightarrow> (Return (info, None), s1)
           | Some l \<Rightarrow>
               (case info of
                  None \<Rightarrow> (Panic, s1)
                | Some i \<Rightarrow>
                    (case plan i of
                       None \<Rightarrow> (Return (Some i, None), s1)
                     | Some pl \<Rightarrow>
                         if isDistSQLPlan d pl then
                           (let np = addLimit d l pl
                            in (Return (Some (i\<lparr>plan := Some np, count := LimitCount l,
                                                 cost := calculateCost d np (LimitCount l)\<rparr>), None), s1))
                         else
                           (Return (Some (enforceProperty (limitProperty (Some l)) i), None), s1)))))"

definition Selection_convert2PhysicalPlanEnforce ::
  "distSQL \<Rightarrow> 's conv \<Rightarrow> 's conv" where
  "Selection_convert2PhysicalPlanEnforce d child prop s =
     (case child emptyProperty s of
        (Panic, s1) \<Rightarrow> (Panic, s1)
      | (Return (_, Some e), s1) \<Rightarrow> (Return (None, Some e), s1)
      | (Return (info, None), s1) \<Rightarrow>
          if limit prop \<noteq> None \<and> props prop \<noteq> [] then
            (case info of
               None \<Rightarrow> (Panic, s1)
             | Some i \<Rightarrow>
                 (let i1 = (case plan i of
                              None \<Rightarrow> i
                            | Some pl \<Rightarrow>
                                if isDistSQLPlan d pl then i\<lparr>plan := Some (addTopN d prop pl)\<rparr>
                                else i)
                  in (Return (Some (enforceProperty prop i1), None), s1)))
          else if props prop \<noteq> [] then
            (case info of
               None \<Rightarrow> (Panic, s1)
             | Some i \<Rightarrow> (Return (Some (i\<lparr>cost := MaxFloat64\<rparr>), None), s1))
          else (Return (info, None), s1))"

text \<open>
  \<open>matchProperty\<close> of the Selection as a physical plan is not in the sources at hand and
  is the parameter \<open>matchProperty\<close>; \<open>childIsDataSource\<close> is the type test of line 917.
\<close>

definition Selection_convert2PhysicalPlan ::
  "distSQL \<Rightarrow> (requiredProperty \<Rightarrow> physicalPlanInfo \<Rightarrow> physicalPlanInfo) \<Rightarrow> bool \<Rightarrow> 's conv
     \<Rightarrow> (memo \<times> 's) conv" where
  "Selection_convert2PhysicalPlan d matchProperty childIsDataSource child prop st =
     (case st of (m, s) \<Rightarrow>
      case getPlanInfo m prop of
        (_, Some e) \<Rightarrow> (Return (None, Some e), st)
      | (Some info, None) \<Rightarrow> (Return (Some info, None), st)
      | (None, None) \<Rightarrow>
          (case Selection_convert2PhysicalPlanPushOrder d child prop s of
             (Panic, s1) \<Rightarrow> (Panic, (m, s1))
           | (Return (_, Some e), s1) \<Rightarrow> (Return (None, Some e), (m, s1))
           | (Return (info, None), s1) \<Rightarrow>
               (case (if props prop \<noteq> [] then
                        (case Selection_convert2PhysicalPlanEnforce d child prop s1 of
                           (Panic, s2) \<Rightarrow> (Panic, s2)
                         | (Return (_, Some e), s2) \<Rightarrow> (Return (None, Some e), s2)
                         | (Return (infoEnforce, None), s2) \<Rightarrow>
                             (case (infoEnforce, info) of
                                (Some ie, Some i) \<Rightarrow>
                                  (Return (Some (if cost ie < cost i then ie else i), None), s2)
                              | _ \<Rightarrow> (Panic, s2)))
                      else (Return (info, None), s1)) of
                  (Panic, s2) \<Rightarrow> (Panic, (m, s2))
                | (Return (_, Some e), s2) \<Rightarrow> (Return (None, Some e), (m, s2))
                | (Return (None, None), s2) \<Rightarrow> (Panic, (m, s2))
                | (Return (Some info1, None), s2) \<Rightarrow>
                    (let info2 = (if \<not> childIsDataSource then matchProperty prop info1 else info1)
                     in (Return (Some info2, None), (fst (storePlanInfo m prop info2), s2))))))"

subsection \<open>Join\<close>

record Join = baseLogicalPlan +
  JoinType :: JoinType
  anti :: bool
  conditions :: JoinConditions
  DefaultValues :: "Datum list"

definition planCorrelated :: "PhysicalPlan option \<Rightarrow> bool" where
  "planCorrelated pl = (case pl of None \<Rightarrow> False | Some x \<Rightarrow> IsCorrelated x)"

text \<open>Whether every requested column is found in the schema of one child.\<close>

definition allInSchema :: "Schema \<Rightarrow> requiredProperty \<Rightarrow> bool" where
  "allInSchema sch prop = list_all (\<lambda>c. GetIndex sch (col c) \<noteq> - 1) (props prop)"

text \<open>
  \<open>matchProperty\<close> of the physical joins is not in the sources at hand; it is the parameter
  \<open>matchProperty\<close>, applied to the join node, the property and the two child infos.
\<close>

definition Join_convert2PhysicalPlanSemi ::
  "(PhysicalPlan \<Rightarrow> requiredProperty \<Rightarrow> physicalPlanInfo list \<Rightarrow> physicalPlanInfo) \<Rightarrow> Join
     \<Rightarrow> Schema \<Rightarrow> 's conv \<Rightarrow> 's conv \<Rightarrow> 's conv" where
  "Join_convert2PhysicalPlanSemi matchProperty p lSchema lChild rChild prop s =
     (let allLeft = allInSchema lSchema prop;
          lProp0 = (if \<not> allLeft then emptyProperty else prop);
          lProp = (if JoinType p = SemiJoin then removeLimit lProp0 else lProp0)
      in case lChild lProp s of
           (Panic, s1) \<Rightarrow> (Panic, s1)
         | (Return (_, Some e), s1) \<Rightarrow> (Return (None, Some e), s1)
         | (Return (lInfo, None), s1) \<Rightarrow>
             (case rChild emptyProperty s1 of
                (Panic, s2) \<Rightarrow> (Panic, s2)
              | (Return (_, Some e), s2) \<Rightarrow> (Return (None, Some e), s2)
              | (Return (rInfo, None), s2) \<Rightarrow>
                  (case (lInfo, rInfo) of
                     (Some l, Some r) \<Rightarrow>
                       (let join = PhysicalPlan
                                     (PhysicalHashSemiJoin (JoinType p = SemiJoinWithAux) (anti p)
                                        (conditions p))
                                     (correlated p \<or> planCorrelated (plan l) \<or> planCorrelated (plan r))
                                     (schema p) [];
                            resultInfo = matchProperty join prop [l, r];
                            resultInfo1 = resultInfo\<lparr>count :=
                              (if JoinType p = SemiJoin
                               then scaleCount (count l) selectionFactor
                               else count l)\<rparr>;
                            resultInfo2 =
                              (if \<not> allLeft then enforceProperty prop resultInfo1
                               else if JoinType p = SemiJoin
                               then enforceProperty (limitProperty (limit prop)) resultInfo1
                               else resultInfo1)
                        in (Return (Some resultInfo2, None), s2))
                   | _ \<Rightarrow> (Panic, s2))))"

definition Join_convert2PhysicalPlanLeft ::
  "(PhysicalPlan \<Rightarrow> requiredProperty \<Rightarrow> physicalPlanInfo list \<Rightarrow> physicalPlanInfo) \<Rightarrow> Join
     \<Rightarrow> Schema \<Rightarrow> 's conv \<Rightarrow> 's conv \<Rightarrow> requiredProperty \<Rightarrow> bool \<Rightarrow> 's \<Rightarrow> ret \<times> 's" where
  "Join_convert2PhysicalPlanLeft matchProperty p lSchema lChild rChild prop innerJoin s =
     (let allLeft = allInSchema lSchema prop;
          lProp = (if \<not> allLeft then emptyProperty else prop)
      in case lChild (if innerJoin then removeLimit lProp else convertLimitOffsetToCount lProp) s of
           (Panic, s1) \<Rightarrow> (Panic, s1)
         | (Return (_, Some e), s1) \<Rightarrow> (Return (None, Some e), s1)
         | (Return (lInfo, None), s1) \<Rightarrow>
             (case rChild emptyProperty s1 of
                (Panic, s2) \<Rightarrow> (Panic, s2)
              | (Return (_, Some e), s2) \<Rightarrow> (Return (None, Some e), s2)
              | (Return (rInfo, None), s2) \<Rightarrow>
                  (case (lInfo, rInfo) of
                     (Some l, Some r) \<Rightarrow>
                       (let join = PhysicalPlan
                                     (PhysicalHashJoin (if innerJoin then InnerJoin else LeftOuterJoin)
                                        1 JoinConcurrency (conditions p) (DefaultValues p))
                                     (correlated p \<or> planCorrelated (plan l) \<or> planCorrelated (plan r))
                                     (schema p) [];
                            resultInfo = matchProperty join prop [l, r];
                            resultInfo1 =
                              (if \<not> allLeft then enforceProperty prop resultInfo
                               else enforceProperty (limitProperty (limit prop)) resultInfo)
                        in (Return (Some resultInfo1, None), s2))
                   | _ \<Rightarrow> (Panic, s2))))"

text \<open>Lines 584 to 598: \<open>schema[idx]\<close> panics when the column is not in the schema.\<close>

fun replaceCols :: "Schema \<Rightarrow> columnProp list \<Rightarrow> columnProp list option" where
  "replaceCols sch [] = Some []"
| "replaceCols sch (c # cs) =
     (case index sch (GetIndex sch (col c)) of
        None \<Rightarrow> None
      | Some x \<Rightarrow> (case replaceCols sch cs of
                     None \<Rightarrow> None
                   | Some rest \<Rightarrow> Some (\<lparr>col = x, desc = desc c\<rparr> # rest)))"

definition replaceColsInPropBySchema :: "requiredProperty \<Rightarrow> Schema \<Rightarrow> requiredProperty outcome" where
  "replaceColsInPropBySchema prop sch =
     (case replaceCols sch (props prop) of
        None \<Rightarrow> Panic
      | Some newProps \<Rightarrow>
          Return \<lparr>props = newProps, sortKeyLen = sortKeyLen prop, limit = limit prop\<rparr>)"

definition Join_convert2PhysicalPlanRight ::
  "(PhysicalPlan \<Rightarrow> requiredProperty \<Rightarrow> physicalPlanInfo list \<Rightarrow> physicalPlanInfo) \<Rightarrow> Join
     \<Rightarrow> Schema \<Rightarrow> 's conv \<Rightarrow> 's conv \<Rightarrow> requiredProperty \<Rightarrow> bool \<Rightarrow> 's \<Rightarrow> ret \<times> 's" where
  "Join_convert2PhysicalPlanRight matchProperty p rSchema lChild rChild prop innerJoin s =
     (let allRight = allInSchema rSchema prop
      in case lChild emptyProperty s of
           (Panic, s1) \<Rightarrow> (Panic, s1)
         | (Return (_, Some e), s1) \<Rightarrow> (Return (None, Some e), s1)
         | (Return (lInfo, None), s1) \<Rightarrow>
             (case (if \<not> allRight then Return emptyProperty
                    else replaceColsInPropBySchema prop rSchema) of
                Panic \<Rightarrow> (Panic, s1)
              | Return rProp \<Rightarrow>
                  (case rChild (if innerJoin then removeLimit rProp
                                else convertLimitOffsetToCount rProp) s1 of
                     (Panic, s2) \<Rightarrow> (Panic, s2)
                   | (Return (_, Some e), s2) \<Rightarrow> (Return (None, Some e), s2)
                   | (Return (rInfo, None), s2) \<Rightarrow>
                       (case (lInfo, rInfo) of
                          (Some l, Some r) \<Rightarrow>
                            (let join = PhysicalPlan
                                          (PhysicalHashJoin
                                             (if innerJoin then InnerJoin else RightOuterJoin)
                                             0 JoinConcurrency (conditions p) (DefaultValues p))
                                          (correlated p \<or> planCorrelated (plan l)
                                             \<or> planCorrelated (plan r))
                                          (schema p) [];
                                 resultInfo = matchProperty join prop [l, r];
                                 resultInfo1 =
                                   (if \<not> allRight then enforceProperty prop resultInfo
                                    else enforceProperty (limitProperty (limit prop)) resultInfo)
                             in (Return (Some resultInfo1, None), s2))
                        | _ \<Rightarrow> (Panic, s2)))))"

definition Join_convert2PhysicalPlan ::
  "(PhysicalPlan \<Rightarrow> requiredProperty \<Rightarrow> physicalPlanInfo list \<Rightarrow> physicalPlanInfo) \<Rightarrow> Join
     \<Rightarrow> Schema \<Rightarrow> Schema \<Rightarrow> 's conv \<Rightarrow> 's conv \<Rightarrow> (memo \<times> 's) conv" where
  "Join_convert2PhysicalPlan matchProperty p lSchema rSchema lChild rChild prop st =
     (case st of (m, s) \<Rightarrow>
      case getPlanInfo m prop of
        (_, Some e) \<Rightarrow> (Return (None, Some e), st)
      | (Some info, None) \<Rightarrow> (Return (Some info, None), st)
      | (None, None) \<Rightarrow>
          (case (case JoinType p of
                   SemiJoin \<Rightarrow> Join_convert2PhysicalPlanSemi matchProperty p lSchema lChild rChild prop s
                 | SemiJoinWithAux \<Rightarrow>
                     Join_convert2PhysicalPlanSemi matchProperty p lSchema lChild rChild prop s
                 | LeftOuterJoin \<Rightarrow>
                     Join_convert2PhysicalPlanLeft matchProperty p lSchema lChild rChild prop False s
                 | RightOuterJoin \<Rightarrow>
                     Join_convert2PhysicalPlanRight matchProperty p rSchema lChild rChild prop False s
                 | InnerJoin \<Rightarrow>
                     (case Join_convert2PhysicalPlanLeft matchProperty p lSchema lChild rChild
                             prop True s of
                        (Panic, s1) \<Rightarrow> (Panic, s1)
                      | (Return (_, Some e), s1) \<Rightarrow> (Return (None, Some e), s1)
                      | (Return (lInfo, None), s1) \<Rightarrow>
                          (case Join_convert2PhysicalPlanRight matchProperty p rSchema lChild rChild
                                  prop True s1 of
                             (Panic, s2) \<Rightarrow> (Panic, s2)
                           | (Return (_, Some e), s2) \<Rightarrow> (Return (None, Some e), s2)
                           | (Return (rInfo, None), s2) \<Rightarrow>
                               (case (lInfo, rInfo) of
                                  (Some l, Some r) \<Rightarrow>
                                    (Return (Some (if cost r < cost l then r else l), None), s2)
                                | _ \<Rightarrow> (Panic, s2))))) of
             (Panic, s1) \<Rightarrow> (Panic, (m, s1))
           | (Return (_, Some e), s1) \<Rightarrow> (Return (None, Some e), (m, s1))
           | (Return (None, None), s1) \<Rightarrow> (Panic, (m, s1))
           | (Return (Some info, None), s1) \<Rightarrow>
               (Return (Some info, None), (fst (storePlanInfo m prop info), s1))))"

subsection \<open>Aggregation\<close>

text \<open>
  \<open>getGbyColIndex\<close> is not in the sources at hand: the node carries it as a function from
  a requested column to its position among the group-by columns, \<open>-1\<close> when it is none
  of them.
\<close>

record Aggregation = baseLogicalPlan +
  AggFuncs :: "AggregationFunction list"
  GroupByItems :: "Expression list"
  groupByCols :: "Column list"
  getGbyColIndex :: "Column \<Rightarrow> int"

text \<open>
  Lines 736 to 744: the requested columns become the sort prefix of the child's property.
  \<open>Inl\<close> leaves the function: with the unsatisfiable info, or by the panic of
  \<open>isSortKey[idx]\<close>.
\<close>

fun streamSortKeys ::
  "Aggregation \<Rightarrow> columnProp list \<Rightarrow> bool list \<Rightarrow> columnProp list
     \<Rightarrow> ret + (bool list \<times> columnProp list)" where
  "streamSortKeys p [] isSortKey newProps = Inr (isSortKey, newProps)"
| "streamSortKeys p (pro # rest) isSortKey newProps =
     (let idx = getGbyColIndex p (col pro) in
      if idx = - 1 then Inl (Return (Some unsatisfiable, None))
      else
        (case index (groupByCols p) idx of
           None \<Rightarrow> Inl Panic
         | Some c \<Rightarrow>
             streamSortKeys p rest (isSortKey[nat idx := True])
               (newProps @ [\<lparr>col = c, desc = desc pro\<rparr>])))"

definition Aggregation_convert2PhysicalPlanStream :: "Aggregation \<Rightarrow> 's conv \<Rightarrow> 's conv" where
  "Aggregation_convert2PhysicalPlanStream p child prop s =
     (if list_ex (\<lambda>aggFunc. GetMode aggFunc = FinalMode) (AggFuncs p)
      then (Return (Some unsatisfiable, None), s)
      else if length (groupByCols p) \<noteq> length (GroupByItems p)
      then (Return (Some unsatisfiable, None), s)
      else
        (case streamSortKeys p (props prop) (replicate (length (groupByCols p)) False) [] of
           Inl exit \<Rightarrow> (exit, s)
         | Inr (isSortKey, sortProps) \<Rightarrow>
             (let newProp =
                    \<lparr>props = sortProps
                        @ map (\<lambda>(c, k). \<lparr>col = c, desc = False\<rparr>)
                            (filter (\<lambda>(c, k). \<not> k) (zip (groupByCols p) isSortKey)),
                     sortKeyLen = int (length sortProps), limit = None\<rparr>;
                  agg = PhysicalPlan
                          (PhysicalAggregation StreamedAgg (GroupByItems p \<noteq> []) (AggFuncs p)
                             (GroupByItems p))
                          (correlated p) (schema p) []
              in case child newProp s of
                   (Panic, s1) \<Rightarrow> (Panic, s1)
                 | (Return (_, Some e), s1) \<Rightarrow> (Return (None, Some e), s1)
                 | (Return (None, None), s1) \<Rightarrow> (Panic, s1)
                 | (Return (Some childInfo, None), s1) \<Rightarrow>
                     (let info = addPlanToResponse agg childInfo;
                          info1 = info\<lparr>cost := cost info + float64_of_uint64 (count info) * cpuFactor\<rparr>;
                          info2 = info1\<lparr>count :=
                                    scaleCount (count info1) aggFactor\<rparr>
                      in (Return (Some info2, None), s1)))))"

text \<open>
  \<open>convert2PhysicalPlanFinalHash\<close>: \<open>x\<close> is the plan of \<open>childInfo\<close>;
  \<open>addAggregation\<close> and \<open>SetSchema\<close> change it in place. The result is nil when the
  storage layer returns an empty schema; the child info is returned as it is left.
\<close>

definition Aggregation_convert2PhysicalPlanFinalHash ::
  "distSQL \<Rightarrow> Aggregation \<Rightarrow> PhysicalPlan \<Rightarrow> physicalPlanInfo
     \<Rightarrow> physicalPlanInfo option \<times> physicalPlanInfo" where
  "Aggregation_convert2PhysicalPlanFinalHash d p x childInfo =
     (let agg = PhysicalPlan
                  (PhysicalAggregation FinalAgg (GroupByItems p \<noteq> []) (AggFuncs p) (GroupByItems p))
                  (correlated p \<or> IsCorrelated x) (schema p) []
      in case addAggregation d agg x of
           (sch, x1) \<Rightarrow>
             if sch = [] then (None, childInfo\<lparr>plan := Some x1\<rparr>)
             else
               (let x2 = PhysicalPlan (op x1) (IsCorrelated x1) sch (GetChildren x1);
                    childInfo1 = childInfo\<lparr>plan := Some x2\<rparr>;
                    info = addPlanToResponse agg childInfo1;
                    info1 = info\<lparr>count :=
                              scaleCount (count info) aggFactor\<rparr>
                in (Some (info1\<lparr>cost := 0\<rparr>), childInfo1)))"

definition Aggregation_convert2PhysicalPlanCompleteHash ::
  "Aggregation \<Rightarrow> physicalPlanInfo \<Rightarrow> physicalPlanInfo" where
  "Aggregation_convert2PhysicalPlanCompleteHash p childInfo =
     (let agg = PhysicalPlan
                  (PhysicalAggregation CompleteAgg (GroupByItems p \<noteq> []) (AggFuncs p)
                     (GroupByItems p))
                  (correlated p \<or> planCorrelated (plan childInfo)) (schema p) [];
          info = addPlanToResponse agg childInfo;
          info1 = info\<lparr>cost := cost info + float64_of_uint64 (count info) * memoryFactor\<rparr>
      in info1\<lparr>count := scaleCount (count info1) aggFactor\<rparr>)"

definition Aggregation_convert2PhysicalPlanHash :: "distSQL \<Rightarrow> Aggregation \<Rightarrow> 's conv \<Rightarrow> 's \<Rightarrow> ret \<times> 's" where
  "Aggregation_convert2PhysicalPlanHash d p child s =
     (case child emptyProperty s of
        (Panic, s1) \<Rightarrow> (Panic, s1)
      | (Return (_, Some e), s1) \<Rightarrow> (Return (None, Some e), s1)
      | (Return (None, None), s1) \<Rightarrow> (Panic, s1)
      | (Return (Some childInfo, None), s1) \<Rightarrow>
          (let distinct = list_ex IsDistinct (AggFuncs p)
           in case (if \<not> distinct then
                      (case plan childInfo of
                         None \<Rightarrow> (None, childInfo)
                       | Some x \<Rightarrow>
                           if isDistSQLPlan d x
                           then Aggregation_convert2PhysicalPlanFinalHash d p x childInfo
                           else (None, childInfo))
                    else (None, childInfo)) of
                (Some info, _) \<Rightarrow> (Return (Some info, None), s1)
              | (None, childInfo1) \<Rightarrow>
                  (Return (Some (Aggregation_convert2PhysicalPlanCompleteHash p childInfo1), None), s1)))"

text \<open>
  Lines 836 to 858. The error of the stream conversion is not looked at before its info is
  read (line 852), and is then overwritten by the result of \<open>storePlanInfo\<close>.
\<close>

definition Aggregation_convert2PhysicalPlan ::
  "distSQL \<Rightarrow> Aggregation \<Rightarrow> 's conv \<Rightarrow> (memo \<times> 's) conv" where
  "Aggregation_convert2PhysicalPlan d p child prop st =
     (case st of (m, s) \<Rightarrow>
      case getPlanInfo m prop of
        (_, Some e) \<Rightarrow> (Return (None, Some e), st)
      | (Some info, None) \<Rightarrow> (Return (Some info, None), st)
      | (None, None) \<Rightarrow>
          (case (if props prop = [] then Aggregation_convert2PhysicalPlanHash d p child s
                 else (Return (None, None), s)) of
             (Panic, s1) \<Rightarrow> (Panic, (m, s1))
           | (Return (_, Some e), s1) \<Rightarrow> (Return (None, Some e), (m, s1))
           | (Return (planInfo, None), s1) \<Rightarrow>
               (case Aggregation_convert2PhysicalPlanStream p child (removeLimit prop) s1 of
                  (Panic, s2) \<Rightarrow> (Panic, (m, s2))
                | (Return (None, _), s2) \<Rightarrow> (Panic, (m, s2))
                | (Return (Some streamInfo, _), s2) \<Rightarrow>
                    (let planInfo1 =
                           (case planInfo of
                              None \<Rightarrow> streamInfo
                            | Some h \<Rightarrow> if cost streamInfo < cost h then streamInfo else h);
                         planInfo2 = enforceProperty (limitProperty (limit prop)) planInfo1
                     in case storePlanInfo m prop planInfo2 of
                          (m1, err) \<Rightarrow> (Return (Some planInfo2, err), (m1, s2))))))"

subsection \<open>Union\<close>

text \<open>
  Lines 875 to 878: the requested columns, moved to the positions they have in the child.
  \<open>child.GetSchema()[idx]\<close> panics out of range.
\<close>

fun unionChildProps :: "Schema \<Rightarrow> Schema \<Rightarrow> columnProp list \<Rightarrow> columnProp list option" where
  "unionChildProps sch childSchema [] = Some []"
| "unionChildProps sch childSchema (c # cs) =
     (case index childSchema (GetIndex sch (col c)) of
        None \<Rightarrow> None
      | Some x \<Rightarrow>
          (case unionChildProps sch childSchema cs of
             None \<Rightarrow> None
           | Some rest \<Rightarrow> Some (\<lparr>col = x, desc = desc c\<rparr> # rest)))"

text \<open>
  The loop of lines 872 to 885 over the children, each given by its schema and its
  conversion. Line 880 reads \<open>info.count\<close> before line 881 looks at \<open>err\<close>: a child that
  returns a nil info panics here, whatever its error.
\<close>

fun unionChildren ::
  "Schema \<Rightarrow> requiredProperty \<Rightarrow> (Schema \<times> 's conv) list \<Rightarrow> uint64 \<Rightarrow> physicalPlanInfo list \<Rightarrow> 's
     \<Rightarrow> (ret + uint64 \<times> physicalPlanInfo list) \<times> 's" where
  "unionChildren sch prop [] cnt childInfos s = (Inr (cnt, childInfos), s)"
| "unionChildren sch prop (child # rest) cnt childInfos s =
     (case unionChildProps sch (fst child) (props prop) of
        None \<Rightarrow> (Inl Panic, s)
      | Some ps \<Rightarrow>
          (case snd child ((convertLimitOffsetToCount prop)\<lparr>props := ps\<rparr>) s of
             (Panic, s1) \<Rightarrow> (Inl Panic, s1)
           | (Return (None, _), s1) \<Rightarrow> (Inl Panic, s1)
           | (Return (Some info, Some e), s1) \<Rightarrow> (Inl (Return (None, Some e)), s1)
           | (Return (Some info, None), s1) \<Rightarrow>
               unionChildren sch prop rest (cnt + count info) (childInfos @ [info]) s1))"

text \<open>\<open>matchProperty\<close> of the Union is not in the sources at hand and is a parameter.\<close>

definition Union_convert2PhysicalPlan ::
  "(requiredProperty \<Rightarrow> physicalPlanInfo list \<Rightarrow> physicalPlanInfo) \<Rightarrow> baseLogicalPlan
     \<Rightarrow> (Schema \<times> 's conv) list \<Rightarrow> (memo \<times> 's) conv" where
  "Union_convert2PhysicalPlan matchProperty p children prop st =
     (case st of (m, s) \<Rightarrow>
      case getPlanInfo m prop of
        (_, Some e) \<Rightarrow> (Return (None, Some e), st)
      | (Some info, None) \<Rightarrow> (Return (Some info, None), st)
      | (None, None) \<Rightarrow>
          (case unionChildren (schema p) prop children 0 [] s of
             (Inl exit, s1) \<Rightarrow> (exit, (m, s1))
           | (Inr (cnt, childInfos), s1) \<Rightarrow>
               (let info = matchProperty prop childInfos;
                    info1 = enforceProperty (limitProperty (limit prop)) info;
                    info2 = info1\<lparr>count := cnt\<rparr>
                in (Return (Some info2, None), (fst (storePlanInfo m prop info2), s1)))))"

subsection \<open>Apply and the cache plans\<close>

text \<open>
  \<open>addCachePlan\<close>, lines 1083 to 1102. A method call on a nil plan panics: the plan
  itself (\<open>p.GetChildren()\<close>) or one of its children (\<open>child.IsCorrelated()\<close>).
\<close>

fun addCachePlan :: "PhysicalPlan \<Rightarrow> PhysicalPlan outcome"
  and addCacheChildren :: "PhysicalPlan option list \<Rightarrow> PhysicalPlan option list outcome" where
  "addCachePlan (PhysicalPlan opr cor sch cs) =
     (if cs = [] then Return (PhysicalPlan opr cor sch cs)
      else (case addCacheChildren cs of
              Panic \<Rightarrow> Panic
            | Return newChildren \<Rightarrow> Return (PhysicalPlan opr cor sch newChildren)))"
| "addCacheChildren [] = Return []"
| "addCacheChildren (None # rest) = Panic"
| "addCacheChildren (Some child # rest) =
     (case (if IsCorrelated child then addCachePlan child
            else Return (PhysicalPlan Cache False (GetSchema child) [Some child])) of
        Panic \<Rightarrow> Panic
      | Return newChild \<Rightarrow>
          (case addCacheChildren rest of
             Panic \<Rightarrow> Panic
           | Return newChildren \<Rightarrow> Return (Some newChild # newChildren)))"

record Apply = baseLogicalPlan +
  corCols :: "Column list"

text \<open>
  Lines 1105 to 1148. Line 1125 reads \<open>innerInfo.p\<close> before line 1126 looks at \<open>err\<close>:
  an inner child that returns a nil info panics here, whatever its error.
\<close>

definition Apply_convert2PhysicalPlan ::
  "Apply \<Rightarrow> Schema \<Rightarrow> 's conv \<Rightarrow> 's conv \<Rightarrow> (memo \<times> 's) conv" where
  "Apply_convert2PhysicalPlan p innerSchema child innerPlan prop st =
     (case st of (m, s) \<Rightarrow>
      case getPlanInfo m prop of
        (info, Some e) \<Rightarrow> (Return (info, Some e), st)
      | (Some info, None) \<Rightarrow> (Return (Some info, None), st)
      | (None, None) \<Rightarrow>
          if list_ex (\<lambda>c. GetIndex innerSchema (col c) \<noteq> - 1) (props prop)
          then (Return (Some unsatisfiable, None), st)
          else
            (case innerPlan emptyProperty s of
               (Panic, s1) \<Rightarrow> (Panic, (m, s1))
             | (Return (None, _), s1) \<Rightarrow> (Panic, (m, s1))
             | (Return (Some innerInfo, err), s1) \<Rightarrow>
                 (case (case plan innerInfo of None \<Rightarrow> Panic | Some ip \<Rightarrow> addCachePlan ip) of
                    Panic \<Rightarrow> (Panic, (m, s1))
                  | Return innerP \<Rightarrow>
                      (case err of
                         Some e \<Rightarrow> (Return (None, Some e), (m, s1))
                       | None \<Rightarrow>
                           (case child (removeLimit prop) s1 of
                              (Panic, s2) \<Rightarrow> (Panic, (m, s2))
                            | (Return (_, Some e), s2) \<Rightarrow> (Return (None, Some e), (m, s2))
                            | (Return (None, None), s2) \<Rightarrow> (Panic, (m, s2))
                            | (Return (Some info, None), s2) \<Rightarrow>
                                (let np = PhysicalPlan (PhysicalApply (corCols p)) (correlated p)
                                            (schema p) [];
                                     info1 = addPlanToResponse np info;
                                     info2 = info1\<lparr>plan :=
                                               map_option
                                                 (\<lambda>pl. setChildren pl (GetChildren pl @ [Some innerP]))
                                                 (plan info1)\<rparr>;
                                     info3 = enforceProperty (limitProperty (limit prop)) info2
                                 in (Return (Some info3, None),
                                     (fst (storePlanInfo m prop info3), s2))))))))"

subsection \<open>The plan tree and its conversion\<close>

text \<open>
  The logical plan as a tree, and the conversion of a whole tree: every node converts
  through the function of its kind, its children being the conversions of its subtrees.
  The memo of a node is found under the path that leads to it from the root, so that
  every node has a memo of its own; a data source is given its parent by the node above
  it. The functions that the sources at hand do not define (the scans of a data source,
  the storage interface, \<open>matchProperty\<close> of the physical plans, \<open>EvalBool\<close>) form
  the environment.
\<close>

datatype LogicalPlan =
    LDataSource "nat DataSource"
  | LSelection Selection LogicalPlan
  | LProjection Projection LogicalPlan
  | LJoin Join LogicalPlan LogicalPlan
  | LAggregation Aggregation LogicalPlan
  | LSort Sort LogicalPlan
  | LLimit baseLogicalPlan Limit LogicalPlan
  | LUnion baseLogicalPlan "LogicalPlan list"
  | LDistinct baseLogicalPlan LogicalPlan
  | LApply Apply LogicalPlan LogicalPlan

fun LogicalPlan_GetSchema :: "LogicalPlan \<Rightarrow> Schema" where
  "LogicalPlan_GetSchema (LDataSource p) = schema p"
| "LogicalPlan_GetSchema (LSelection p c) = schema p"
| "LogicalPlan_GetSchema (LProjection p c) = schema p"
| "LogicalPlan_GetSchema (LJoin p l r) = schema p"
| "LogicalPlan_GetSchema (LAggregation p c) = schema p"
| "LogicalPlan_GetSchema (LSort p c) = schema p"
| "LogicalPlan_GetSchema (LLimit b p c) = schema b"
| "LogicalPlan_GetSchema (LUnion p cs) = schema p"
| "LogicalPlan_GetSchema (LDistinct p c) = schema p"
| "LogicalPlan_GetSchema (LApply p c inner) = schema p"

fun isDataSource :: "LogicalPlan \<Rightarrow> bool" where
  "isDataSource (LDataSource p) = True"
| "isDataSource _ = False"

record env =
  EvalBool :: "Datum \<Rightarrow> bool \<times> error option"
  convert2TableScan :: "nat DataSource \<Rightarrow> requiredProperty \<Rightarrow> ret"
  convert2IndexScan :: "nat DataSource \<Rightarrow> requiredProperty \<Rightarrow> nat \<Rightarrow> ret"
  dist :: distSQL
  selectionMatch :: "Selection \<Rightarrow> requiredProperty \<Rightarrow> physicalPlanInfo \<Rightarrow> physicalPlanInfo"
  joinMatch :: "PhysicalPlan \<Rightarrow> requiredProperty \<Rightarrow> physicalPlanInfo list \<Rightarrow> physicalPlanInfo"
  unionMatch :: "baseLogicalPlan \<Rightarrow> requiredProperty \<Rightarrow> physicalPlanInfo list \<Rightarrow> physicalPlanInfo"

type_synonym memos = "nat list \<Rightarrow> memo"

text \<open>
  Before the first conversion every memo is empty. A node's conversion on the memos of the
  tree works on its own memo.
\<close>

definition emptyMemos :: memos where
  "emptyMemos \<pi> = emptyMemo"

definition atNode :: "nat list \<Rightarrow> (memo \<times> memos) conv \<Rightarrow> memos conv" where
  "atNode \<pi> f prop st = (case f prop (st \<pi>, st) of (r, (m1, st1)) \<Rightarrow> (r, st1(\<pi> := m1)))"

fun convert2PhysicalPlan :: "env \<Rightarrow> ParentPlan list \<Rightarrow> nat list \<Rightarrow> LogicalPlan \<Rightarrow> memos conv"
  and convertChildren :: "env \<Rightarrow> nat list \<Rightarrow> nat \<Rightarrow> LogicalPlan list \<Rightarrow> (Schema \<times> memos conv) list" where
  "convert2PhysicalPlan env par \<pi> (LDataSource p) =
     (\<lambda>prop st.
        case DataSource_convert2PhysicalPlan (EvalBool env) (convert2TableScan env (p\<lparr>parents := par\<rparr>))
               (convert2IndexScan env (p\<lparr>parents := par\<rparr>)) (p\<lparr>parents := par\<rparr>) prop (st \<pi>) of
          (r, m1) \<Rightarrow> (r, st(\<pi> := m1)))"
| "convert2PhysicalPlan env par \<pi> (LSelection p c) =
     atNode \<pi> (Selection_convert2PhysicalPlan (dist env) (selectionMatch env p) (isDataSource c)
                (convert2PhysicalPlan env [SelectionParent (Conditions p)] (\<pi> @ [0]) c))"
| "convert2PhysicalPlan env par \<pi> (LProjection p c) =
     atNode \<pi> (Projection_convert2PhysicalPlan p (LogicalPlan_GetSchema c)
                (convert2PhysicalPlan env [OtherParent] (\<pi> @ [0]) c))"
| "convert2PhysicalPlan env par \<pi> (LJoin p l r) =
     atNode \<pi> (Join_convert2PhysicalPlan (joinMatch env) p (LogicalPlan_GetSchema l)
                (LogicalPlan_GetSchema r)
                (convert2PhysicalPlan env [OtherParent] (\<pi> @ [0]) l)
                (convert2PhysicalPlan env [OtherParent] (\<pi> @ [1]) r))"
| "convert2PhysicalPlan env par \<pi> (LAggregation p c) =
     atNode \<pi> (Aggregation_convert2PhysicalPlan (dist env) p
                (convert2PhysicalPlan env [OtherParent] (\<pi> @ [0]) c))"
| "convert2PhysicalPlan env par \<pi> (LSort p c) =
     atNode \<pi> (Sort_convert2PhysicalPlan p (convert2PhysicalPlan env [OtherParent] (\<pi> @ [0]) c))"
| "convert2PhysicalPlan env par \<pi> (LLimit b p c) =
     atNode \<pi> (Limit_convert2PhysicalPlan p (convert2PhysicalPlan env [OtherParent] (\<pi> @ [0]) c))"
| "convert2PhysicalPlan env par \<pi> (LUnion p cs) =
     atNode \<pi> (Union_convert2PhysicalPlan (unionMatch env p) p (convertChildren env \<pi> 0 cs))"
| "convert2PhysicalPlan env par \<pi> (LDistinct p c) =
     atNode \<pi> (Distinct_convert2PhysicalPlan p (convert2PhysicalPlan env [OtherParent] (\<pi> @ [0]) c))"
| "convert2PhysicalPlan env par \<pi> (LApply p c inner) =
     atNode \<pi> (Apply_convert2PhysicalPlan p (LogicalPlan_GetSchema inner)
                (convert2PhysicalPlan env [OtherParent] (\<pi> @ [0]) c)
                (convert2PhysicalPlan env [OtherParent] (\<pi> @ [1]) inner))"
| "convertChildren env \<pi> i [] = []"
| "convertChildren env \<pi> i (c # cs) =
     (LogicalPlan_GetSchema c, convert2PhysicalPlan env [OtherParent] (\<pi> @ [i]) c)
       # convertChildren env \<pi> (Suc i) cs"

text \<open>
  The two places where a conversion returns an info without storing it: line 997 of
  Projection (a requested column is a scalar function) and line 1121 of Apply (a requested
  column belongs to the inner child).
\<close>

fun returnsUnstored :: "LogicalPlan \<Rightarrow> requiredProperty \<Rightarrow> bool" where
  "returnsUnstored (LProjection p c) prop =
     (projectionProps (schema p) (Exprs p) (LogicalPlan_GetSchema c) (props prop)
        (replicate (length (LogicalPlan_GetSchema c)) False)
        \<lparr>props = [], sortKeyLen = sortKeyLen prop, limit = limit prop\<rparr> = Return None)"
| "returnsUnstored (LApply p c inner) prop =
     list_ex (\<lambda>c. GetIndex (LogicalPlan_GetSchema inner) (col c) \<noteq> - 1) (props prop)"
| "returnsUnstored _ prop = False"

subsection \<open>Reading results, and what the memo of a node can hold\<close>

definition resultInfo :: "ret \<times> 's \<Rightarrow> physicalPlanInfo option" where
  "resultInfo r = (case fst r of Return (Some info, None) \<Rightarrow> Some info | _ \<Rightarrow> None)"

text \<open>
  The memo of a node is written by the node alone, at the end of a conversion. So the
  memo of a Projection holds no property that its loop rejects, the memo of an Apply holds
  no property with a column of the inner child, and the memo of a data source below a
  constant-false filter holds dummy scans only. Each of these holds of the empty memo and
  is kept by every conversion of the node.
\<close>

definition Projection_memo_inv :: "Projection \<Rightarrow> Schema \<Rightarrow> memo \<Rightarrow> bool" where
  "Projection_memo_inv p childSchema m =
     (\<forall>prop. m prop \<noteq> None \<longrightarrow>
        projectionProps (schema p) (Exprs p) childSchema (props prop)
          (replicate (length childSchema) False)
          \<lparr>props = [], sortKeyLen = sortKeyLen prop, limit = limit prop\<rparr> \<noteq> Return None)"

definition Apply_memo_inv :: "Schema \<Rightarrow> memo \<Rightarrow> bool" where
  "Apply_memo_inv innerSchema m =
     (\<forall>prop. m prop \<noteq> None \<longrightarrow> \<not> list_ex (\<lambda>c. GetIndex innerSchema (col c) \<noteq> - 1) (props prop))"

definition DataSource_memo_inv :: "('i, 'z) DataSource_scheme \<Rightarrow> memo \<Rightarrow> bool" where
  "DataSource_memo_inv p m = (\<forall>prop. m prop \<noteq> None \<longrightarrow> m prop = Some (dummyInfo (schema p)))"

subsection \<open>Concrete inputs\<close>

text \<open>The inputs at which the theorems below are evaluated.\<close>

text \<open>A machine on which a float that does not fit is converted to 0.\<close>

definition exampleCvt :: "float64x \<Rightarrow> uint64" where
  "exampleCvt x = 0"

definition exampleStats :: "int64 \<Rightarrow> error option \<Rightarrow> Column_stats" where
  "exampleStats n err =
     \<lparr>EqualRowCount = (\<lambda>_. (n, err)), LessRowCount = (\<lambda>_. (n, err)),
      GreaterRowCount = (\<lambda>_. (n, err)), BetweenRowCount = (\<lambda>_ _. (n, err))\<rparr>"

definition exampleCompare :: "Datum \<Rightarrow> Datum \<Rightarrow> int \<times> error option" where
  "exampleCompare l r = (- 1, None)"

definition exampleTable :: Table where
  "exampleTable = \<lparr>Count = 5000, Columns = [exampleStats 3000 None, exampleStats 3000 None]\<rparr>"

definition smallTable :: Table where
  "smallTable = \<lparr>Count = 600, Columns = [exampleStats 300 None]\<rparr>"

text \<open>A table of \<open>2^53 + 3\<close> rows, a number that is not a \<open>float64\<close>.\<close>

definition hugeTable :: Table where
  "hugeTable = \<lparr>Count = 9007199254740995, Columns = [exampleStats 9007199254740995 None]\<rparr>"

definition exampleIndexInfo :: IndexInfo where
  "exampleIndexInfo = \<lparr>IndexColumns = [\<lparr>Offset = 0\<rparr>, \<lparr>Offset = 1\<rparr>]\<rparr>"

definition exampleRange :: IndexRange where
  "exampleRange = \<lparr>LowVal = [KindInt64 1], HighVal = [KindInt64 9]\<rparr>"

definition fullRange :: IndexRange where
  "fullRange = \<lparr>LowVal = [KindNull], HighVal = [KindMaxValue]\<rparr>"

definition leadingFullRange :: IndexRange where
  "leadingFullRange = \<lparr>LowVal = [KindNull, KindInt64 1], HighVal = [KindMaxValue, KindInt64 9]\<rparr>"

definition failingTable :: Table where
  "failingTable = \<lparr>Count = 5000, Columns = [exampleStats 0 (Some (Error ''histogram''))]\<rparr>"

definition colA :: Column where "colA = \<lparr>FromID = ''t'', Position = 0\<rparr>"

definition colB :: Column where "colB = \<lparr>FromID = ''t'', Position = 1\<rparr>"

definition colC :: Column where "colC = \<lparr>FromID = ''u'', Position = 0\<rparr>"

definition outA :: Column where "outA = \<lparr>FromID = ''p'', Position = 0\<rparr>"

definition outF :: Column where "outF = \<lparr>FromID = ''p'', Position = 1\<rparr>"

definition orderBy :: "Column list \<Rightarrow> requiredProperty" where
  "orderBy cs = \<lparr>props = map (\<lambda>c. \<lparr>col = c, desc = False\<rparr>) cs, sortKeyLen = int (length cs),
                 limit = None\<rparr>"

definition scanInfo :: physicalPlanInfo where
  "scanInfo = \<lparr>plan = Some (PhysicalPlan PhysicalTableScan False [colA, colB] []),
               cost = 10, count = 100\<rparr>"

text \<open>A child that answers every request with the same scan and counts its calls.\<close>

definition countingChild :: "nat conv" where
  "countingChild prop n = (Return (Some scanInfo, None), Suc n)"

definition exampleProjection :: Projection where
  "exampleProjection =
     \<lparr>schema = [outA, outF], correlated = False,
      Exprs = [ColumnExpr colA, ScalarFunction ''plus'' [ColumnExpr colA, ColumnExpr colB]]\<rparr>"

definition exampleApply :: Apply where
  "exampleApply = \<lparr>schema = [colA, colB, colC], correlated = False, corCols = [colA]\<rparr>"

definition exampleEvalBool :: "Datum \<Rightarrow> bool \<times> error option" where
  "exampleEvalBool d =
     (case d of
        KindInt64 n \<Rightarrow> (n \<noteq> 0, None)
      | KindNull \<Rightarrow> (False, None)
      | _ \<Rightarrow> (False, Some (Error ''cannot convert to bool'')))"

definition exampleDataSource :: "ParentPlan list \<Rightarrow> nat DataSource" where
  "exampleDataSource ps =
     \<lparr>schema = [colA, colB], correlated = False, parents = ps, includeTableScan = True,
      indices = []\<rparr>"

definition exampleTableScan :: "requiredProperty \<Rightarrow> ret" where
  "exampleTableScan prop = Return (Some scanInfo, None)"

definition failingTableScan :: "requiredProperty \<Rightarrow> ret" where
  "failingTableScan prop = Return (None, Some (Error ''no transaction''))"

definition exampleIndexScan :: "requiredProperty \<Rightarrow> nat \<Rightarrow> ret" where
  "exampleIndexScan prop i = Return (Some scanInfo, None)"

text \<open>A data source whose table scan fails (no transaction): its conversion returns nil and the error.\<close>

definition failingChild :: "memo conv" where
  "failingChild =
     DataSource_convert2PhysicalPlan exampleEvalBool failingTableScan exampleIndexScan
       (exampleDataSource [OtherParent])"

definition exampleUnionMatch :: "requiredProperty \<Rightarrow> physicalPlanInfo list \<Rightarrow> physicalPlanInfo" where
  "exampleUnionMatch prop infos =
     \<lparr>plan = Some (PhysicalPlan OpUnion False [colA, colB] (map plan infos)),
      cost = sum_list (map cost infos), count = 0\<rparr>"

definition exampleJoinMatch ::
  "PhysicalPlan \<Rightarrow> requiredProperty \<Rightarrow> physicalPlanInfo list \<Rightarrow> physicalPlanInfo" where
  "exampleJoinMatch join prop infos =
     \<lparr>plan = Some (setChildren join (map plan infos)), cost = sum_list (map cost infos), count = 0\<rparr>"

definition exampleJoin :: "JoinType \<Rightarrow> Join" where
  "exampleJoin t =
     \<lparr>schema = [colA, colB, colC], correlated = False, JoinType = t, anti = False,
      conditions = \<lparr>EqualConditions = [], LeftConditions = [], RightConditions = [],
                    OtherConditions = []\<rparr>,
      DefaultValues = []\<rparr>"

definition exampleDistSQL :: distSQL where
  "exampleDistSQL =
     \<lparr>isDistSQLPlan = (\<lambda>pl. op pl = PhysicalTableScan \<or> op pl = PhysicalIndexScan),
      addLimit = (\<lambda>l pl. pl),
      calculateCost = (\<lambda>pl n. float64_of_uint64 n * netWorkFactor),
      addTopN = (\<lambda>prop pl. pl),
      addAggregation = (\<lambda>agg x. (GetSchema agg, x))\<rparr>"

definition exampleAggregation :: Aggregation where
  "exampleAggregation =
     \<lparr>schema = [colA, colB], correlated = False,
      AggFuncs = [\<lparr>GetMode = CompleteMode, IsDistinct = False\<rparr>,
                  \<lparr>GetMode = CompleteMode, IsDistinct = False\<rparr>],
      GroupByItems = [ColumnExpr colA, ColumnExpr colB],
      groupByCols = [colA, colB],
      getGbyColIndex = GetIndex [colA, colB]\<rparr>"

definition exampleEnv :: env where
  "exampleEnv =
     \<lparr>EvalBool = exampleEvalBool,
      convert2TableScan = (\<lambda>p. exampleTableScan),
      convert2IndexScan = (\<lambda>p. exampleIndexScan),
      dist = exampleDistSQL,
      selectionMatch = (\<lambda>p prop info. info),
      joinMatch = exampleJoinMatch,
      unionMatch = (\<lambda>p. exampleUnionMatch)\<rparr>"

definition exampleLimitPlan :: LogicalPlan where
  "exampleLimitPlan =
     LLimit \<lparr>schema = [colA, colB], correlated = False\<rparr> \<lparr>LimitOffset = 0, LimitCount = 5\<rparr>
       (LDataSource (exampleDataSource []))"

definition exampleProjectionPlan :: LogicalPlan where
  "exampleProjectionPlan = LProjection exampleProjection (LDataSource (exampleDataSource []))"

section \<open>Properties\<close>

subsection \<open>Machine numbers\<close>

lemma uint_trunc:
  fixes v :: real
  assumes "0 \<le> v" "v < 2 ^ 64"
  shows "uint (word_of_int (trunc v) :: uint64) = \<lfloor>v\<rfloor>"
proof -
  have a: "0 \<le> \<lfloor>v\<rfloor>" using assms by simp
  have "\<lfloor>v\<rfloor> < 2 ^ 64" using assms(2) by (simp add: floor_less_iff)
  then have "take_bit 64 \<lfloor>v\<rfloor> = \<lfloor>v\<rfloor>" using a by (simp add: take_bit_int_eq_self)
  then show ?thesis using assms(1) by (simp add: trunc_def uint_word_of_int_eq)
qed

lemma uint_eq_sint:
  assumes "0 \<le> sint (x::int64)" shows "uint x = sint x"
proof -
  have u: "uint x < 2 ^ 64" using uint_lt2p [of x] by simp
  have "sint x = take_bit 64 (uint x) - 2 ^ 64 * of_bool (bit (uint x) 63)"
    using signed_take_bit_eq_take_bit_minus [of 63 "uint x"] by (simp add: sint_uint)
  moreover have "take_bit 64 (uint x) = uint x" using u by (simp add: take_bit_int_eq_self)
  ultimately have "sint x = uint x - 2 ^ 64 * of_bool (bit (uint x) 63)" by simp
  then show ?thesis using assms u by (cases "bit (uint x) 63") simp_all
qed

lemma sint_lt63: "sint (x :: int64) < 2 ^ 63"
  using sint_lt [of x] by simp

subsection \<open>Rounding to float64\<close>

lemma floorlog2_bounds:
  "1 \<le> n \<Longrightarrow> 0 \<le> floorlog2 n \<and> 2 ^ nat (floorlog2 n) \<le> n \<and> n < 2 * 2 ^ nat (floorlog2 n)"
proof (induction n rule: floorlog2.induct)
  case (1 n)
  show ?case
  proof (cases "n < 2")
    case True
    then have "n = 1" using 1 by simp
    then show ?thesis by (simp add: floorlog2.simps)
  next
    case False
    then have h: "1 \<le> n div 2" by simp
    define k where "k = floorlog2 (n div 2)"
    have ih: "0 \<le> k" "2 ^ nat k \<le> n div 2" "n div 2 < 2 * 2 ^ nat k"
      using "1.IH" [OF False h] by (simp_all add: k_def)
    have fl: "floorlog2 n = 1 + k" using False by (simp add: floorlog2.simps [of n] k_def)
    have nk: "nat (1 + k) = Suc (nat k)" using ih(1) by simp
    have "2 * 2 ^ nat k \<le> n" using ih(2) by linarith
    moreover have "n < 2 * (2 * 2 ^ nat k)" using ih(3) by linarith
    ultimately show ?thesis using ih(1) by (simp add: fl nk)
  qed
qed

lemma powi_nonneg: "0 \<le> k \<Longrightarrow> (2::real) powi k = 2 ^ nat k"
  by (simp add: power_int_def)

lemma powi_pos: "0 < (2::real) powi k"
  by (simp add: power_int_def)

lemma powi_add: "(2::real) powi (a + b) = 2 powi a * 2 powi b"
  by (simp add: power_int_add)

lemma powi_mono: "a \<le> b \<Longrightarrow> (2::real) powi a \<le> 2 powi b"
  by (simp add: power_int_increasing)

lemma ilog2_bounds:
  assumes "0 < x"
  shows "2 powi (ilog2 x) \<le> x \<and> x < 2 powi (ilog2 x + 1)"
proof (cases "1 \<le> x")
  case True
  define n where "n = \<lfloor>x\<rfloor>"
  have n1: "1 \<le> n" using True by (simp add: n_def)
  define k where "k = floorlog2 n"
  have b: "0 \<le> k" "2 ^ nat k \<le> n" "n < 2 * 2 ^ nat k"
    using floorlog2_bounds [OF n1] by (simp_all add: k_def)
  have il: "ilog2 x = k" using True by (simp add: ilog2_def k_def n_def)
  have "real_of_int n \<le> x" by (simp add: n_def)
  moreover have "real_of_int (2 ^ nat k) \<le> real_of_int n" using b(2) by (simp only: of_int_le_iff)
  moreover have "real_of_int (2 ^ nat k) = 2 ^ nat k" by simp
  ultimately have lo: "2 ^ nat k \<le> x" by linarith
  have "x < real_of_int n + 1" by (simp add: n_def)
  moreover have "real_of_int (n + 1) \<le> real_of_int (2 * 2 ^ nat k)"
    using b(3) by (simp only: of_int_le_iff)
  moreover have "real_of_int (2 * 2 ^ nat k) = 2 * 2 ^ nat k" "real_of_int (n + 1) = real_of_int n + 1"
    by simp_all
  ultimately have hi: "x < 2 * 2 ^ nat k" by linarith
  have "2 powi (k + 1) = (2::real) * 2 ^ nat k"
    using b(1) by (simp add: powi_add powi_nonneg)
  then show ?thesis using lo hi b(1) by (simp add: il powi_nonneg)
next
  case False
  define y where "y = 1 / x"
  have y1: "1 < y" using False assms by (simp add: y_def)
  define n where "n = \<lceil>y\<rceil> - 1"
  have n1: "1 \<le> n" using y1 by (simp add: n_def less_ceiling_iff)
  define k where "k = floorlog2 n"
  have b: "0 \<le> k" "2 ^ nat k \<le> n" "n < 2 * 2 ^ nat k"
    using floorlog2_bounds [OF n1] by (simp_all add: k_def)
  have il: "ilog2 x = - 1 - k" using False by (simp add: ilog2_def k_def n_def y_def)
  have "real_of_int n < y" by (simp add: n_def) (metis ceiling_correct diff_less_eq)
  moreover have "real_of_int (2 ^ nat k) \<le> real_of_int n" using b(2) by (simp only: of_int_le_iff)
  moreover have "real_of_int (2 ^ nat k) = 2 ^ nat k" by simp
  ultimately have lo: "2 ^ nat k < y" by linarith
  have "y \<le> real_of_int n + 1" by (simp add: n_def)
  moreover have "real_of_int (n + 1) \<le> real_of_int (2 * 2 ^ nat k)"
    using b(3) by (simp only: of_int_le_iff)
  moreover have "real_of_int (2 * 2 ^ nat k) = 2 * 2 ^ nat k" "real_of_int (n + 1) = real_of_int n + 1"
    by simp_all
  ultimately have hi: "y \<le> 2 * 2 ^ nat k" by linarith
  have xy: "x = 1 / y" using assms by (simp add: y_def)
  have p1: "(2::real) powi (- 1 - k) = 1 / (2 * 2 ^ nat k)"
    using b(1) by (simp add: power_int_def nat_add_distrib field_simps)
  have p2: "(2::real) powi (- 1 - k + 1) = 1 / 2 ^ nat k"
    using b(1) by (simp add: power_int_def field_simps)
  have "1 / (2 * 2 ^ nat k) \<le> 1 / y" using hi y1 by (simp add: frac_le)
  then have a: "1 / (2 * 2 ^ nat k) \<le> x" by (simp only: xy)
  have "1 / y < 1 / 2 ^ nat k" using lo y1 by (simp add: frac_less2)
  then have b: "x < 1 / 2 ^ nat k" by (simp only: xy)
  show ?thesis unfolding il p1 p2 using a b by simp
qed

lemma ilog2_eqI:
  assumes "2 powi e \<le> x" "x < 2 powi (e + 1)"
  shows "ilog2 x = e"
proof -
  have x: "0 < x" using assms(1) powi_pos [of e] by linarith
  note b = ilog2_bounds [OF x]
  have "\<not> ilog2 x + 1 \<le> e"
  proof
    assume "ilog2 x + 1 \<le> e"
    then have "2 powi (ilog2 x + 1) \<le> (2::real) powi e" by (rule powi_mono)
    then show False using b assms by linarith
  qed
  moreover have "\<not> e + 1 \<le> ilog2 x"
  proof
    assume "e + 1 \<le> ilog2 x"
    then have "2 powi (e + 1) \<le> (2::real) powi (ilog2 x)" by (rule powi_mono)
    then show False using b assms by linarith
  qed
  ultimately show ?thesis by linarith
qed

lemma rne_of_int: "rne (of_int k) = k"
  by (simp add: rne_def)

lemma rne_le: "y \<le> of_int k \<Longrightarrow> rne y \<le> k"
proof -
  assume a: "y \<le> of_int k"
  have f: "\<lfloor>y\<rfloor> \<le> k" using a by (simp add: floor_le_iff)
  show ?thesis
  proof (cases "\<lfloor>y\<rfloor> = k")
    case True
    then have "y = of_int k" using a by (metis of_int_floor_le antisym)
    then show ?thesis by (simp add: rne_of_int)
  next
    case False
    then have "\<lfloor>y\<rfloor> + 1 \<le> k" using f by simp
    moreover have "rne y \<le> \<lfloor>y\<rfloor> + 1" by (simp add: rne_def Let_def)
    ultimately show ?thesis by linarith
  qed
qed

lemma rne_ge: "of_int k \<le> y \<Longrightarrow> k \<le> rne y"
proof -
  assume a: "of_int k \<le> y"
  then have "k \<le> \<lfloor>y\<rfloor>" by (simp add: le_floor_iff)
  moreover have "\<lfloor>y\<rfloor> \<le> rne y" by (simp add: rne_def Let_def)
  ultimately show ?thesis by linarith
qed

lemma rnd_pos: "0 < y \<Longrightarrow> rnd y = of_int (rne (y / 2 powi ulpexp y)) * 2 powi ulpexp y"
  by (simp add: rnd_def)

lemma rnd_nonneg: "0 \<le> y \<Longrightarrow> 0 \<le> rnd y"
proof (cases "y = 0")
  case True then show ?thesis by (simp add: rnd_def)
next
  case False
  assume "0 \<le> y"
  then have y: "0 < y" using False by simp
  have "real_of_int 0 \<le> y / 2 powi ulpexp y" using y powi_pos [of "ulpexp y"] by simp
  then have "0 \<le> rne (y / 2 powi ulpexp y)" by (rule rne_ge)
  then show ?thesis using powi_pos [of "ulpexp y"] by (simp add: rnd_pos [OF y])
qed

lemma rep_multiple:
  fixes x y :: real
  assumes y: "0 < y" and m: "0 < m" "m \<le> 2 ^ 53" and E: "- 1074 \<le> E"
    and x: "x = of_int m * 2 powi E"
  shows "(\<exists>M. x = of_int M * 2 powi ulpexp y) \<or> (x \<le> 2 powi (ulpexp y + 52) \<and> 2 powi (ulpexp y + 52) \<le> y)"
proof (cases "ulpexp y \<le> E")
  case True
  define d where "d = E - ulpexp y"
  have d: "0 \<le> d" "E = d + ulpexp y" using True by (simp_all add: d_def)
  have "x = of_int (m * 2 ^ nat d) * 2 powi ulpexp y"
    unfolding x d(2) powi_add using d(1) by (simp add: powi_nonneg)
  then show ?thesis by blast
next
  case False
  then have lt: "E + 1 \<le> ulpexp y" by simp
  then have "- 1022 < ulpexp y + 52" using E by simp
  then have e: "ulpexp y + 52 = ilog2 y" using y by (simp add: ulpexp_def max_def split: if_splits)
  have lo: "2 powi (ulpexp y + 52) \<le> y" unfolding e using ilog2_bounds [OF y] by simp
  have "real_of_int m \<le> real_of_int (2 ^ 53)" using m(2) by (simp only: of_int_le_iff)
  then have "x \<le> 2 ^ 53 * 2 powi E" unfolding x using powi_pos [of E] by simp
  also have "\<dots> = 2 powi (53 + E)" by (simp add: powi_add)
  also have "\<dots> \<le> 2 powi (ulpexp y + 52)" using lt by (intro powi_mono) simp
  finally show ?thesis using lo by simp
qed

lemma rnd_le_rep:
  assumes y: "0 < y" "y \<le> x" and m: "0 < m" "m \<le> 2 ^ 53" and E: "- 1074 \<le> E"
    and x: "x = of_int m * 2 powi E"
  shows "rnd y \<le> x"
proof -
  define u where "u = (2::real) powi ulpexp y"
  have u: "0 < u" by (simp add: u_def powi_pos)
  have "\<exists>M. x = of_int M * u"
  proof -
    from rep_multiple [OF y(1) m E x] show ?thesis
    proof
      assume "\<exists>M. x = of_int M * 2 powi ulpexp y"
      then show ?thesis by (simp add: u_def)
    next
      assume a: "x \<le> 2 powi (ulpexp y + 52) \<and> 2 powi (ulpexp y + 52) \<le> y"
      then have "x = 2 powi (ulpexp y + 52)" using y(2) by linarith
      then have "x = of_int (2 ^ 52) * u" by (simp add: powi_add u_def)
      then show ?thesis by blast
    qed
  qed
  then obtain M where M: "x = of_int M * u" by blast
  have "y / u \<le> of_int M" using y(2) u by (simp add: M field_simps)
  then have "rne (y / u) \<le> M" by (rule rne_le)
  then have "real_of_int (rne (y / u)) \<le> real_of_int M" by (simp only: of_int_le_iff)
  then have "real_of_int (rne (y / u)) * u \<le> of_int M * u" using u by (intro mult_right_mono) simp_all
  then show ?thesis unfolding rnd_pos [OF y(1)] u_def [symmetric] M by linarith
qed

lemma rnd_ge_rep:
  assumes y: "x \<le> y" and m: "0 < m" "m \<le> 2 ^ 53" and E: "- 1074 \<le> E"
    and x: "x = of_int m * 2 powi E"
  shows "x \<le> rnd y"
proof -
  have xpos: "0 < x" unfolding x using m(1) powi_pos [of E] by simp
  then have ypos: "0 < y" using y by simp
  define u where "u = (2::real) powi ulpexp y"
  have u: "0 < u" by (simp add: u_def powi_pos)
  have "\<exists>M. x \<le> of_int M * u \<and> of_int M * u \<le> y"
  proof -
    from rep_multiple [OF ypos m E x] show ?thesis
    proof
      assume "\<exists>M. x = of_int M * 2 powi ulpexp y"
      then show ?thesis using y by (auto simp: u_def)
    next
      assume a: "x \<le> 2 powi (ulpexp y + 52) \<and> 2 powi (ulpexp y + 52) \<le> y"
      have "2 powi (ulpexp y + 52) = of_int (2 ^ 52) * u" by (simp add: powi_add u_def)
      then show ?thesis using a by metis
    qed
  qed
  then obtain M where M: "x \<le> of_int M * u" "of_int M * u \<le> y" by blast
  have "of_int M \<le> y / u" using M(2) u by (simp add: field_simps)
  then have "M \<le> rne (y / u)" by (rule rne_ge)
  then have "real_of_int M \<le> real_of_int (rne (y / u))" by (simp only: of_int_le_iff)
  then have "of_int M * u \<le> real_of_int (rne (y / u)) * u" using u by (intro mult_right_mono) simp_all
  then show ?thesis using M(1) unfolding rnd_pos [OF ypos] u_def [symmetric] by linarith
qed

lemma rnd_of_int:
  assumes "0 \<le> n" "n \<le> 2 ^ 53"
  shows "rnd (of_int n) = of_int n"
proof (cases "n = 0")
  case True then show ?thesis by (simp add: rnd_def)
next
  case False
  then have n: "0 < n" using assms by simp
  have x: "real_of_int n = of_int n * 2 powi 0" by simp
  have "rnd (of_int n) \<le> of_int n"
    by (rule rnd_le_rep [OF _ _ n assms(2) _ x]) (use n in simp_all)
  moreover have "of_int n \<le> rnd (of_int n)"
    by (rule rnd_ge_rep [OF _ n assms(2) _ x]) simp_all
  ultimately show ?thesis by simp
qed

lemma rnd_numeral: "(numeral k :: int) \<le> 2 ^ 53 \<Longrightarrow> rnd (numeral k) = numeral k"
  using rnd_of_int [of "numeral k"] by simp

lemma rnd_one: "rnd 1 = 1"
  using rnd_of_int [of 1] by simp

lemma rnd_zero: "rnd 0 = 0"
  by (simp add: rnd_def)


lemma rnd_eval:
  assumes "2 powi e \<le> \<bar>x\<bar>" "\<bar>x\<bar> < 2 powi (e + 1)" "- 1022 \<le> e"
  shows "rnd x = of_int (rne (x / 2 powi (e - 52))) * 2 powi (e - 52)"
proof -
  have "ilog2 \<bar>x\<bar> = e" using assms(1,2) by (rule ilog2_eqI)
  then have "ulpexp x = e - 52" using assms(3) by (simp add: ulpexp_def)
  moreover have "0 < \<bar>x\<bar>" using assms(1) powi_pos [of e] by linarith
  then have "x \<noteq> 0" by simp
  ultimately show ?thesis by (simp add: rnd_def)
qed

lemma rnd_selectionFactor: "rnd selectionFactor = 3602879701896397 / 2 ^ 52"
  using rnd_eval [of "- 1" selectionFactor] by (simp add: selectionFactor_def rne_def Let_def)

lemma rnd_distinctFactor: "rnd distinctFactor = 3152519739159347 / 2 ^ 52"
  using rnd_eval [of "- 1" distinctFactor] by (simp add: distinctFactor_def rne_def Let_def)

lemma rnd_aggFactor: "rnd aggFactor = 3602879701896397 / 2 ^ 55"
  using rnd_eval [of "- 4" aggFactor] by (simp add: aggFactor_def rne_def Let_def)

text \<open>The truncation of a rounded value that lies between an integer and seven eighths above it.\<close>

lemma floor_rnd:
  assumes "real k \<le> y" "y \<le> real k + 7 / 8" "k < 2 ^ 50"
  shows "\<lfloor>rnd y\<rfloor> = int k"
proof -
  have "int k < int (2 ^ 50)" using assms(3) by (simp only: of_nat_less_iff)
  then have k50: "int k < 2 ^ 50" by simp
  have lo: "real k \<le> rnd y"
  proof (cases "k = 0")
    case True
    then show ?thesis using rnd_nonneg [of y] assms(1) by simp
  next
    case False
    then have m: "0 < int k" by simp
    have k53: "int k \<le> 2 ^ 53" using k50 by simp
    have x: "real k = real_of_int (int k) * 2 powi 0" by simp
    show ?thesis by (rule rnd_ge_rep [OF assms(1) m k53 _ x]) simp
  qed
  have hi: "rnd y \<le> real k + 7 / 8"
  proof (cases "y = 0")
    case True
    then show ?thesis by (simp add: rnd_zero)
  next
    case False
    then have y: "0 < y" using assms(1) by (smt (verit) of_nat_0_le_iff)
    have m: "8 * int k + 7 \<le> 2 ^ 53" using k50 by simp
    have x: "real k + 7 / 8 = real_of_int (8 * int k + 7) * 2 powi (- 3)"
      by (simp add: power_int_def field_simps)
    show ?thesis by (rule rnd_le_rep [OF y assms(2) _ m _ x]) simp_all
  qed
  have "real_of_int (int k) \<le> rnd y" "rnd y < real_of_int (int k) + 1" using lo hi by simp_all
  then show ?thesis by (rule floor_unique)
qed

lemma scaleCount_bracket:
  assumes "rnd factor = f" "real k \<le> real (unat n) * f" "real (unat n) * f \<le> real k + 7 / 8"
    and "unat n \<le> 2 ^ 53" "k < 2 ^ 50"
  shows "scaleCount n factor = word_of_nat k"
proof -
  have "int (unat n) \<le> 2 ^ 53" using assms(4) by (metis of_nat_le_iff of_nat_numeral of_nat_power)
  then have "rnd (real_of_int (int (unat n))) = real_of_int (int (unat n))"
    by (intro rnd_of_int) simp_all
  then have "rnd (float64_of_uint64 n) = real (unat n)" by (simp add: float64_of_uint64_def)
  moreover have "\<lfloor>rnd (real (unat n) * f)\<rfloor> = int k" using assms(2,3,5) by (rule floor_rnd)
  moreover have "0 \<le> rnd (real (unat n) * f)"
    using assms(2) by (intro rnd_nonneg) (smt (verit) of_nat_0_le_iff)
  ultimately show ?thesis by (simp add: scaleCount_def assms(1) trunc_def)
qed

text \<open>Below \<open>2^50\<close> rows the rounded product truncates to four fifths of the count.\<close>

lemma scaleCount_selectionFactor:
  assumes "unat n < 2 ^ 50"
  shows "unat (scaleCount n selectionFactor) = unat n * 4 div 5"
proof -
  define N where "N = unat n"
  define k where "k = N * 4 div 5"
  define f :: real where "f = 3602879701896397 / 2 ^ 52"
  have f: "f = 4 / 5 + 1 / (5 * 2 ^ 52)" by (simp add: f_def)
  have N: "N < 2 ^ 50" using assms by (simp add: N_def)
  then have "real N < real (2 ^ 50)" by (simp only: of_nat_less_iff)
  then have rN: "real N < 2 ^ 50" by simp
  have "5 * k \<le> 4 * N" "4 * N \<le> 5 * k + 4" by (simp_all add: k_def)
  then have "real (5 * k) \<le> real (4 * N)" "real (4 * N) \<le> real (5 * k + 4)"
    by (simp_all only: of_nat_le_iff)
  then have rk: "5 * real k \<le> 4 * real N" "4 * real N \<le> 5 * real k + 4" by simp_all
  have prod: "real N * f = 4 * real N / 5 + real N / (5 * 2 ^ 52)" by (simp add: f field_simps)
  have small: "0 \<le> real N / (5 * 2 ^ 52)" "real N / (5 * 2 ^ 52) \<le> 1 / 20" using rN by simp_all
  have lo: "real k \<le> real N * f" unfolding prod using rk(1) small(1) by linarith
  have hi: "real N * f \<le> real k + 7 / 8" unfolding prod using rk(2) small(2) by linarith
  have k50: "k < 2 ^ 50" using N by (simp add: k_def)
  have "scaleCount n selectionFactor = word_of_nat k"
    using rnd_selectionFactor lo hi N k50
    by (intro scaleCount_bracket [where f = f]) (simp_all add: f_def N_def)
  moreover have "unat (word_of_nat k :: uint64) = k" using k50 by (simp add: unat_of_nat)
  ultimately show ?thesis by (simp add: k_def N_def)
qed

lemma scaleCount_100:
  "scaleCount 100 selectionFactor = 80" "scaleCount 100 aggFactor = 10"
proof -
  show "scaleCount 100 selectionFactor = 80"
    using scaleCount_bracket [OF rnd_selectionFactor, of 80 100] by simp
  show "scaleCount 100 aggFactor = 10"
    using scaleCount_bracket [OF rnd_aggFactor, of 10 100] by simp
qed

text \<open>
  Where the rounding shows: \<open>90 * 0.7\<close> is just below 63 in \<open>float64\<close>, and
  \<open>(2^51 + 3) * 0.8\<close> is rounded up to the next integer.
\<close>

lemma scaleCount_90_distinctFactor: "scaleCount 90 distinctFactor = 62"
proof -
  have "rnd (float64_of_uint64 90) = 90" by (simp add: float64_of_uint64_def rnd_numeral)
  then show ?thesis
    by (simp add: scaleCount_def trunc_def rnd_distinctFactor rnd_eval [of 5] rne_def Let_def)
qed

lemma scaleCount_large_selectionFactor:
  "scaleCount 2251799813685251 selectionFactor = 1801439850948201"
proof -
  have a: "rnd (float64_of_uint64 2251799813685251) = 2251799813685251"
    by (simp add: float64_of_uint64_def rnd_numeral)
  have "rnd (2251799813685251 * (3602879701896397 / 2 ^ 52)) = 1801439850948201"
    using rnd_eval [of 50 "2251799813685251 * (3602879701896397 / 2 ^ 52)"]
    by (simp add: rne_def Let_def)
  then show ?thesis by (simp add: scaleCount_def trunc_def a rnd_selectionFactor)
qed

lemma rnd_ge_one: "1 \<le> y \<Longrightarrow> 1 \<le> rnd y"
  using rnd_ge_rep [of 1 y 1 0] by simp

lemma MaxFloat64_ge: "2 ^ 64 \<le> MaxFloat64"
proof -
  have "(2::real) ^ 64 \<le> 2 ^ 971" by (rule power_increasing) simp_all
  moreover have "(1::real) \<le> 2 ^ 53 - 1" by simp
  ultimately have "1 * (2::real) ^ 64 \<le> (2 ^ 53 - 1) * 2 ^ 971" by (intro mult_mono) simp_all
  then show ?thesis by (simp only: MaxFloat64_def mult_1)
qed

lemma float64x_of_real_Finite:
  assumes "0 \<le> rnd x" "rnd x \<le> 2 ^ 64"
  shows "float64x_of_real x = Finite (rnd x)"
  using assms MaxFloat64_ge by (simp add: float64x_of_real_def Let_def)

lemma float64x_of_real_nn:
  assumes "0 \<le> x"
  shows "float64x_of_real x \<noteq> NaN \<and> \<not> negative (float64x_of_real x)"
proof -
  have "0 \<le> rnd x" using assms by (rule rnd_nonneg)
  moreover have "0 \<le> MaxFloat64" using MaxFloat64_ge by simp
  ultimately show ?thesis by (simp add: float64x_of_real_def Let_def)
qed

lemma fadd_nn:
  assumes "a \<noteq> NaN" "\<not> negative a" "b \<noteq> NaN" "\<not> negative b"
  shows "fadd a b \<noteq> NaN \<and> \<not> negative (fadd a b)"
  using assms by (cases a; cases b) (simp_all add: fadd_def float64x_of_real_nn)

lemma fdiv_nn:
  assumes "a \<noteq> NaN" "\<not> negative a" "0 < y"
  shows "fdiv a (Finite y) \<noteq> NaN \<and> \<not> negative (fdiv a (Finite y))"
  using assms by (cases a) (simp_all add: fdiv_def float64x_of_real_nn infinity_def)

lemma divide100_nn:
  "c \<noteq> NaN \<Longrightarrow> \<not> negative c \<Longrightarrow> divide100 j c \<noteq> NaN \<and> \<not> negative (divide100 j c)"
proof (induction j arbitrary: c)
  case 0
  then show ?case by simp
next
  case (Suc j)
  have "fdiv c (Finite 100) \<noteq> NaN \<and> \<not> negative (fdiv c (Finite 100))"
    using Suc.prems by (intro fdiv_nn) simp_all
  then show ?case using Suc.IH by simp
qed

lemma float64_of_int64_nonneg: "0 \<le> sint c \<Longrightarrow> 0 \<le> float64_of_int64 c"
  unfolding float64_of_int64_def by (rule rnd_nonneg) (simp only: of_int_0_le_iff)

lemma float64_of_int64_pos: "0 < sint c \<Longrightarrow> 1 \<le> float64_of_int64 c"
proof -
  assume "0 < sint c"
  then have "1 \<le> sint c" by simp
  then have "real_of_int 1 \<le> real_of_int (sint c)" by (simp only: of_int_le_iff)
  then show ?thesis unfolding float64_of_int64_def by (intro rnd_ge_one) simp
qed

lemma float64_of_int64_exact:
  assumes "0 \<le> sint c" "sint c \<le> 2 ^ 53"
  shows "float64_of_int64 c = real_of_int (sint c)"
  unfolding float64_of_int64_def using assms by (rule rnd_of_int)

lemma indexRangeCount_nn:
  assumes "0 < sint (Count table)" "0 \<le> sint c"
  shows "indexRangeCount table r c \<noteq> NaN \<and> \<not> negative (indexRangeCount table r c)"
proof -
  define fT where "fT = float64_of_int64 (Count table)"
  have fT: "fT \<noteq> 0" using float64_of_int64_pos [OF assms(1)] by (simp add: fT_def)
  have one: "fdiv (Finite fT) (Finite fT) = Finite 1"
    using fT by (simp add: fdiv_def float64x_of_real_Finite rnd_one)
  define x where "x = fmul (Finite 1) (Finite (float64_of_int64 c))"
  have "x = float64x_of_real (float64_of_int64 c)" by (simp add: x_def fmul_def)
  then have "x \<noteq> NaN \<and> \<not> negative x"
    using float64x_of_real_nn [OF float64_of_int64_nonneg [OF assms(2)]] by simp
  then have "divide100 (length (LowVal r) - 1) x \<noteq> NaN
      \<and> \<not> negative (divide100 (length (LowVal r) - 1) x)"
    by (intro divide100_nn) simp_all
  then show ?thesis by (simp add: indexRangeCount_def Let_def fT_def [symmetric] one x_def)
qed

lemma sumIndexRanges_nn:
  assumes "0 < sint (Count table)"
    and "\<forall>r\<in>set ranges. \<forall>c. indexRangeRowCount cmp table indexInfo r = Inr c \<longrightarrow> 0 \<le> sint c"
    and "s \<noteq> NaN" "\<not> negative s"
    and "sumIndexRanges cmp table indexInfo ranges s = Inr tot"
  shows "tot \<noteq> NaN \<and> \<not> negative tot"
  using assms
proof (induction ranges arbitrary: s)
  case Nil
  then show ?case by auto
next
  case (Cons r rest)
  from Cons.prems(5) obtain c where c: "indexRangeRowCount cmp table indexInfo r = Inr c"
    by (auto split: sum.splits)
  then have nn: "0 \<le> sint c" using Cons.prems(2) by simp
  define s1 where "s1 = fadd s (indexRangeCount table r c)"
  have "s1 \<noteq> NaN \<and> \<not> negative s1"
    unfolding s1_def using Cons.prems(3,4) indexRangeCount_nn [OF Cons.prems(1) nn]
    by (intro fadd_nn) simp_all
  moreover have "sumIndexRanges cmp table indexInfo rest s1 = Inr tot"
    using Cons.prems(5) c by (simp add: s1_def)
  ultimately show ?case using Cons.IH [of s1] Cons.prems(1,2) by simp
qed

lemma third_bounds:
  assumes "0 < T" "T \<le> 2 ^ 53"
  shows "real_of_int (T div 3) \<le> rnd (real_of_int T / 3) \<and> rnd (real_of_int T / 3) \<le> real_of_int T"
proof
  have le: "real_of_int (T div 3) \<le> real_of_int T / 3"
    using floor_divide_of_int_eq [of T 3, where ?'a = real] of_int_floor_le [of "real_of_int T / 3"]
    by simp
  show "real_of_int (T div 3) \<le> rnd (real_of_int T / 3)"
  proof (cases "T div 3 = 0")
    case True
    then show ?thesis using rnd_nonneg [of "real_of_int T / 3"] assms(1) by simp
  next
    case False
    then have p: "0 < T div 3" using assms(1) by (simp add: pos_imp_zdiv_pos_iff)
    have q: "T div 3 \<le> 2 ^ 53" using assms by linarith
    show ?thesis by (rule rnd_ge_rep [OF le p q, of 0]) simp_all
  qed
  have y: "0 < real_of_int T / 3" "real_of_int T / 3 \<le> real_of_int T" using assms(1) by simp_all
  show "rnd (real_of_int T / 3) \<le> real_of_int T"
    by (rule rnd_le_rep [OF y assms, of 0]) simp_all
qed

lemma clamp_bounds:
  assumes T: "0 < sint (Count table)" "sint (Count table) \<le> 2 ^ 53"
    and s: "s \<noteq> NaN" "\<not> negative s"
  shows "min 1000 (sint (Count table) div 3) \<le> uint (clampTotalCount cvt table s)
       \<and> uint (clampTotalCount cvt table s) \<le> sint (Count table)"
proof -
  define T where "T = sint (Count table)"
  define fT where "fT = float64_of_int64 (Count table)"
  have fT: "fT = real_of_int T"
    unfolding fT_def T_def using T by (intro float64_of_int64_exact) simp_all
  have Tpos: "0 < T" and T53: "T \<le> 2 ^ 53" using T by (simp_all add: T_def)
  have "real_of_int T \<le> real_of_int (2 ^ 53)" using T53 by (simp only: of_int_le_iff)
  then have fTle: "fT \<le> 2 ^ 53" by (simp add: fT)
  have fTpos: "0 < fT" using Tpos by (simp add: fT)
  note tb = third_bounds [OF Tpos T53]
  define t3 where "t3 = rnd (fT / 3)"
  have t3: "real_of_int (T div 3) \<le> t3" "t3 \<le> real_of_int T" using tb by (simp_all add: t3_def fT)
  have t3nn: "0 \<le> t3" using t3(1) Tpos by (smt (verit) of_int_nonneg pos_imp_zdiv_nonneg_iff)
  have t3lt: "t3 < 2 ^ 64" using t3(2) fTle by (simp add: fT [symmetric])
  have third: "fdiv (Finite fT) (Finite 3) = Finite t3"
    using t3nn t3lt by (simp add: fdiv_def float64x_of_real_Finite t3_def)
  have "uint (uint64_of_float64 cvt (Finite t3)) = \<lfloor>t3\<rfloor>"
    using t3nn t3lt uint_trunc [OF t3nn t3lt] by (simp add: uint64_of_float64_def)
  moreover have "T div 3 \<le> \<lfloor>t3\<rfloor>" using t3(1) by (simp add: le_floor_iff)
  moreover have "\<lfloor>t3\<rfloor> \<le> T" using t3(2) by (simp add: floor_le_iff)
  ultimately have third_val: "T div 3 \<le> uint (uint64_of_float64 cvt (Finite t3))"
    "uint (uint64_of_float64 cvt (Finite t3)) \<le> T" by simp_all
  define t1 where "t1 = (if uint64_of_float64 cvt s < 1000 then Finite 1000 else s)"
  have clamp: "clampTotalCount cvt table s =
      uint64_of_float64 cvt (if fgt t1 (Finite fT) then Finite t3 else t1)"
    by (simp add: clampTotalCount_def t1_def fT_def [symmetric] third Let_def)
  have "min 1000 (T div 3) \<le> uint (clampTotalCount cvt table s)
       \<and> uint (clampTotalCount cvt table s) \<le> T"
  proof (cases "fgt t1 (Finite fT)")
    case True
    then show ?thesis using third_val by (simp add: clamp)
  next
    case False
    have t1nn: "t1 \<noteq> NaN" "\<not> negative t1" using s by (simp_all add: t1_def)
    then obtain v where v: "t1 = Finite v" "0 \<le> v" "v \<le> fT"
      using False by (cases t1) (simp_all add: fgt_def)
    have vlt: "v < 2 ^ 64" using v(3) fTle by simp
    have conv: "uint64_of_float64 cvt (Finite v) = word_of_int (trunc v)"
      using v(2) vlt by (simp add: uint64_of_float64_def)
    have val: "uint (clampTotalCount cvt table s) = \<lfloor>v\<rfloor>"
      using False uint_trunc [OF v(2) vlt] by (simp add: clamp v(1) conv)
    have up: "\<lfloor>v\<rfloor> \<le> T" using v(3) by (simp add: fT floor_le_iff)
    have lo: "1000 \<le> \<lfloor>v\<rfloor>"
    proof (cases "uint64_of_float64 cvt s < 1000")
      case True
      then show ?thesis using v(1) by (simp add: t1_def)
    next
      case False
      then have ts: "s = Finite v" using v(1) by (simp add: t1_def)
      from False have "\<not> uint (uint64_of_float64 cvt (Finite v)) < 1000"
        by (simp add: ts word_less_def)
      then show ?thesis using uint_trunc [OF v(2) vlt] by (simp add: conv)
    qed
    show ?thesis unfolding val using up lo by linarith
  qed
  then show ?thesis by (simp add: T_def)
qed

lemma indexRangeRowCount_exit:
  "indexRangeRowCount cmp table indexInfo r = Inl (Return (n, None)) \<Longrightarrow> n = Count table"
  by (auto simp: indexRangeRowCount_def Let_def split: option.splits if_splits prod.splits)

lemma sumIndexRanges_exit:
  "sumIndexRanges cmp table indexInfo ranges tot = Inl (Return (n, None)) \<Longrightarrow> n = Count table"
  by (induction ranges arbitrary: tot) (auto split: sum.splits dest: indexRangeRowCount_exit)


subsection \<open>The estimate of getRowCountByIndexRanges\<close>

lemmas example_defs = exampleStats_def exampleCompare_def exampleTable_def smallTable_def
  hugeTable_def
  exampleIndexInfo_def
  exampleRange_def fullRange_def leadingFullRange_def failingTable_def

lemmas rowCount_defs = getRowCountByIndexRanges_def indexRangeRowCount_def index_def
  indexRangeCount_def fadd_def fmul_def fdiv_def fgt_def clampTotalCount_def
  uint64_of_float64_def float64_of_int64_def trunc_def

lemmas rnd_simps = rnd_numeral rnd_one rnd_zero float64x_of_real_Finite

lemma exampleRange_rowCount:
  "indexRangeRowCount exampleCompare exampleTable exampleIndexInfo exampleRange = Inr 3000"
  by (simp add: example_defs indexRangeRowCount_def index_def)

lemma example_estimate:
  "getRowCountByIndexRanges exampleCvt exampleCompare exampleTable [exampleRange] exampleIndexInfo
     = Return (3000, None)"
  by (simp add: example_defs rowCount_defs rnd_simps)


text \<open>
  Above \<open>2^53\<close> rows the conversion of the table's row count rounds: for a table of
  \<open>2^53 + 3\<close> rows and a range estimated at all of them, the estimate is \<open>2^53 + 4\<close>.
\<close>

lemma rnd_huge: "rnd 9007199254740995 = 9007199254740996" "rnd 9007199254740996 = 9007199254740996"
  using rnd_eval [of 53 9007199254740995] rnd_eval [of 53 9007199254740996]
  by (simp_all add: rne_def Let_def)

lemma hugeTable_estimate:
  "getRowCountByIndexRanges exampleCvt exampleCompare hugeTable [exampleRange] exampleIndexInfo
     = Return (9007199254740996, None)"
  by (simp add: example_defs rowCount_defs rnd_simps rnd_huge)


text \<open>
  Claim C1, as the code has it. Lines 92 to 98 raise a total below 1000 to 1000 and then
  replace a total above the table's row count \<open>T\<close> by \<open>T / 3\<close>; they do not cap the
  total at \<open>T / 3\<close>, and the second step can undo the first. For a table with
  \<open>0 < T \<le> 2^53\<close>, where \<open>float64(T)\<close> is exact, and ranges whose row counts are not
  negative, every estimate returned without an error is at least \<open>min 1000 (T div 3)\<close>
  and at most \<open>T\<close>. (For \<open>T = 0\<close> the quotient of line 83 is a NaN, a negative total has
  no \<open>uint64\<close> value that Go defines, and above \<open>2^53\<close> the conversion of \<open>T\<close> can
  round up.)
\<close>

theorem getRowCountByIndexRanges_bounds:
  assumes "getRowCountByIndexRanges cvt cmp table indexRanges indexInfo = Return (n, None)"
    and "0 < sint (Count table)"
    and "sint (Count table) \<le> 2 ^ 53"
    and "\<forall>r\<in>set indexRanges. \<forall>c. indexRangeRowCount cmp table indexInfo r = Inr c \<longrightarrow> 0 \<le> sint c"
  shows "min 1000 (sint (Count table) div 3) \<le> uint n \<and> uint n \<le> sint (Count table)"
proof (cases "sumIndexRanges cmp table indexInfo indexRanges (Finite 0)")
  case (Inl exit)
  then have "n = Count table"
    using assms(1) sumIndexRanges_exit [of cmp table indexInfo indexRanges "Finite 0" n]
    by (simp add: getRowCountByIndexRanges_def)
  moreover have "uint (Count table) = sint (Count table)"
    using assms(2) by (simp add: uint_eq_sint)
  ultimately show ?thesis using assms(2) by simp
next
  case (Inr tot)
  have "tot \<noteq> NaN \<and> \<not> negative tot"
    by (rule sumIndexRanges_nn [OF assms(2) assms(4) _ _ Inr]) simp_all
  then show ?thesis using assms(1) Inr clamp_bounds [OF assms(2) assms(3), of tot cvt]
    by (simp add: getRowCountByIndexRanges_def)
qed


text \<open>
  A table of 5000 rows and one range that the histogram estimates at 3000 rows: the
  hypotheses of the theorem hold and the estimate is 3000.
\<close>

theorem getRowCountByIndexRanges_bounds_witness:
  "getRowCountByIndexRanges exampleCvt exampleCompare exampleTable [exampleRange] exampleIndexInfo
     = Return (3000, None)
   \<and> min 1000 (sint (Count exampleTable) div 3) \<le> uint (3000 :: uint64)
   \<and> uint (3000 :: uint64) \<le> sint (Count exampleTable)"
proof -
  have h2: "0 < sint (Count exampleTable)" by (simp add: exampleTable_def)
  have h3: "sint (Count exampleTable) \<le> 2 ^ 53" by (simp add: exampleTable_def)
  have h4: "\<forall>r\<in>set [exampleRange]. \<forall>c.
      indexRangeRowCount exampleCompare exampleTable exampleIndexInfo r = Inr c \<longrightarrow> 0 \<le> sint c"
    by (simp add: exampleRange_rowCount)
  show ?thesis
    using getRowCountByIndexRanges_bounds [OF example_estimate h2 h3 h4] example_estimate by simp
qed


text \<open>
  The bounds of the claim as it is stated, \<open>min 1000 T\<close> below and \<open>T div 3\<close> above, both
  fail: the estimate 3000 of the table above exceeds \<open>5000 div 3\<close>, and for a table of
  600 rows a range of 300 rows is estimated at 200 rows (300 is raised to 1000, which is
  above 600 and replaced by \<open>600 / 3\<close>), below \<open>min 1000 600\<close>.
\<close>

theorem getRowCountByIndexRanges_claimed_bounds_counterexample:
  "getRowCountByIndexRanges exampleCvt exampleCompare exampleTable [exampleRange] exampleIndexInfo
     = Return (3000, None)
   \<and> \<not> uint (3000 :: uint64) \<le> sint (Count exampleTable) div 3
   \<and> getRowCountByIndexRanges exampleCvt exampleCompare smallTable [exampleRange] exampleIndexInfo
     = Return (200, None)
   \<and> \<not> min 1000 (sint (Count smallTable)) \<le> uint (200 :: uint64)"
  by (simp add: example_defs rowCount_defs rnd_simps)


subsection \<open>The short-circuit of getRowCountByIndexRanges\<close>

lemma sumIndexRanges_full:
  assumes "\<forall>q\<in>set pre. indexRangeRowCount cmp table indexInfo q \<noteq> Inl Panic
             \<and> (\<forall>n e. indexRangeRowCount cmp table indexInfo q \<noteq> Inl (Return (n, Some e)))"
    and "indexRangeRowCount cmp table indexInfo r = Inl (Return (Count table, None))"
  shows "sumIndexRanges cmp table indexInfo (pre @ r # post) tot = Inl (Return (Count table, None))"
  using assms
proof (induction pre arbitrary: tot)
  case Nil
  then show ?case by simp
next
  case (Cons q pre)
  show ?case
  proof (cases "indexRangeRowCount cmp table indexInfo q")
    case (Inl exit)
    show ?thesis
    proof (cases exit)
      case Panic
      then show ?thesis using Cons.prems(1) Inl by simp
    next
      case (Return res)
      obtain n err where res: "res = (n, err)" by (cases res)
      then have "err = None" using Cons.prems(1) Inl Return by (cases err) auto
      then have "n = Count table" using indexRangeRowCount_exit Inl Return res by blast
      then show ?thesis using Inl Return res \<open>err = None\<close> by simp
    qed
  next
    case (Inr c)
    then show ?thesis using Cons by simp
  qed
qed


text \<open>
  Claim C3, as the code has it. Line 50 looks at the last bound dimension of a range
  (\<open>len(LowVal) - 1\<close>), not at the leading one, and the ranges are visited in order. If
  some range is \<open>(NULL, +\<infinity>)\<close> on its last dimension, and no range before it ends the
  function with an error or a panic, the function returns the table's row count.
\<close>

theorem getRowCountByIndexRanges_full_range:
  assumes "indexRanges = pre @ r # post"
    and "\<forall>q\<in>set pre. indexRangeRowCount cmp table indexInfo q \<noteq> Inl Panic
             \<and> (\<forall>n e. indexRangeRowCount cmp table indexInfo q \<noteq> Inl (Return (n, Some e)))"
    and "index (LowVal r) (int (length (LowVal r)) - 1) = Some KindNull"
    and "index (HighVal r) (int (length (LowVal r)) - 1) = Some KindMaxValue"
    and "index (IndexColumns indexInfo) (int (length (LowVal r)) - 1) \<noteq> None"
  shows "getRowCountByIndexRanges cvt cmp table indexRanges indexInfo = Return (Count table, None)"
proof -
  have "indexRangeRowCount cmp table indexInfo r = Inl (Return (Count table, None))"
    using assms(3,4,5) by (auto simp: indexRangeRowCount_def Let_def)
  then show ?thesis
    using sumIndexRanges_full [OF assms(2)] by (simp add: getRowCountByIndexRanges_def assms(1))
qed


text \<open>A range estimated at 3000 rows followed by the full range: the result is 5000.\<close>

theorem getRowCountByIndexRanges_full_range_witness:
  "getRowCountByIndexRanges exampleCvt exampleCompare exampleTable [exampleRange, fullRange] exampleIndexInfo
     = Return (5000, None)"
proof -
  have h1: "[exampleRange, fullRange] = [exampleRange] @ fullRange # []" by simp
  have h2: "\<forall>q\<in>set [exampleRange].
      indexRangeRowCount exampleCompare exampleTable exampleIndexInfo q \<noteq> Inl Panic
      \<and> (\<forall>n e. indexRangeRowCount exampleCompare exampleTable exampleIndexInfo q
                  \<noteq> Inl (Return (n, Some e)))"
    by (simp add: exampleRange_rowCount)
  have h3: "index (LowVal fullRange) (int (length (LowVal fullRange)) - 1) = Some KindNull"
    by (simp add: fullRange_def index_def)
  have h4: "index (HighVal fullRange) (int (length (LowVal fullRange)) - 1) = Some KindMaxValue"
    by (simp add: fullRange_def index_def)
  have h5: "index (IndexColumns exampleIndexInfo) (int (length (LowVal fullRange)) - 1) \<noteq> None"
    by (simp add: fullRange_def exampleIndexInfo_def index_def)
  show ?thesis
    using getRowCountByIndexRanges_full_range [OF h1 h2 h3 h4 h5, of exampleCvt]
    by (simp add: exampleTable_def)
qed


text \<open>
  The claim as it is stated fails twice. A range over two columns that is
  \<open>(NULL, +\<infinity>)\<close> on the leading one and \<open>[1, 9]\<close> on the second is estimated from the
  second: 3000 rows, divided by 100, raised to 1000, not the 5000 rows of the table. And
  when the histogram fails on a range that comes before the full range, the function
  returns that error.
\<close>

theorem getRowCountByIndexRanges_leading_full_counterexample:
  "LowVal leadingFullRange ! 0 = KindNull \<and> HighVal leadingFullRange ! 0 = KindMaxValue
   \<and> getRowCountByIndexRanges exampleCvt exampleCompare exampleTable [leadingFullRange] exampleIndexInfo
       = Return (1000, None)
   \<and> (1000 :: uint64) \<noteq> Count exampleTable
   \<and> getRowCountByIndexRanges exampleCvt exampleCompare failingTable [exampleRange, fullRange] exampleIndexInfo
       = Return (0, Some (Error ''histogram''))"
  by (simp add: example_defs rowCount_defs rnd_simps)


subsection \<open>sortCost\<close>




subsection \<open>Schemas\<close>

lemma GetIndex_range:
  "GetIndex s c \<noteq> - 1 \<Longrightarrow> 0 \<le> GetIndex s c \<and> GetIndex s c < int (length s)"
  by (induction s) (auto simp: Let_def split: if_splits)

lemma GetIndex_ge: "- 1 \<le> GetIndex s c"
  by (induction s) (auto simp: Let_def)

lemma GetIndex_absent: "GetIndex s c = - 1 \<longleftrightarrow> c \<notin> set s"
proof (induction s)
  case Nil
  show ?case by simp
next
  case (Cons x xs)
  have "- 1 \<le> GetIndex xs c" by (rule GetIndex_ge)
  then show ?case using Cons by (auto simp: Let_def)
qed

lemma index_in_range: "0 \<le> i \<Longrightarrow> i < int (length xs) \<Longrightarrow> index xs i = Some (xs ! nat i)"
  by (simp add: index_def)

lemmas column_defs = colA_def colB_def colC_def outA_def outF_def

subsection \<open>Projection: a requested column that is computed\<close>

lemma projectionProps_scalar:
  assumes "\<forall>c\<in>set cs. index exprs (GetIndex sch (col c)) \<noteq> None"
    and "\<forall>c\<in>set cs. \<forall>v. index exprs (GetIndex sch (col c)) = Some (ColumnExpr v)
           \<longrightarrow> GetIndex childSchema v \<noteq> - 1"
    and "\<exists>c\<in>set cs. \<exists>f args. index exprs (GetIndex sch (col c)) = Some (ScalarFunction f args)"
    and "length usedCols = length childSchema"
  shows "projectionProps sch exprs childSchema cs usedCols newProp = Return None"
  using assms
proof (induction cs arbitrary: usedCols newProp)
  case Nil
  then show ?case by simp
next
  case (Cons c cs)
  from Cons.prems(1) obtain e where e: "index exprs (GetIndex sch (col c)) = Some e" by auto
  show ?case
  proof (cases e)
    case (ColumnExpr v)
    then have "GetIndex childSchema v \<noteq> - 1" using Cons.prems(2) e by simp
    then obtain u where u: "index usedCols (GetIndex childSchema v) = Some u"
      using GetIndex_range [of childSchema v] Cons.prems(4) by (simp add: index_in_range)
    have rest: "\<exists>c\<in>set cs. \<exists>f args. index exprs (GetIndex sch (col c)) = Some (ScalarFunction f args)"
      using Cons.prems(3) e ColumnExpr by auto
    have IH: "\<And>uc np. length uc = length childSchema \<Longrightarrow>
        projectionProps sch exprs childSchema cs uc np = Return None"
      using Cons.IH Cons.prems(1,2) rest by simp
    show ?thesis using e ColumnExpr u IH Cons.prems(4) by (simp add: Let_def)
  next
    case (Constant d)
    have rest: "\<exists>c\<in>set cs. \<exists>f args. index exprs (GetIndex sch (col c)) = Some (ScalarFunction f args)"
      using Cons.prems(3) e Constant by auto
    show ?thesis using e Constant Cons.IH Cons.prems(1,2,4) rest by simp
  next
    case (ScalarFunction f args)
    then show ?thesis using e by simp
  next
    case (CorrelatedColumn v)
    have rest: "\<exists>c\<in>set cs. \<exists>f args. index exprs (GetIndex sch (col c)) = Some (ScalarFunction f args)"
      using Cons.prems(3) e CorrelatedColumn by auto
    show ?thesis using e CorrelatedColumn Cons.IH Cons.prems(1,2,4) rest by simp
  qed
qed

lemma emptyProperty_simps:
  "props emptyProperty = []" "sortKeyLen emptyProperty = 0" "limit emptyProperty = None"
  by (simp_all add: emptyProperty_def)

lemma emptyMemo_None: "emptyMemo prop = None"
  by (simp add: emptyMemo_def)

lemma Projection_memo_inv_empty: "Projection_memo_inv p childSchema emptyMemo"
  by (simp add: Projection_memo_inv_def emptyMemo_def)

lemma Projection_memo_inv_preserved:
  assumes "Projection_memo_inv p childSchema m"
    and "Projection_convert2PhysicalPlan p childSchema child prop (m, s) = (r, (m1, s1))"
  shows "Projection_memo_inv p childSchema m1"
  using assms
  by (auto simp: Projection_convert2PhysicalPlan_def Projection_memo_inv_def getPlanInfo_def
      storePlanInfo_def Let_def split: option.splits outcome.splits prod.splits if_splits)

text \<open>
  Claim C5. When a requested sort column maps through the projection to a computed
  expression (a scalar function), the conversion returns the info of cost
  \<open>math.MaxFloat64\<close>, without a plan, and converts no child; nothing is stored. The
  requested columns are columns of the projection, and the columns it passes through are
  columns of its child. A constant or a correlated column is not a computed expression:
  it only shortens the sort prefix.
\<close>

theorem Projection_computed_column_unsatisfiable:
  assumes "Projection_memo_inv p childSchema m"
    and "\<forall>c\<in>set (props prop). index (Exprs p) (GetIndex (schema p) (col c)) \<noteq> None"
    and "\<forall>c\<in>set (props prop). \<forall>v.
           index (Exprs p) (GetIndex (schema p) (col c)) = Some (ColumnExpr v)
           \<longrightarrow> v \<in> set childSchema"
    and "\<exists>c\<in>set (props prop). \<exists>f args.
           index (Exprs p) (GetIndex (schema p) (col c)) = Some (ScalarFunction f args)"
  shows "Projection_convert2PhysicalPlan p childSchema child prop (m, s)
           = (Return (Some unsatisfiable, None), (m, s))
         \<and> cost unsatisfiable = MaxFloat64"
proof -
  have loop: "projectionProps (schema p) (Exprs p) childSchema (props prop)
          (replicate (length childSchema) False)
          \<lparr>props = [], sortKeyLen = sortKeyLen prop, limit = limit prop\<rparr> = Return None"
    using assms(2,3,4) by (intro projectionProps_scalar) (auto simp: GetIndex_absent)
  then have "m prop = None" using assms(1) by (auto simp: Projection_memo_inv_def)
  then show ?thesis using loop
    by (simp add: Projection_convert2PhysicalPlan_def getPlanInfo_def unsatisfiable_def)
qed

text \<open>A projection \<open>a, a + b\<close> asked for the order \<open>a, a + b\<close>.\<close>

theorem Projection_computed_column_unsatisfiable_witness:
  "Projection_convert2PhysicalPlan exampleProjection [colA, colB] countingChild
     (orderBy [outA, outF]) (emptyMemo, 0)
   = (Return (Some unsatisfiable, None), (emptyMemo, 0))
   \<and> cost unsatisfiable = MaxFloat64"
proof -
  have h1: "Projection_memo_inv exampleProjection [colA, colB] emptyMemo"
    by (rule Projection_memo_inv_empty)
  have h2: "\<forall>c\<in>set (props (orderBy [outA, outF])).
      index (Exprs exampleProjection) (GetIndex (schema exampleProjection) (col c)) \<noteq> None"
    by (simp add: orderBy_def exampleProjection_def index_def column_defs)
  have h3: "\<forall>c\<in>set (props (orderBy [outA, outF])). \<forall>v.
      index (Exprs exampleProjection) (GetIndex (schema exampleProjection) (col c))
        = Some (ColumnExpr v) \<longrightarrow> v \<in> set [colA, colB]"
    by (simp add: orderBy_def exampleProjection_def index_def column_defs)
  have h4: "\<exists>c\<in>set (props (orderBy [outA, outF])). \<exists>f args.
      index (Exprs exampleProjection) (GetIndex (schema exampleProjection) (col c))
        = Some (ScalarFunction f args)"
    by (simp add: orderBy_def exampleProjection_def index_def column_defs)
  show ?thesis
    using Projection_computed_column_unsatisfiable [OF h1 h2 h3 h4, of countingChild 0] by simp
qed

subsection \<open>Apply: a requested column of the inner child\<close>

lemma Apply_memo_inv_empty: "Apply_memo_inv innerSchema emptyMemo"
  by (simp add: Apply_memo_inv_def emptyMemo_def)

lemma Apply_memo_inv_preserved:
  assumes "Apply_memo_inv innerSchema m"
    and "Apply_convert2PhysicalPlan p innerSchema child innerPlan prop (m, s) = (r, (m1, s1))"
  shows "Apply_memo_inv innerSchema m1"
  using assms
  by (auto simp: Apply_convert2PhysicalPlan_def Apply_memo_inv_def getPlanInfo_def
      storePlanInfo_def Let_def split: option.splits outcome.splits prod.splits if_splits)

text \<open>
  Claim C9. When the requested order has a column that is found in the schema of the inner
  (second) child, the conversion returns the info of cost \<open>math.MaxFloat64\<close> and
  leaves the state as it was: neither child is converted.
\<close>

theorem Apply_inner_column_unsatisfiable:
  assumes "Apply_memo_inv innerSchema m"
    and "\<exists>c\<in>set (props prop). col c \<in> set innerSchema"
  shows "Apply_convert2PhysicalPlan p innerSchema child innerPlan prop (m, s)
           = (Return (Some unsatisfiable, None), (m, s))
         \<and> cost unsatisfiable = MaxFloat64"
proof -
  have ex: "list_ex (\<lambda>c. GetIndex innerSchema (col c) \<noteq> - 1) (props prop)"
    using assms(2) by (auto simp: list_ex_iff GetIndex_absent)
  then have "m prop = None" using assms(1) by (auto simp: Apply_memo_inv_def)
  then show ?thesis using ex
    by (simp add: Apply_convert2PhysicalPlan_def getPlanInfo_def unsatisfiable_def)
qed

text \<open>An Apply whose inner child delivers column \<open>u.0\<close>, asked for the order \<open>t.0, u.0\<close>.\<close>

theorem Apply_inner_column_unsatisfiable_witness:
  "Apply_convert2PhysicalPlan exampleApply [colC] countingChild countingChild
     (orderBy [colA, colC]) (emptyMemo, 0)
   = (Return (Some unsatisfiable, None), (emptyMemo, 0))
   \<and> cost unsatisfiable = MaxFloat64"
proof -
  have h1: "Apply_memo_inv [colC] emptyMemo" by (rule Apply_memo_inv_empty)
  have h2: "\<exists>c\<in>set (props (orderBy [colA, colC])). col c \<in> set [colC]"
    by (simp add: orderBy_def)
  show ?thesis
    using Apply_inner_column_unsatisfiable [OF h1 h2, of exampleApply countingChild countingChild 0]
    by simp
qed

subsection \<open>DataSource: the dummy scan\<close>

lemma dummyScanConds_found:
  assumes "\<forall>d. Constant d \<in> set pre \<longrightarrow> snd (evalBool d) = None"
    and "evalBool con = (False, None)"
  shows "dummyScanConds evalBool (pre @ Constant con # post) = Inr True"
  using assms(1)
proof (induction pre)
  case Nil
  then show ?case using assms(2) by simp
next
  case (Cons c pre)
  show ?case
  proof (cases c)
    case (Constant d)
    then have "snd (evalBool d) = None" using Cons.prems by simp
    then obtain b where "evalBool d = (b, None)" by (cases "evalBool d") simp
    then show ?thesis using Constant Cons by simp
  qed (use Cons in simp_all)
qed

lemma DataSource_memo_inv_empty: "DataSource_memo_inv p emptyMemo"
  by (simp add: DataSource_memo_inv_def emptyMemo_def)

text \<open>
  Claim C7, as the code has it. The conditions of the parent Selection are visited in
  order and the evaluation of a constant can fail (line 347), which ends the conversion
  with that error. If the parent is a Selection with a constant condition that evaluates to
  false, and no constant condition before it fails to evaluate, then for every required
  property the conversion returns the dummy scan (no rows, no cost, no sort or limit above
  it) and the memo holds it for the requested property.
\<close>

theorem DataSource_dummy_scan:
  assumes "DataSource_memo_inv p m"
    and "parents p = SelectionParent (pre @ Constant con # post) # others"
    and "evalBool con = (False, None)"
    and "\<forall>d. Constant d \<in> set pre \<longrightarrow> snd (evalBool d) = None"
  shows "DataSource_convert2PhysicalPlan evalBool tableScan indexScan p prop m
           = (Return (Some (dummyInfo (schema p)), None), m(prop \<mapsto> dummyInfo (schema p)))
         \<and> dummyInfo (schema p)
           = \<lparr>plan = Some (PhysicalPlan PhysicalDummyScan False (schema p) []), cost = 0, count = 0\<rparr>
         \<and> DataSource_memo_inv p (m(prop \<mapsto> dummyInfo (schema p)))"
proof -
  have found: "dummyScanConds evalBool (pre @ Constant con # post) = Inr True"
    using assms(4,3) by (rule dummyScanConds_found)
  have inv: "DataSource_memo_inv p (m(prop \<mapsto> dummyInfo (schema p)))"
    using assms(1) by (simp add: DataSource_memo_inv_def)
  show ?thesis
  proof (cases "m prop")
    case None
    then show ?thesis using found assms(2) inv
      by (simp add: DataSource_convert2PhysicalPlan_def getPlanInfo_def
          tryToConvert2DummyScan_def storePlanInfo_def dummyInfo_def Let_def)
  next
    case (Some info)
    then have "m prop = Some (dummyInfo (schema p))"
      using assms(1) by (auto simp: DataSource_memo_inv_def)
    moreover from this have "m(prop \<mapsto> dummyInfo (schema p)) = m" by (rule map_upd_triv)
    ultimately show ?thesis using inv
      by (simp add: DataSource_convert2PhysicalPlan_def getPlanInfo_def dummyInfo_def)
  qed
qed

text \<open>A filter \<open>a AND 0\<close> above the table, asked for the order \<open>a\<close> and five rows.\<close>

theorem DataSource_dummy_scan_witness:
  "DataSource_convert2PhysicalPlan exampleEvalBool exampleTableScan exampleIndexScan
     (exampleDataSource [SelectionParent [ColumnExpr colA, Constant (KindInt64 0)]])
     (orderBy [colA]\<lparr>limit := Some \<lparr>LimitOffset = 0, LimitCount = 5\<rparr>\<rparr>) emptyMemo
   = (Return (Some \<lparr>plan = Some (PhysicalPlan PhysicalDummyScan False [colA, colB] []),
                    cost = 0, count = 0\<rparr>, None),
      emptyMemo(orderBy [colA]\<lparr>limit := Some \<lparr>LimitOffset = 0, LimitCount = 5\<rparr>\<rparr>
         \<mapsto> \<lparr>plan = Some (PhysicalPlan PhysicalDummyScan False [colA, colB] []),
             cost = 0, count = 0\<rparr>))"
proof -
  let ?p = "exampleDataSource [SelectionParent [ColumnExpr colA, Constant (KindInt64 0)]]"
  have h1: "DataSource_memo_inv ?p emptyMemo" by (rule DataSource_memo_inv_empty)
  have h2: "parents ?p = SelectionParent ([ColumnExpr colA] @ Constant (KindInt64 0) # []) # []"
    by (simp add: exampleDataSource_def)
  have h3: "exampleEvalBool (KindInt64 0) = (False, None)" by (simp add: exampleEvalBool_def)
  have h4: "\<forall>d. Constant d \<in> set [ColumnExpr colA] \<longrightarrow> snd (exampleEvalBool d) = None" by simp
  show ?thesis
    using DataSource_dummy_scan [OF h1 h2 h3 h4, of exampleTableScan exampleIndexScan]
    by (simp add: exampleDataSource_def)
qed

text \<open>
  The claim as it is stated fails for the filter \<open>'abc' AND 0\<close> when the evaluation
  of \<open>'abc'\<close> fails: the conversion returns that error, and no plan.
\<close>

theorem DataSource_dummy_scan_error_counterexample:
  "exampleEvalBool (KindInt64 0) = (False, None)
   \<and> DataSource_convert2PhysicalPlan exampleEvalBool exampleTableScan exampleIndexScan
       (exampleDataSource [SelectionParent [Constant (KindString ''abc''), Constant (KindInt64 0)]])
       emptyProperty emptyMemo
     = (Return (None, Some (Error ''cannot convert to bool'')), emptyMemo)"
  by (simp add: DataSource_convert2PhysicalPlan_def getPlanInfo_def tryToConvert2DummyScan_def
      exampleDataSource_def exampleEvalBool_def emptyMemo_def)

subsection \<open>Union and Apply: a child that fails\<close>

text \<open>
  A child that fails returns a nil info with its error, as every conversion of this file
  does. Whatever the child and the error, Union and Apply then panic.
\<close>

lemma Union_child_error_panics:
  assumes "m prop = None"
    and "unionChildProps (schema p) childSchema (props prop) = Some ps"
    and "child ((convertLimitOffsetToCount prop)\<lparr>props := ps\<rparr>) s = (Return (None, Some e), s1)"
  shows "Union_convert2PhysicalPlan mp p ((childSchema, child) # rest) prop (m, s)
           = (Panic, (m, s1))"
  using assms by (simp add: Union_convert2PhysicalPlan_def getPlanInfo_def)

lemma Apply_inner_error_panics:
  assumes "m prop = None"
    and "\<not> list_ex (\<lambda>c. GetIndex innerSchema (col c) \<noteq> - 1) (props prop)"
    and "innerPlan emptyProperty s = (Return (None, Some e), s1)"
  shows "Apply_convert2PhysicalPlan p innerSchema child innerPlan prop (m, s) = (Panic, (m, s1))"
  using assms by (simp add: Apply_convert2PhysicalPlan_def getPlanInfo_def)

lemma failingChild_result:
  "failingChild prop emptyMemo = (Return (None, Some (Error ''no transaction'')), emptyMemo)"
  by (simp add: failingChild_def DataSource_convert2PhysicalPlan_def getPlanInfo_def
      tryToConvert2DummyScan_def exampleDataSource_def failingTableScan_def emptyMemo_def)

text \<open>
  Claim C10 does not hold of the code. Union reads \<open>info.count\<close> (line 880) and Apply
  reads \<open>innerInfo.p\<close> (line 1125) before the error of the child is looked at. For a
  data source whose table scan fails, below a Union and as the inner child of an Apply, both
  conversions panic on the nil info instead of returning the error.
\<close>

theorem Union_Apply_child_error_panics:
  "failingChild emptyProperty emptyMemo
     = (Return (None, Some (Error ''no transaction'')), emptyMemo)
   \<and> Union_convert2PhysicalPlan exampleUnionMatch \<lparr>schema = [colA, colB], correlated = False\<rparr>
       [([colA, colB], failingChild)] emptyProperty (emptyMemo, emptyMemo)
     = (Panic, (emptyMemo, emptyMemo))
   \<and> Apply_convert2PhysicalPlan exampleApply [colC] failingChild failingChild emptyProperty
       (emptyMemo, emptyMemo)
     = (Panic, (emptyMemo, emptyMemo))"
  by (simp add: failingChild_result Union_convert2PhysicalPlan_def Apply_convert2PhysicalPlan_def
      getPlanInfo_def emptyMemo_None emptyProperty_simps)

subsection \<open>Joins: the row count\<close>

lemma enforceProperty_count:
  "count (enforceProperty q i) =
     (case (plan i, limit q) of
        (Some pl, Some lmt) \<Rightarrow> if LimitCount lmt < count i then LimitCount lmt else count i
      | _ \<Rightarrow> count i)"
  by (simp add: enforceProperty_def addPlanToResponse_def Let_def split: option.splits)

lemma enforceProperty_plan: "plan (enforceProperty q i) = None \<longleftrightarrow> plan i = None"
  by (simp add: enforceProperty_def addPlanToResponse_def Let_def split: option.splits)

lemma limitedCount:
  "count (enforceProperty q i) =
     (case limit q of
        None \<Rightarrow> count i
      | Some lmt \<Rightarrow> if plan (enforceProperty q i) \<noteq> None \<and> LimitCount lmt < count i
                    then LimitCount lmt else count i)"
  by (simp add: enforceProperty_count enforceProperty_plan split: option.splits)

lemma Semi_count:
  assumes "lChild (if JoinType p = SemiJoin
                   then removeLimit (if \<not> allInSchema lSchema prop then emptyProperty else prop)
                   else (if \<not> allInSchema lSchema prop then emptyProperty else prop)) s
             = (Return (Some l, None), s1)"
    and "rChild emptyProperty s1 = (Return (Some r, None), s2)"
  shows "\<exists>info. Join_convert2PhysicalPlanSemi matchProperty p lSchema lChild rChild prop s
                   = (Return (Some info, None), s2)
           \<and> count info =
               (let c = (if JoinType p = SemiJoin then scaleCount (count l) selectionFactor
                         else count l)
                in case limit prop of
                     None \<Rightarrow> c
                   | Some lmt \<Rightarrow>
                       if (JoinType p = SemiJoin \<or> \<not> allInSchema lSchema prop)
                          \<and> plan info \<noteq> None \<and> LimitCount lmt < c
                       then LimitCount lmt else c)"
proof -
  define c where "c = (if JoinType p = SemiJoin then scaleCount (count l) selectionFactor
                       else count l)"
  define join where "join = PhysicalPlan
       (PhysicalHashSemiJoin (JoinType p = SemiJoinWithAux) (anti p) (conditions p))
       (correlated p \<or> planCorrelated (plan l) \<or> planCorrelated (plan r)) (schema p) []"
  define r1 where "r1 = (matchProperty join prop [l, r])\<lparr>count := c\<rparr>"
  define info where "info = (if \<not> allInSchema lSchema prop then enforceProperty prop r1
                     else if JoinType p = SemiJoin
                     then enforceProperty (limitProperty (limit prop)) r1 else r1)"
  have run: "Join_convert2PhysicalPlanSemi matchProperty p lSchema lChild rChild prop s
               = (Return (Some info, None), s2)"
    using assms unfolding Join_convert2PhysicalPlanSemi_def Let_def
    by (simp add: info_def r1_def c_def join_def)
  have c1: "count r1 = c" by (simp add: r1_def)
  have cnt: "count info =
      (case limit prop of
         None \<Rightarrow> c
       | Some lmt \<Rightarrow>
           if (JoinType p = SemiJoin \<or> \<not> allInSchema lSchema prop)
              \<and> plan info \<noteq> None \<and> LimitCount lmt < c
           then LimitCount lmt else c)"
  proof (cases "\<not> allInSchema lSchema prop")
    case True
    then have i: "info = enforceProperty prop r1" by (simp add: info_def)
    show ?thesis unfolding i using True c1
      by (simp add: limitedCount split: option.splits)
  next
    case False
    show ?thesis
    proof (cases "JoinType p = SemiJoin")
      case True
      then have i: "info = enforceProperty (limitProperty (limit prop)) r1"
        using False by (simp add: info_def)
      show ?thesis unfolding i using True c1
        by (simp add: limitedCount limitProperty_def split: option.splits)
    next
      case no: False
      then have i: "info = r1" using False by (simp add: info_def)
      show ?thesis unfolding i using no False c1 by (simp split: option.splits)
    qed
  qed
  show ?thesis using run cnt unfolding Let_def c_def by blast
qed

lemma Left_count:
  assumes "lChild (if innerJoin
                   then removeLimit (if \<not> allInSchema lSchema prop then emptyProperty else prop)
                   else convertLimitOffsetToCount
                          (if \<not> allInSchema lSchema prop then emptyProperty else prop)) s
             = (Return (Some l, None), s1)"
    and "rChild emptyProperty s1 = (Return (Some r, None), s2)"
  shows "\<exists>info. Join_convert2PhysicalPlanLeft matchProperty p lSchema lChild rChild prop innerJoin s
                   = (Return (Some info, None), s2)
           \<and> count info =
               (let c = count (matchProperty
                       (PhysicalPlan
                          (PhysicalHashJoin (if innerJoin then InnerJoin else LeftOuterJoin)
                             1 JoinConcurrency (conditions p) (DefaultValues p))
                          (correlated p \<or> planCorrelated (plan l) \<or> planCorrelated (plan r))
                          (schema p) [])
                       prop [l, r])
                in case limit prop of
                     None \<Rightarrow> c
                   | Some lmt \<Rightarrow> if plan info \<noteq> None \<and> LimitCount lmt < c
                                 then LimitCount lmt else c)"
proof -
  define join where "join = PhysicalPlan
       (PhysicalHashJoin (if innerJoin then InnerJoin else LeftOuterJoin)
          1 JoinConcurrency (conditions p) (DefaultValues p))
       (correlated p \<or> planCorrelated (plan l) \<or> planCorrelated (plan r)) (schema p) []"
  define r1 where "r1 = matchProperty join prop [l, r]"
  define info where "info = (if \<not> allInSchema lSchema prop then enforceProperty prop r1
                     else enforceProperty (limitProperty (limit prop)) r1)"
  have run: "Join_convert2PhysicalPlanLeft matchProperty p lSchema lChild rChild prop innerJoin s
               = (Return (Some info, None), s2)"
    using assms unfolding Join_convert2PhysicalPlanLeft_def Let_def
    by (simp add: info_def r1_def join_def)
  have cnt: "count info =
      (case limit prop of
         None \<Rightarrow> count r1
       | Some lmt \<Rightarrow> if plan info \<noteq> None \<and> LimitCount lmt < count r1
                     then LimitCount lmt else count r1)"
  proof (cases "\<not> allInSchema lSchema prop")
    case True
    then have i: "info = enforceProperty prop r1" by (simp add: info_def)
    show ?thesis unfolding i by (simp add: limitedCount split: option.splits)
  next
    case False
    then have i: "info = enforceProperty (limitProperty (limit prop)) r1" by (simp add: info_def)
    show ?thesis unfolding i
      by (simp add: limitedCount limitProperty_def split: option.splits)
  qed
  show ?thesis using run cnt unfolding Let_def r1_def join_def by blast
qed

lemma Right_count:
  assumes "lChild emptyProperty s = (Return (Some l, None), s1)"
    and "(if \<not> allInSchema rSchema prop then Return emptyProperty
          else replaceColsInPropBySchema prop rSchema) = Return rProp"
    and "rChild (if innerJoin then removeLimit rProp else convertLimitOffsetToCount rProp) s1
           = (Return (Some r, None), s2)"
  shows "\<exists>info. Join_convert2PhysicalPlanRight matchProperty p rSchema lChild rChild prop innerJoin s
                   = (Return (Some info, None), s2)
           \<and> count info =
               (let c = count (matchProperty
                       (PhysicalPlan
                          (PhysicalHashJoin (if innerJoin then InnerJoin else RightOuterJoin)
                             0 JoinConcurrency (conditions p) (DefaultValues p))
                          (correlated p \<or> planCorrelated (plan l) \<or> planCorrelated (plan r))
                          (schema p) [])
                       prop [l, r])
                in case limit prop of
                     None \<Rightarrow> c
                   | Some lmt \<Rightarrow> if plan info \<noteq> None \<and> LimitCount lmt < c
                                 then LimitCount lmt else c)"
proof -
  define join where "join = PhysicalPlan
       (PhysicalHashJoin (if innerJoin then InnerJoin else RightOuterJoin)
          0 JoinConcurrency (conditions p) (DefaultValues p))
       (correlated p \<or> planCorrelated (plan l) \<or> planCorrelated (plan r)) (schema p) []"
  define r1 where "r1 = matchProperty join prop [l, r]"
  define info where "info = (if \<not> allInSchema rSchema prop then enforceProperty prop r1
                     else enforceProperty (limitProperty (limit prop)) r1)"
  have run: "Join_convert2PhysicalPlanRight matchProperty p rSchema lChild rChild prop innerJoin s
               = (Return (Some info, None), s2)"
    using assms unfolding Join_convert2PhysicalPlanRight_def Let_def
    by (simp add: info_def r1_def join_def)
  have cnt: "count info =
      (case limit prop of
         None \<Rightarrow> count r1
       | Some lmt \<Rightarrow> if plan info \<noteq> None \<and> LimitCount lmt < count r1
                     then LimitCount lmt else count r1)"
  proof (cases "\<not> allInSchema rSchema prop")
    case True
    then have i: "info = enforceProperty prop r1" by (simp add: info_def)
    show ?thesis unfolding i by (simp add: limitedCount split: option.splits)
  next
    case False
    then have i: "info = enforceProperty (limitProperty (limit prop)) r1" by (simp add: info_def)
    show ?thesis unfolding i
      by (simp add: limitedCount limitProperty_def split: option.splits)
  qed
  show ?thesis using run cnt unfolding Let_def r1_def join_def by blast
qed

text \<open>
  Claim C4, as the code has it. Line 507 tests \<open>p.JoinType == SemiJoin\<close>. When both
  children are converted, the conversion of a semi join returns an info whose count is
  \<open>uint64(float64(n) * selectionFactor)\<close> of the left child's count \<open>n\<close> for a semi join
  without the auxiliary marker, and \<open>n\<close> itself with the marker. Lines 512 to 516 enforce
  the property without the marker, and with it when a requested column is not a column of
  the left child: then a plan with a requested limit whose count is smaller is given that
  count. The product is computed in \<open>float64\<close>; it truncates to \<open>4 n div 5\<close> for
  \<open>n < 2^50\<close>. The conversions of the other join kinds, \<open>convert2PhysicalPlanLeft\<close> and
  \<open>convert2PhysicalPlanRight\<close>, do not set the count: the info has the count that
  \<open>matchProperty\<close> of the physical join returned, lowered by a limit in the same way.
\<close>

theorem Join_row_count:
  "(lChild (if JoinType p = SemiJoin
            then removeLimit (if \<not> allInSchema lSchema prop then emptyProperty else prop)
            else (if \<not> allInSchema lSchema prop then emptyProperty else prop)) s
      = (Return (Some l, None), s1)
    \<longrightarrow> rChild emptyProperty s1 = (Return (Some r, None), s2)
    \<longrightarrow> (\<exists>info. Join_convert2PhysicalPlanSemi matchProperty p lSchema lChild rChild prop s
                   = (Return (Some info, None), s2)
           \<and> count info =
               (let c = (if JoinType p = SemiJoin then scaleCount (count l) selectionFactor
                         else count l)
                in case limit prop of
                     None \<Rightarrow> c
                   | Some lmt \<Rightarrow>
                       if (JoinType p = SemiJoin \<or> \<not> allInSchema lSchema prop)
                          \<and> plan info \<noteq> None \<and> LimitCount lmt < c
                       then LimitCount lmt else c)))
   \<and> (unat n < 2 ^ 50 \<longrightarrow> unat (scaleCount n selectionFactor) = unat n * 4 div 5)
   \<and> (lChild (if innerJoin
               then removeLimit (if \<not> allInSchema lSchema prop then emptyProperty else prop)
               else convertLimitOffsetToCount
                      (if \<not> allInSchema lSchema prop then emptyProperty else prop)) s
         = (Return (Some l, None), s1)
       \<longrightarrow> rChild emptyProperty s1 = (Return (Some r, None), s2)
       \<longrightarrow> (\<exists>info.
              Join_convert2PhysicalPlanLeft matchProperty p lSchema lChild rChild prop innerJoin s
                = (Return (Some info, None), s2)
              \<and> count info =
                  (let c = count (matchProperty
                       (PhysicalPlan
                          (PhysicalHashJoin (if innerJoin then InnerJoin else LeftOuterJoin)
                             1 JoinConcurrency (conditions p) (DefaultValues p))
                          (correlated p \<or> planCorrelated (plan l) \<or> planCorrelated (plan r))
                          (schema p) [])
                       prop [l, r])
                   in case limit prop of
                        None \<Rightarrow> c
                      | Some lmt \<Rightarrow> if plan info \<noteq> None \<and> LimitCount lmt < c
                                    then LimitCount lmt else c)))
   \<and> (lChild emptyProperty s = (Return (Some l, None), s1)
       \<longrightarrow> (if \<not> allInSchema rSchema prop then Return emptyProperty
            else replaceColsInPropBySchema prop rSchema) = Return rProp
       \<longrightarrow> rChild (if innerJoin then removeLimit rProp else convertLimitOffsetToCount rProp) s1
             = (Return (Some r, None), s2)
       \<longrightarrow> (\<exists>info.
              Join_convert2PhysicalPlanRight matchProperty p rSchema lChild rChild prop innerJoin s
                = (Return (Some info, None), s2)
              \<and> count info =
                  (let c = count (matchProperty
                       (PhysicalPlan
                          (PhysicalHashJoin (if innerJoin then InnerJoin else RightOuterJoin)
                             0 JoinConcurrency (conditions p) (DefaultValues p))
                          (correlated p \<or> planCorrelated (plan l) \<or> planCorrelated (plan r))
                          (schema p) [])
                       prop [l, r])
                   in case limit prop of
                        None \<Rightarrow> c
                      | Some lmt \<Rightarrow> if plan info \<noteq> None \<and> LimitCount lmt < c
                                    then LimitCount lmt else c)))"
proof (intro conjI impI)
  assume "lChild (if JoinType p = SemiJoin
            then removeLimit (if \<not> allInSchema lSchema prop then emptyProperty else prop)
            else (if \<not> allInSchema lSchema prop then emptyProperty else prop)) s
      = (Return (Some l, None), s1)"
    and "rChild emptyProperty s1 = (Return (Some r, None), s2)"
  then show "\<exists>info. Join_convert2PhysicalPlanSemi matchProperty p lSchema lChild rChild prop s
                   = (Return (Some info, None), s2)
           \<and> count info =
               (let c = (if JoinType p = SemiJoin then scaleCount (count l) selectionFactor
                         else count l)
                in case limit prop of
                     None \<Rightarrow> c
                   | Some lmt \<Rightarrow>
                       if (JoinType p = SemiJoin \<or> \<not> allInSchema lSchema prop)
                          \<and> plan info \<noteq> None \<and> LimitCount lmt < c
                       then LimitCount lmt else c)"
    by (rule Semi_count)
next
  assume "unat n < 2 ^ 50"
  then show "unat (scaleCount n selectionFactor) = unat n * 4 div 5"
    by (rule scaleCount_selectionFactor)
next
  assume "lChild (if innerJoin
               then removeLimit (if \<not> allInSchema lSchema prop then emptyProperty else prop)
               else convertLimitOffsetToCount
                      (if \<not> allInSchema lSchema prop then emptyProperty else prop)) s
         = (Return (Some l, None), s1)"
    and "rChild emptyProperty s1 = (Return (Some r, None), s2)"
  then show "\<exists>info.
              Join_convert2PhysicalPlanLeft matchProperty p lSchema lChild rChild prop innerJoin s
                = (Return (Some info, None), s2)
              \<and> count info =
                  (let c = count (matchProperty
                       (PhysicalPlan
                          (PhysicalHashJoin (if innerJoin then InnerJoin else LeftOuterJoin)
                             1 JoinConcurrency (conditions p) (DefaultValues p))
                          (correlated p \<or> planCorrelated (plan l) \<or> planCorrelated (plan r))
                          (schema p) [])
                       prop [l, r])
                   in case limit prop of
                        None \<Rightarrow> c
                      | Some lmt \<Rightarrow> if plan info \<noteq> None \<and> LimitCount lmt < c
                                    then LimitCount lmt else c)"
    by (rule Left_count)
next
  assume "lChild emptyProperty s = (Return (Some l, None), s1)"
    and "(if \<not> allInSchema rSchema prop then Return emptyProperty
            else replaceColsInPropBySchema prop rSchema) = Return rProp"
    and "rChild (if innerJoin then removeLimit rProp else convertLimitOffsetToCount rProp) s1
             = (Return (Some r, None), s2)"
  then show "\<exists>info.
              Join_convert2PhysicalPlanRight matchProperty p rSchema lChild rChild prop innerJoin s
                = (Return (Some info, None), s2)
              \<and> count info =
                  (let c = count (matchProperty
                       (PhysicalPlan
                          (PhysicalHashJoin (if innerJoin then InnerJoin else RightOuterJoin)
                             0 JoinConcurrency (conditions p) (DefaultValues p))
                          (correlated p \<or> planCorrelated (plan l) \<or> planCorrelated (plan r))
                          (schema p) [])
                       prop [l, r])
                   in case limit prop of
                        None \<Rightarrow> c
                      | Some lmt \<Rightarrow> if plan info \<noteq> None \<and> LimitCount lmt < c
                                    then LimitCount lmt else c)"
    by (rule Right_count)
qed

text \<open>
  Joins whose children deliver 100 rows, asked for five rows; \<open>matchProperty\<close> of the
  example returns the count 0. The semi join is estimated at 5 rows (80 without the limit),
  with the auxiliary marker at 100 rows, the outer joins at 0 rows.
\<close>

lemmas join_example_defs = allInSchema_def emptyProperty_def removeLimit_def
  convertLimitOffsetToCount_def countingChild_def exampleJoin_def exampleJoinMatch_def
  setChildren_def scanInfo_def planCorrelated_def enforceProperty_def limitProperty_def
  addPlanToResponse_def replaceColsInPropBySchema_def Let_def

lemma exampleSemiLimit_run:
  "map_option count (resultInfo (Join_convert2PhysicalPlanSemi exampleJoinMatch
       (exampleJoin SemiJoin) [colA, colB] countingChild countingChild
       (limitProperty (Some \<lparr>LimitOffset = 0, LimitCount = 5\<rparr>)) 0))
     = Some 5"
  by (simp add: resultInfo_def Join_convert2PhysicalPlanSemi_def join_example_defs scaleCount_100)

theorem Join_row_count_witness:
  "map_option count (resultInfo (Join_convert2PhysicalPlanSemi exampleJoinMatch
       (exampleJoin SemiJoin) [colA, colB] countingChild countingChild
       (limitProperty (Some \<lparr>LimitOffset = 0, LimitCount = 5\<rparr>)) 0)) = Some 5
   \<and> unat (scaleCount 100 selectionFactor) = 80
   \<and> map_option count (resultInfo (Join_convert2PhysicalPlanSemi exampleJoinMatch
       (exampleJoin SemiJoinWithAux) [colA, colB] countingChild countingChild
       (limitProperty (Some \<lparr>LimitOffset = 0, LimitCount = 5\<rparr>)) 0)) = Some 100
   \<and> map_option count (resultInfo (Join_convert2PhysicalPlanLeft exampleJoinMatch
       (exampleJoin LeftOuterJoin) [colA, colB] countingChild countingChild
       (limitProperty (Some \<lparr>LimitOffset = 0, LimitCount = 5\<rparr>)) False 0)) = Some 0
   \<and> map_option count (resultInfo (Join_convert2PhysicalPlanRight exampleJoinMatch
       (exampleJoin LeftOuterJoin) [colC] countingChild countingChild
       (limitProperty (Some \<lparr>LimitOffset = 0, LimitCount = 5\<rparr>)) False 0)) = Some 0"
proof -
  let ?q = "limitProperty (Some \<lparr>LimitOffset = 0, LimitCount = 5\<rparr>)"
  have all: "allInSchema sch ?q" for sch by (simp add: allInSchema_def limitProperty_def)
  have child: "countingChild q n = (Return (Some scanInfo, None), Suc n)" for q n
    by (simp add: countingChild_def)
  have lim: "limit ?q = Some \<lparr>LimitOffset = 0, LimitCount = 5\<rparr>" by (simp add: limitProperty_def)
  have cnt: "count scanInfo = 100" by (simp add: scanInfo_def)
  have m: "count (exampleJoinMatch j q is) = 0" for j q "is" by (simp add: exampleJoinMatch_def)
  note t1 = Join_row_count [of countingChild "exampleJoin SemiJoin" "[colA, colB]" ?q 0 scanInfo 1
      countingChild scanInfo 2 exampleJoinMatch 100 False "[colC]" ?q]
  note t2 = Join_row_count [of countingChild "exampleJoin SemiJoinWithAux" "[colA, colB]" ?q 0
      scanInfo 1 countingChild scanInfo 2 exampleJoinMatch 100 False "[colC]" ?q]
  note t3 = Join_row_count [of countingChild "exampleJoin LeftOuterJoin" "[colA, colB]" ?q 0
      scanInfo 1 countingChild scanInfo 2 exampleJoinMatch 100 False "[colC]" ?q]
  have rp: "replaceColsInPropBySchema ?q [colC] = Return ?q"
    by (simp add: replaceColsInPropBySchema_def limitProperty_def)
  have a: "\<exists>info. Join_convert2PhysicalPlanSemi exampleJoinMatch (exampleJoin SemiJoin) [colA, colB]
             countingChild countingChild ?q 0 = (Return (Some info, None), 2)
         \<and> count info = (if plan info = None then 80 else 5)"
    using t1 [THEN conjunct1]
    by (auto simp: all child lim cnt scaleCount_100 exampleJoin_def Let_def)
  have b: "unat (scaleCount 100 selectionFactor) = 80"
    using t1 [THEN conjunct2, THEN conjunct1] by simp
  have c: "\<exists>info. Join_convert2PhysicalPlanSemi exampleJoinMatch (exampleJoin SemiJoinWithAux)
             [colA, colB] countingChild countingChild ?q 0 = (Return (Some info, None), 2)
         \<and> count info = 100"
    using t2 [THEN conjunct1]
    by (simp add: all child lim cnt exampleJoin_def Let_def)
  have d: "\<exists>info. Join_convert2PhysicalPlanLeft exampleJoinMatch (exampleJoin LeftOuterJoin)
             [colA, colB] countingChild countingChild ?q False 0 = (Return (Some info, None), 2)
         \<and> count info = 0"
    using t3 [THEN conjunct2, THEN conjunct2, THEN conjunct1]
    by (simp add: all child lim m Let_def)
  have e: "\<exists>info. Join_convert2PhysicalPlanRight exampleJoinMatch (exampleJoin LeftOuterJoin)
             [colC] countingChild countingChild ?q False 0 = (Return (Some info, None), 2)
         \<and> count info = 0"
    using t3 [THEN conjunct2, THEN conjunct2, THEN conjunct2] rp
    by (simp add: all child lim m Let_def)
  show ?thesis using a b c d e exampleSemiLimit_run by (auto simp: resultInfo_def)
qed

text \<open>
  The claim as it is stated fails twice: with the auxiliary marker the estimate is 100
  rows, not 80, and without it a limit of five rows gives the estimate 5.
\<close>

theorem Join_row_count_counterexample:
  "map_option count (resultInfo (Join_convert2PhysicalPlanSemi exampleJoinMatch
       (exampleJoin SemiJoinWithAux) [colA, colB] countingChild countingChild emptyProperty 0))
     = Some 100
   \<and> map_option count (resultInfo (Join_convert2PhysicalPlanSemi exampleJoinMatch
       (exampleJoin SemiJoin) [colA, colB] countingChild countingChild
       (limitProperty (Some \<lparr>LimitOffset = 0, LimitCount = 5\<rparr>)) 0))
     = Some 5
   \<and> count scanInfo = 100
   \<and> scaleCount (count scanInfo) selectionFactor = 80"
  by (simp add: resultInfo_def Join_convert2PhysicalPlanSemi_def join_example_defs scaleCount_100)

subsection \<open>Aggregation: stream or hash\<close>

text \<open>
  Claim C2, as the code has it. Line 845 evaluates the hashed strategy only for a required
  property without ordering columns; then both candidates exist and the streamed one
  replaces the hashed one when its cost is strictly lower. For a property with ordering
  columns the streamed strategy alone is evaluated and its candidate is returned, whatever
  its cost: the result does not depend on the storage interface, which only the hashed
  strategy asks. The candidate is wrapped with the requested limit and stored.
\<close>

theorem Aggregation_strategies:
  assumes "m prop = None"
  shows "(props prop \<noteq> [] \<longrightarrow>
            Aggregation_convert2PhysicalPlanStream p child (removeLimit prop) s
              = (Return (Some streamInfo, None), s1) \<longrightarrow>
            Aggregation_convert2PhysicalPlan d p child prop (m, s)
              = (Return (Some (enforceProperty (limitProperty (limit prop)) streamInfo), None),
                 (m(prop \<mapsto> enforceProperty (limitProperty (limit prop)) streamInfo), s1)))
       \<and> (props prop = [] \<longrightarrow>
            Aggregation_convert2PhysicalPlanHash d p child s = (Return (Some hashInfo, None), s1) \<longrightarrow>
            Aggregation_convert2PhysicalPlanStream p child (removeLimit prop) s1
              = (Return (Some streamInfo, None), s2) \<longrightarrow>
            Aggregation_convert2PhysicalPlan d p child prop (m, s)
              = (Return (Some (enforceProperty (limitProperty (limit prop))
                                 (if cost streamInfo < cost hashInfo then streamInfo else hashInfo)),
                         None),
                 (m(prop \<mapsto> enforceProperty (limitProperty (limit prop))
                                 (if cost streamInfo < cost hashInfo then streamInfo else hashInfo)),
                  s2)))
       \<and> (props prop \<noteq> [] \<longrightarrow>
            (\<forall>d'. Aggregation_convert2PhysicalPlan d' p child prop (m, s)
                   = Aggregation_convert2PhysicalPlan d p child prop (m, s)))"
proof (intro conjI impI allI)
  assume "props prop \<noteq> []"
    and "Aggregation_convert2PhysicalPlanStream p child (removeLimit prop) s
           = (Return (Some streamInfo, None), s1)"
  then show "Aggregation_convert2PhysicalPlan d p child prop (m, s)
      = (Return (Some (enforceProperty (limitProperty (limit prop)) streamInfo), None),
         (m(prop \<mapsto> enforceProperty (limitProperty (limit prop)) streamInfo), s1))"
    using assms
    by (simp add: Aggregation_convert2PhysicalPlan_def getPlanInfo_def storePlanInfo_def Let_def)
next
  assume "props prop = []"
    and "Aggregation_convert2PhysicalPlanHash d p child s = (Return (Some hashInfo, None), s1)"
    and "Aggregation_convert2PhysicalPlanStream p child (removeLimit prop) s1
           = (Return (Some streamInfo, None), s2)"
  then show "Aggregation_convert2PhysicalPlan d p child prop (m, s)
      = (Return (Some (enforceProperty (limitProperty (limit prop))
                         (if cost streamInfo < cost hashInfo then streamInfo else hashInfo)),
                 None),
         (m(prop \<mapsto> enforceProperty (limitProperty (limit prop))
                         (if cost streamInfo < cost hashInfo then streamInfo else hashInfo)),
          s2))"
    using assms
    by (simp add: Aggregation_convert2PhysicalPlan_def getPlanInfo_def storePlanInfo_def Let_def)
next
  fix d'
  assume "props prop \<noteq> []"
  then show "Aggregation_convert2PhysicalPlan d' p child prop (m, s)
      = Aggregation_convert2PhysicalPlan d p child prop (m, s)"
    by (simp add: Aggregation_convert2PhysicalPlan_def)
qed

text \<open>
  \<open>GROUP BY a, b\<close> over a child that delivers the order \<open>a, b\<close>, asked for that
  order: stream aggregation is returned, at cost \<open>10 + 100 * 0.9\<close>, after one
  conversion of the child. Asked for no order: both strategies are evaluated, in two
  conversions of the child, and the two-phase hash aggregation of cost 0 is returned.
\<close>

lemmas agg_example_defs = exampleAggregation_def exampleDistSQL_def countingChild_def scanInfo_def
  orderBy_def column_defs

lemma orderBy_props: "props (orderBy [colA, colB]) \<noteq> []"
  by (simp add: orderBy_def)

lemma orderBy_limit: "limit (orderBy cs) = None"
  by (simp add: orderBy_def)

lemma exampleStream_run:
  "Aggregation_convert2PhysicalPlanStream exampleAggregation countingChild
     (removeLimit (orderBy [colA, colB])) 0
   = (Return (Some \<lparr>plan = Some (PhysicalPlan
                        (PhysicalAggregation StreamedAgg True (AggFuncs exampleAggregation)
                           (GroupByItems exampleAggregation))
                        False [colA, colB] [plan scanInfo]),
                    cost = 100, count = 10\<rparr>, None), 1)"
  by (simp add: Aggregation_convert2PhysicalPlanStream_def agg_example_defs removeLimit_def
      index_def addPlanToResponse_def setChildren_def scaleCount_100 float64_of_uint64_def
      cpuFactor_def Let_def)

lemma exampleHash_run:
  "Aggregation_convert2PhysicalPlanHash exampleDistSQL exampleAggregation countingChild 0
   = (Return (Some \<lparr>plan = Some (PhysicalPlan
                        (PhysicalAggregation FinalAgg True (AggFuncs exampleAggregation)
                           (GroupByItems exampleAggregation))
                        False [colA, colB] [plan scanInfo]),
                    cost = 0, count = 10\<rparr>, None), 1)"
  by (simp add: Aggregation_convert2PhysicalPlanHash_def
      Aggregation_convert2PhysicalPlanFinalHash_def agg_example_defs emptyProperty_def
      addPlanToResponse_def setChildren_def scaleCount_100 float64_of_uint64_def
      Let_def)

lemma exampleStream_unordered_run:
  "Aggregation_convert2PhysicalPlanStream exampleAggregation countingChild
     (removeLimit emptyProperty) 1
   = (Return (Some \<lparr>plan = Some (PhysicalPlan
                        (PhysicalAggregation StreamedAgg True (AggFuncs exampleAggregation)
                           (GroupByItems exampleAggregation))
                        False [colA, colB] [plan scanInfo]),
                    cost = 100, count = 10\<rparr>, None), 2)"
  by (simp add: Aggregation_convert2PhysicalPlanStream_def exampleAggregation_def
      countingChild_def scanInfo_def emptyProperty_def removeLimit_def
      addPlanToResponse_def setChildren_def scaleCount_100 float64_of_uint64_def
      cpuFactor_def Let_def)

theorem Aggregation_strategies_witness:
  "Aggregation_convert2PhysicalPlan exampleDistSQL exampleAggregation countingChild
     (orderBy [colA, colB]) (emptyMemo, 0)
   = (Return (Some \<lparr>plan = Some (PhysicalPlan
                        (PhysicalAggregation StreamedAgg True (AggFuncs exampleAggregation)
                           (GroupByItems exampleAggregation))
                        False [colA, colB] [plan scanInfo]),
                    cost = 100, count = 10\<rparr>, None),
      (emptyMemo(orderBy [colA, colB] \<mapsto>
          \<lparr>plan = Some (PhysicalPlan
                        (PhysicalAggregation StreamedAgg True (AggFuncs exampleAggregation)
                           (GroupByItems exampleAggregation))
                        False [colA, colB] [plan scanInfo]),
                    cost = 100, count = 10\<rparr>), 1))
   \<and> Aggregation_convert2PhysicalPlan exampleDistSQL exampleAggregation countingChild
     emptyProperty (emptyMemo, 0)
   = (Return (Some \<lparr>plan = Some (PhysicalPlan
                        (PhysicalAggregation FinalAgg True (AggFuncs exampleAggregation)
                           (GroupByItems exampleAggregation))
                        False [colA, colB] [plan scanInfo]),
                    cost = 0, count = 10\<rparr>, None),
      (emptyMemo(emptyProperty \<mapsto>
          \<lparr>plan = Some (PhysicalPlan
                        (PhysicalAggregation FinalAgg True (AggFuncs exampleAggregation)
                           (GroupByItems exampleAggregation))
                        False [colA, colB] [plan scanInfo]),
                    cost = 0, count = 10\<rparr>), 2))"
proof -
  have e: "props emptyProperty = []" "limit emptyProperty = None"
    by (simp_all add: emptyProperty_def)
  show ?thesis
  proof (rule conjI)
    show "Aggregation_convert2PhysicalPlan exampleDistSQL exampleAggregation countingChild
       (orderBy [colA, colB]) (emptyMemo, 0)
     = (Return (Some \<lparr>plan = Some (PhysicalPlan
                        (PhysicalAggregation StreamedAgg True (AggFuncs exampleAggregation)
                           (GroupByItems exampleAggregation))
                        False [colA, colB] [plan scanInfo]),
                    cost = 100, count = 10\<rparr>, None),
        (emptyMemo(orderBy [colA, colB] \<mapsto>
          \<lparr>plan = Some (PhysicalPlan
                        (PhysicalAggregation StreamedAgg True (AggFuncs exampleAggregation)
                           (GroupByItems exampleAggregation))
                        False [colA, colB] [plan scanInfo]),
                    cost = 100, count = 10\<rparr>), 1))"
      using Aggregation_strategies [where m = emptyMemo and d = exampleDistSQL, THEN conjunct1,
          rule_format, OF emptyMemo_None orderBy_props exampleStream_run]
      by (simp add: enforceProperty_def limitProperty_def orderBy_limit)
  next
    show "Aggregation_convert2PhysicalPlan exampleDistSQL exampleAggregation countingChild
       emptyProperty (emptyMemo, 0)
     = (Return (Some \<lparr>plan = Some (PhysicalPlan
                        (PhysicalAggregation FinalAgg True (AggFuncs exampleAggregation)
                           (GroupByItems exampleAggregation))
                        False [colA, colB] [plan scanInfo]),
                    cost = 0, count = 10\<rparr>, None),
        (emptyMemo(emptyProperty \<mapsto>
          \<lparr>plan = Some (PhysicalPlan
                        (PhysicalAggregation FinalAgg True (AggFuncs exampleAggregation)
                           (GroupByItems exampleAggregation))
                        False [colA, colB] [plan scanInfo]),
                    cost = 0, count = 10\<rparr>), 2))"
      using Aggregation_strategies [where m = emptyMemo, THEN conjunct2, THEN conjunct1,
          rule_format, OF emptyMemo_None e(1) exampleHash_run exampleStream_unordered_run]
      by (simp add: enforceProperty_def limitProperty_def e)
  qed
qed

text \<open>
  In the same situation the hashed strategy, had it been evaluated, pushes the partial
  aggregation into the scan and costs 0 (line 785): the stream aggregation that is returned
  costs 100, which is not lower, and the child was converted once, not twice.
\<close>

theorem Aggregation_hash_not_compared_counterexample:
  "map_option cost (resultInfo (Aggregation_convert2PhysicalPlan exampleDistSQL exampleAggregation
       countingChild (orderBy [colA, colB]) (emptyMemo, 0))) = Some 100
   \<and> snd (snd (Aggregation_convert2PhysicalPlan exampleDistSQL exampleAggregation
       countingChild (orderBy [colA, colB]) (emptyMemo, 0))) = 1
   \<and> map_option cost (resultInfo (Aggregation_convert2PhysicalPlanHash exampleDistSQL
       exampleAggregation countingChild 0)) = Some 0
   \<and> \<not> (100 :: float64) < 0"
  by (simp add: resultInfo_def exampleHash_run Aggregation_convert2PhysicalPlan_def getPlanInfo_def
      storePlanInfo_def exampleStream_run enforceProperty_def limitProperty_def orderBy_props
      orderBy_limit Let_def emptyMemo_def)

subsection \<open>The memo: a second conversion\<close>

lemmas memo_defs = getPlanInfo_def storePlanInfo_def

lemmas result_splits = prod.splits option.splits outcome.splits if_splits

lemma Limit_hit:
  "m prop = Some info \<Longrightarrow>
   Limit_convert2PhysicalPlan p child prop (m, s) = (Return (Some info, None), (m, s))"
  by (simp add: Limit_convert2PhysicalPlan_def getPlanInfo_def)

lemma Limit_store:
  "Limit_convert2PhysicalPlan p child prop (m, s) = (Return (Some info, None), (m1, s1))
   \<Longrightarrow> m1 prop = Some info"
  by (auto simp: Limit_convert2PhysicalPlan_def memo_defs Let_def split: result_splits)

lemma Distinct_hit:
  "m prop = Some info \<Longrightarrow>
   Distinct_convert2PhysicalPlan p child prop (m, s) = (Return (Some info, None), (m, s))"
  by (simp add: Distinct_convert2PhysicalPlan_def getPlanInfo_def)

lemma Distinct_store:
  "Distinct_convert2PhysicalPlan p child prop (m, s) = (Return (Some info, None), (m1, s1))
   \<Longrightarrow> m1 prop = Some info"
  by (auto simp: Distinct_convert2PhysicalPlan_def memo_defs Let_def split: result_splits)

lemma Projection_hit:
  "m prop = Some info \<Longrightarrow>
   Projection_convert2PhysicalPlan p childSchema child prop (m, s)
     = (Return (Some info, None), (m, s))"
  by (simp add: Projection_convert2PhysicalPlan_def getPlanInfo_def)

lemma Projection_store:
  "Projection_convert2PhysicalPlan p childSchema child prop (m, s)
     = (Return (Some info, None), (m1, s1))
   \<Longrightarrow> projectionProps (schema p) (Exprs p) childSchema (props prop)
          (replicate (length childSchema) False)
          \<lparr>props = [], sortKeyLen = sortKeyLen prop, limit = limit prop\<rparr> \<noteq> Return None
   \<Longrightarrow> m1 prop = Some info"
  by (auto simp: Projection_convert2PhysicalPlan_def memo_defs Let_def split: result_splits)

lemma Projection_unstored:
  "Projection_convert2PhysicalPlan p childSchema child prop (m, s) = (r, (m1, s1))
   \<Longrightarrow> projectionProps (schema p) (Exprs p) childSchema (props prop)
          (replicate (length childSchema) False)
          \<lparr>props = [], sortKeyLen = sortKeyLen prop, limit = limit prop\<rparr> = Return None
   \<Longrightarrow> m1 = m \<and> s1 = s"
  by (auto simp: Projection_convert2PhysicalPlan_def memo_defs split: result_splits)

lemma Sort_hit:
  "m prop = Some info \<Longrightarrow>
   Sort_convert2PhysicalPlan p child prop (m, s) = (Return (Some info, None), (m, s))"
  by (simp add: Sort_convert2PhysicalPlan_def getPlanInfo_def)

lemma Sort_store:
  "Sort_convert2PhysicalPlan p child prop (m, s) = (Return (Some info, None), (m1, s1))
   \<Longrightarrow> m1 prop = Some info"
  by (auto simp: Sort_convert2PhysicalPlan_def memo_defs Let_def split: result_splits)

lemma DataSource_hit:
  "m prop = Some info \<Longrightarrow>
   DataSource_convert2PhysicalPlan ev ts is p prop m = (Return (Some info, None), m)"
  by (simp add: DataSource_convert2PhysicalPlan_def getPlanInfo_def)

lemma tryToConvert2DummyScan_store:
  "tryToConvert2DummyScan ev p prop m = ((Some info, err), m1) \<Longrightarrow> m1 prop = Some info"
  by (auto simp: tryToConvert2DummyScan_def memo_defs Let_def
      split: list.splits ParentPlan.splits sum.splits bool.splits if_splits)

lemma DataSource_store:
  "DataSource_convert2PhysicalPlan ev ts is p prop m = (Return (Some info, None), m1)
   \<Longrightarrow> m1 prop = Some info"
  by (auto simp: DataSource_convert2PhysicalPlan_def memo_defs Let_def
      split: result_splits dest: tryToConvert2DummyScan_store)

lemma Selection_hit:
  "m prop = Some info \<Longrightarrow>
   Selection_convert2PhysicalPlan d mp ds child prop (m, s) = (Return (Some info, None), (m, s))"
  by (simp add: Selection_convert2PhysicalPlan_def getPlanInfo_def)

lemma Selection_store:
  "Selection_convert2PhysicalPlan d mp ds child prop (m, s) = (Return (Some info, None), (m1, s1))
   \<Longrightarrow> m1 prop = Some info"
  by (auto simp: Selection_convert2PhysicalPlan_def memo_defs Let_def split: result_splits)

lemma Join_hit:
  "m prop = Some info \<Longrightarrow>
   Join_convert2PhysicalPlan mp p ls rs l r prop (m, s) = (Return (Some info, None), (m, s))"
  by (simp add: Join_convert2PhysicalPlan_def getPlanInfo_def)

lemma Join_store:
  "Join_convert2PhysicalPlan mp p ls rs l r prop (m, s) = (Return (Some info, None), (m1, s1))
   \<Longrightarrow> m1 prop = Some info"
  by (auto simp: Join_convert2PhysicalPlan_def memo_defs Let_def
      split: prod.splits option.splits outcome.splits)

lemma Aggregation_hit:
  "m prop = Some info \<Longrightarrow>
   Aggregation_convert2PhysicalPlan d p child prop (m, s) = (Return (Some info, None), (m, s))"
  by (simp add: Aggregation_convert2PhysicalPlan_def getPlanInfo_def)

lemma Aggregation_store:
  "Aggregation_convert2PhysicalPlan d p child prop (m, s) = (Return (Some info, None), (m1, s1))
   \<Longrightarrow> m1 prop = Some info"
  by (auto simp: Aggregation_convert2PhysicalPlan_def memo_defs Let_def
      split: prod.splits option.splits outcome.splits)

lemma unionChildren_exit:
  "unionChildren sch prop cs cnt infos s = (Inl x, s1) \<Longrightarrow> x \<noteq> Return (Some info, None)"
  by (induction cs arbitrary: cnt infos s)
     (auto split: prod.splits option.splits outcome.splits)

lemma Union_hit:
  "m prop = Some info \<Longrightarrow>
   Union_convert2PhysicalPlan mp p cs prop (m, s) = (Return (Some info, None), (m, s))"
  by (simp add: Union_convert2PhysicalPlan_def getPlanInfo_def)

lemma Union_store:
  "Union_convert2PhysicalPlan mp p cs prop (m, s) = (Return (Some info, None), (m1, s1))
   \<Longrightarrow> m1 prop = Some info"
  by (auto simp: Union_convert2PhysicalPlan_def memo_defs Let_def
      split: prod.splits option.splits outcome.splits sum.splits dest: unionChildren_exit)

lemma Apply_hit:
  "m prop = Some info \<Longrightarrow>
   Apply_convert2PhysicalPlan p innerSchema child innerPlan prop (m, s)
     = (Return (Some info, None), (m, s))"
  by (simp add: Apply_convert2PhysicalPlan_def getPlanInfo_def)

lemma Apply_store:
  "Apply_convert2PhysicalPlan p innerSchema child innerPlan prop (m, s)
     = (Return (Some info, None), (m1, s1))
   \<Longrightarrow> \<not> list_ex (\<lambda>c. GetIndex innerSchema (col c) \<noteq> - 1) (props prop)
   \<Longrightarrow> m1 prop = Some info"
  by (auto simp: Apply_convert2PhysicalPlan_def memo_defs Let_def split: result_splits)

lemma Apply_unstored:
  "Apply_convert2PhysicalPlan p innerSchema child innerPlan prop (m, s) = (r, (m1, s1))
   \<Longrightarrow> list_ex (\<lambda>c. GetIndex innerSchema (col c) \<noteq> - 1) (props prop)
   \<Longrightarrow> m1 = m \<and> s1 = s"
  by (auto simp: Apply_convert2PhysicalPlan_def memo_defs split: result_splits)

lemma atNode_memoized:
  assumes hit: "\<And>m s i. m prop = Some i \<Longrightarrow> g prop (m, s) = (Return (Some i, None), (m, s))"
    and store: "\<And>m s m1 s1. f prop (m, s) = (Return (Some info, None), (m1, s1))
                  \<Longrightarrow> m1 prop = Some info"
    and run: "atNode \<pi> f prop st = (Return (Some info, None), st1)"
  shows "st1 \<pi> prop = Some info \<and> atNode \<pi> g prop st1 = (Return (Some info, None), st1)"
proof -
  obtain r m1 s1 where f: "f prop (st \<pi>, st) = (r, (m1, s1))"
    by (metis surj_pair)
  with run have r: "r = Return (Some info, None)" and st1: "st1 = s1(\<pi> := m1)"
    by (simp_all add: atNode_def)
  have "m1 prop = Some info" using store f r by simp
  moreover have "st1 \<pi> = m1" by (simp add: st1)
  ultimately have "st1 \<pi> prop = Some info"
    and "g prop (st1 \<pi>, st1) = (Return (Some info, None), (st1 \<pi>, st1))"
    using hit by simp_all
  then show ?thesis by (simp add: atNode_def)
qed

lemma atNode_unchanged:
  assumes same: "\<And>m s r m1 s1. f prop (m, s) = (r, (m1, s1)) \<Longrightarrow> m1 = m \<and> s1 = s"
    and run: "atNode \<pi> f prop st = (r, st1)"
  shows "atNode \<pi> f prop st1 = (r, st1)"
proof -
  obtain r' m1 s1 where f: "f prop (st \<pi>, st) = (r', (m1, s1))"
    by (metis surj_pair)
  then have "m1 = st \<pi>" "s1 = st" using same by blast+
  with run f have "st1 = st" by (simp add: atNode_def)
  then show ?thesis using run by simp
qed

lemma convert2PhysicalPlan_stored:
  assumes "convert2PhysicalPlan env par \<pi> p prop st = (Return (Some info, None), st1)"
    and "\<not> returnsUnstored p prop"
  shows "st1 \<pi> prop = Some info
       \<and> convert2PhysicalPlan env' par' \<pi> p prop st1 = (Return (Some info, None), st1)"
proof (cases p)
  case (LDataSource ds)
  obtain r m1 where d: "DataSource_convert2PhysicalPlan (EvalBool env)
      (convert2TableScan env (ds\<lparr>parents := par\<rparr>)) (convert2IndexScan env (ds\<lparr>parents := par\<rparr>))
      (ds\<lparr>parents := par\<rparr>) prop (st \<pi>) = (r, m1)"
    by (metis surj_pair)
  with assms(1) LDataSource have r: "r = Return (Some info, None)" and st1: "st1 = st(\<pi> := m1)"
    by simp_all
  have m1: "m1 prop = Some info" using DataSource_store d r by blast
  then have "DataSource_convert2PhysicalPlan (EvalBool env')
      (convert2TableScan env' (ds\<lparr>parents := par'\<rparr>)) (convert2IndexScan env' (ds\<lparr>parents := par'\<rparr>))
      (ds\<lparr>parents := par'\<rparr>) prop (st1 \<pi>) = (Return (Some info, None), st1 \<pi>)"
    using DataSource_hit st1 by simp
  then show ?thesis using LDataSource m1 st1 by simp
next
  case (LSelection a c)
  show ?thesis unfolding LSelection convert2PhysicalPlan.simps
    apply (rule atNode_memoized)
      prefer 3
      apply (rule assms(1) [unfolded LSelection convert2PhysicalPlan.simps])
     apply (erule Selection_hit)
    apply (erule Selection_store)
    done
next
  case (LProjection a c)
  have store: "\<And>child m s m1 s1.
      Projection_convert2PhysicalPlan a (LogicalPlan_GetSchema c) child prop (m, s)
        = (Return (Some info, None), (m1, s1)) \<Longrightarrow> m1 prop = Some info"
    using assms(2) LProjection by (auto elim: Projection_store)
  show ?thesis unfolding LProjection convert2PhysicalPlan.simps
    apply (rule atNode_memoized)
      prefer 3
      apply (rule assms(1) [unfolded LProjection convert2PhysicalPlan.simps])
     apply (erule Projection_hit)
    apply (erule store)
    done
next
  case (LJoin a l r)
  show ?thesis unfolding LJoin convert2PhysicalPlan.simps
    apply (rule atNode_memoized)
      prefer 3
      apply (rule assms(1) [unfolded LJoin convert2PhysicalPlan.simps])
     apply (erule Join_hit)
    apply (erule Join_store)
    done
next
  case (LAggregation a c)
  show ?thesis unfolding LAggregation convert2PhysicalPlan.simps
    apply (rule atNode_memoized)
      prefer 3
      apply (rule assms(1) [unfolded LAggregation convert2PhysicalPlan.simps])
     apply (erule Aggregation_hit)
    apply (erule Aggregation_store)
    done
next
  case (LSort a c)
  show ?thesis unfolding LSort convert2PhysicalPlan.simps
    apply (rule atNode_memoized)
      prefer 3
      apply (rule assms(1) [unfolded LSort convert2PhysicalPlan.simps])
     apply (erule Sort_hit)
    apply (erule Sort_store)
    done
next
  case (LLimit b a c)
  show ?thesis unfolding LLimit convert2PhysicalPlan.simps
    apply (rule atNode_memoized)
      prefer 3
      apply (rule assms(1) [unfolded LLimit convert2PhysicalPlan.simps])
     apply (erule Limit_hit)
    apply (erule Limit_store)
    done
next
  case (LUnion a cs)
  show ?thesis unfolding LUnion convert2PhysicalPlan.simps
    apply (rule atNode_memoized)
      prefer 3
      apply (rule assms(1) [unfolded LUnion convert2PhysicalPlan.simps])
     apply (erule Union_hit)
    apply (erule Union_store)
    done
next
  case (LDistinct a c)
  show ?thesis unfolding LDistinct convert2PhysicalPlan.simps
    apply (rule atNode_memoized)
      prefer 3
      apply (rule assms(1) [unfolded LDistinct convert2PhysicalPlan.simps])
     apply (erule Distinct_hit)
    apply (erule Distinct_store)
    done
next
  case (LApply a c inner)
  have store: "\<And>child innerPlan m s m1 s1.
      Apply_convert2PhysicalPlan a (LogicalPlan_GetSchema inner) child innerPlan prop (m, s)
        = (Return (Some info, None), (m1, s1)) \<Longrightarrow> m1 prop = Some info"
    using assms(2) LApply by (auto elim: Apply_store)
  show ?thesis unfolding LApply convert2PhysicalPlan.simps
    apply (rule atNode_memoized)
      prefer 3
      apply (rule assms(1) [unfolded LApply convert2PhysicalPlan.simps])
     apply (erule Apply_hit)
    apply (erule store)
    done
qed

lemma convert2PhysicalPlan_unstored:
  assumes "convert2PhysicalPlan env par \<pi> p prop st = (r, st1)"
    and "returnsUnstored p prop"
  shows "convert2PhysicalPlan env par \<pi> p prop st1 = (r, st1)"
proof (cases p)
  case (LProjection a c)
  then show ?thesis using assms
    by (auto intro!: atNode_unchanged [where st = st] dest: Projection_unstored)
next
  case (LApply a c inner)
  then show ?thesis using assms
    by (auto intro!: atNode_unchanged [where st = st] dest: Apply_unstored)
qed (use assms(2) in simp_all)

text \<open>
  Claim C6, as the code has it. A conversion of any node of the tree that has returned an
  info returns the same info when it is called again with the same property, and leaves
  every memo as it is. Unless the first conversion returned before storing (the two places
  of Projection and Apply), the info is then in the memo of the node and the second
  conversion is answered from it: whatever the scans, the storage interface and
  \<open>matchProperty\<close> would compute, the answer is the stored info.
\<close>

theorem convert2PhysicalPlan_memoized:
  assumes "convert2PhysicalPlan env par \<pi> p prop st = (Return (Some info, None), st1)"
  shows "convert2PhysicalPlan env par \<pi> p prop st1 = (Return (Some info, None), st1)
       \<and> (\<not> returnsUnstored p prop \<longrightarrow>
            st1 \<pi> prop = Some info
            \<and> (\<forall>env' par'. convert2PhysicalPlan env' par' \<pi> p prop st1
                             = (Return (Some info, None), st1)))"
proof (cases "returnsUnstored p prop")
  case True
  then show ?thesis using convert2PhysicalPlan_unstored [OF assms] by simp
next
  case False
  then show ?thesis using convert2PhysicalPlan_stored [OF assms] by blast
qed

text \<open>A limit above a table scan, converted twice for the empty property.\<close>

lemma exampleLimitPlan_first:
  "fst (convert2PhysicalPlan exampleEnv [] [] exampleLimitPlan emptyProperty emptyMemos)
   = Return (Some scanInfo, None)"
  by (simp add: exampleLimitPlan_def exampleEnv_def atNode_def Limit_convert2PhysicalPlan_def
      DataSource_convert2PhysicalPlan_def tryToConvert2DummyScan_def need2ConsiderIndex_def
      getPlanInfo_def storePlanInfo_def exampleDataSource_def exampleTableScan_def
      limitProperty_def emptyProperty_def enforceProperty_def scanInfo_def Let_def
      emptyMemos_def emptyMemo_def)

theorem convert2PhysicalPlan_memoized_witness:
  "convert2PhysicalPlan exampleEnv [] [] exampleLimitPlan emptyProperty
     (snd (convert2PhysicalPlan exampleEnv [] [] exampleLimitPlan emptyProperty emptyMemos))
   = (Return (Some scanInfo, None),
      snd (convert2PhysicalPlan exampleEnv [] [] exampleLimitPlan emptyProperty emptyMemos))"
proof -
  have run: "convert2PhysicalPlan exampleEnv [] [] exampleLimitPlan emptyProperty emptyMemos
      = (Return (Some scanInfo, None),
         snd (convert2PhysicalPlan exampleEnv [] [] exampleLimitPlan emptyProperty emptyMemos))"
    using exampleLimitPlan_first by (metis prod.collapse)
  show ?thesis using convert2PhysicalPlan_memoized [OF run] by simp
qed

text \<open>
  The projection \<open>a, a + b\<close> asked for the order \<open>a, a + b\<close> returns the info of cost
  \<open>math.MaxFloat64\<close> and its memo has no entry for the property afterwards: the second
  conversion is not answered from the memo.
\<close>

theorem convert2PhysicalPlan_not_memoized_counterexample:
  "fst (convert2PhysicalPlan exampleEnv [] [] exampleProjectionPlan (orderBy [outA, outF])
          emptyMemos)
     = Return (Some unsatisfiable, None)
   \<and> snd (convert2PhysicalPlan exampleEnv [] [] exampleProjectionPlan (orderBy [outA, outF])
          emptyMemos) [] (orderBy [outA, outF])
     = None"
  by (simp add: exampleProjectionPlan_def atNode_def Projection_convert2PhysicalPlan_def
      getPlanInfo_def exampleProjection_def exampleDataSource_def orderBy_def index_def
      column_defs emptyMemos_def emptyMemo_def)


end
